theory Spec2Isabelle
  imports
    Complex_Main
    "HOL-Library.Char_ord"
    "HOL-Library.List_Lexorder"
    "HOL-Library.Signed_Division"
    "HOL-Library.Word"
begin

unbundle bit_operations_syntax

section \<open>JavaScript strings\<close>

text \<open>
  Strings are character lists. Every string the scripts compare is an account address, a
  token name or a token symbol; the model covers their ASCII range, where
  \<^verbatim>\<open>String.prototype.toLowerCase\<close> maps \<^verbatim>\<open>A-Z\<close> to \<^verbatim>\<open>a-z\<close> and leaves every other
  character alone. The operator \<^verbatim>\<open><\<close> on two strings compares them code unit by code unit,
  a proper prefix being smaller: this is the lexicographic order of lists over the order of
  characters by code, written \<open><\<close> below.
\<close>

definition lower_char :: "char \<Rightarrow> char" where
  "lower_char c =
     (if 65 \<le> (of_char c :: nat) \<and> (of_char c :: nat) \<le> 90
      then char_of ((of_char c :: nat) + 32) else c)"

definition toLowerCase :: "string \<Rightarrow> string" where
  "toLowerCase s = map lower_char s"

definition upper_char :: "char \<Rightarrow> char" where
  "upper_char c =
     (if 97 \<le> (of_char c :: nat) \<and> (of_char c :: nat) \<le> 122
      then char_of ((of_char c :: nat) - 32) else c)"

definition toUpperCase :: "string \<Rightarrow> string" where
  "toUpperCase s = map upper_char s"

text \<open>\<^verbatim>\<open>s.split(c)\<close> for a one-character separator.\<close>

fun split_on :: "char \<Rightarrow> string \<Rightarrow> string list" where
  "split_on c [] = [[]]"
| "split_on c (x # xs) =
     (if x = c then [] # split_on c xs
      else (case split_on c xs of
              [] \<Rightarrow> [[x]]
            | p # ps \<Rightarrow> (x # p) # ps))"

section \<open>Errors\<close>

text \<open>
  Every \<^verbatim>\<open>throw\<close> of the scripts and every exception of a library call is a value of
  this type; \<open>message\<close> is the \<^verbatim>\<open>error.message\<close> the handlers log and send back.
\<close>

datatype error =
    InvalidAddress string
  | PackError string
  | TokenNotFound string
  | NoLiquidity string
  | LibraryError string
  | TypeError string
  | RemoteCallError string
  | QueryFormat string
  | InsufficientBalance string

section \<open>Token resolution\<close>

text \<open>
  \<^verbatim>\<open>tokenMap\<close> is the parsed mapping file: an object keyed by contract address whose values
  carry \<^verbatim>\<open>name\<close> and \<^verbatim>\<open>symbol\<close>. \<^verbatim>\<open>Object.entries\<close> lists it in insertion order, so it is an
  association list here.
\<close>

record token_info =
  name :: string
  symbol :: string

type_synonym token_map = "(string \<times> token_info) list"

text \<open>The \<^verbatim>\<open>for ... of Object.entries(tokenMap)\<close> loop of \<^verbatim>\<open>findTokenAddress\<close>.\<close>

fun findTokenAddress_loop :: "string \<Rightarrow> token_map \<Rightarrow> string option" where
  "findTokenAddress_loop t [] = None"
| "findTokenAddress_loop t ((address, info) # rest) =
     (let nameMatch = (toLowerCase (name info) = t);
          symbolMatch = (toLowerCase (symbol info) = t)
      in if nameMatch \<or> symbolMatch then Some address
         else findTokenAddress_loop t rest)"

text \<open>\<^verbatim>\<open>findTokenAddress\<close> of \<^verbatim>\<open>app.js\<close> (lines 31-41); the script's (lines 66-76 of
  \<^verbatim>\<open>d_swap_from_mapping.js\<close>) differs in the wording of the message only.\<close>

definition findTokenAddress :: "token_map \<Rightarrow> string \<Rightarrow> error + string" where
  "findTokenAddress tokenMap tokenStr =
     (let t = toLowerCase tokenStr
      in case findTokenAddress_loop t tokenMap of
           Some address \<Rightarrow> Inr address
         | None \<Rightarrow> Inl (TokenNotFound tokenStr))"

text \<open>The loop returns the address of the first entry whose lower-cased name or symbol is
  the key, and nothing when no entry matches.\<close>

definition matches :: "string \<Rightarrow> string \<times> token_info \<Rightarrow> bool" where
  "matches t e = (toLowerCase (name (snd e)) = t \<or> toLowerCase (symbol (snd e)) = t)"

section \<open>The remote node, the trace of calls and the console\<close>

text \<open>
  Every read and every transaction is a call to the JSON-RPC node through the client
  library. The node is a world of an arbitrary type \<open>'w\<close> with one response function per
  contract method the scripts use: a call answers with a value or raises (the message of
  the exception), and may change the world. Amounts returned by the contracts are
  \<^verbatim>\<open>uint256\<close> values (naturals); an amount built locally is a \<^verbatim>\<open>BigNumber\<close> (an integer).
\<close>

record swap_params =
  param_tokenIn :: string
  param_tokenOut :: string
  param_fee :: nat
  param_recipient :: string
  param_deadline :: nat
  param_amountIn :: int
  param_amountOutMinimum :: int
  param_sqrtPriceLimitX96 :: nat

record overrides =
  gasLimit :: "nat option"
  val :: int

record 'w node =
  quoteExactInputSingle :: "string \<Rightarrow> string \<Rightarrow> nat \<Rightarrow> int \<Rightarrow> nat \<Rightarrow> 'w \<Rightarrow> (string + nat) \<times> 'w"
  balanceOf :: "string \<Rightarrow> string \<Rightarrow> 'w \<Rightarrow> (string + nat) \<times> 'w"
  allowance :: "string \<Rightarrow> string \<Rightarrow> string \<Rightarrow> 'w \<Rightarrow> (string + nat) \<times> 'w"
  approve :: "string \<Rightarrow> string \<Rightarrow> nat \<Rightarrow> 'w \<Rightarrow> (string + string) \<times> 'w"
  estimateGas :: "swap_params \<Rightarrow> 'w \<Rightarrow> (string + nat) \<times> 'w"
  exactInputSingle :: "swap_params \<Rightarrow> overrides \<Rightarrow> 'w \<Rightarrow> (string + string) \<times> 'w"
  wait :: "string \<Rightarrow> 'w \<Rightarrow> (string + string) \<times> 'w"

text \<open>
  The trace lists the calls issued, in order, each with its outcome. It is what an observer
  of the connection sees; the scripts never read it.
\<close>

datatype call =
    CallQuote string string nat int nat
  | CallBalanceOf string string
  | CallAllowance string string string
  | CallApprove string string nat
  | CallEstimateGas swap_params
  | CallSwap swap_params overrides
  | CallWait string

datatype outcome = Threw string | GotNumber nat | GotTx string | GotReceipt string

text \<open>A console line is a template literal: its pieces, numbers not yet printed.\<close>

datatype stream = Stdout | Stderr
datatype piece = Text string | Num int | Frac rat | Thrown error
type_synonym log_line = "stream \<times> piece list"

record 'w state =
  world :: 'w
  trace :: "(call \<times> outcome) list"
  console :: "log_line list"

type_synonym ('a, 'w) action = "'w state \<Rightarrow> (error + 'a) \<times> 'w state"

definition remote :: "call \<Rightarrow> ('a \<Rightarrow> outcome) \<Rightarrow> ('w \<Rightarrow> (string + 'a) \<times> 'w) \<Rightarrow> ('a, 'w) action" where
  "remote c got f s =
     (case f (world s) of
        (Inl msg, w) \<Rightarrow>
          (Inl (RemoteCallError msg), s\<lparr>world := w, trace := trace s @ [(c, Threw msg)]\<rparr>)
      | (Inr v, w) \<Rightarrow>
          (Inr v, s\<lparr>world := w, trace := trace s @ [(c, got v)]\<rparr>))"

definition logLines :: "log_line list \<Rightarrow> 'w state \<Rightarrow> 'w state" where
  "logLines ls s = s\<lparr>console := console s @ ls\<rparr>"

fun message :: "error \<Rightarrow> string" where
  "message (InvalidAddress m) = m"
| "message (PackError m) = m"
| "message (TokenNotFound t) = ''Token not found: '' @ t"
| "message (NoLiquidity m) = m"
| "message (LibraryError m) = m"
| "message (TypeError m) = m"
| "message (RemoteCallError m) = m"
| "message (QueryFormat m) = m"
| "message (InsufficientBalance m) = m"

section \<open>Quote selection\<close>

record quote =
  quote_fee :: nat
  quote_amountOut :: nat

definition feeTiers :: "nat list" where
  "feeTiers = [500, 3000, 10000]"

text \<open>
  The loop of \<^verbatim>\<open>getBestQuote\<close>: \<^verbatim>\<open>for (let fee of feeTiers) { try { ... return { fee, amountOut } }
  catch (error) { ... } }\<close> followed by the final \<^verbatim>\<open>throw\<close>. The copies of the function differ
  in what they print and in the message of the final error, so those are the arguments
  \<open>onOutput\<close>, \<open>onFailed\<close> and \<open>noPool\<close>; the list of tiers, which one copy extends, is an
  argument as well, so that the loop can be stated for any list.
\<close>

fun getBestQuote_loop ::
  "(nat \<Rightarrow> nat \<Rightarrow> log_line list) \<Rightarrow> (nat \<Rightarrow> string \<Rightarrow> log_line list) \<Rightarrow> string \<Rightarrow>
   'w node \<Rightarrow> string \<Rightarrow> string \<Rightarrow> int \<Rightarrow> nat list \<Rightarrow> (quote, 'w) action" where
  "getBestQuote_loop onOutput onFailed noPool nd tokenInAddress tokenOutAddress amountInWei [] s =
     (Inl (NoLiquidity noPool), s)"
| "getBestQuote_loop onOutput onFailed noPool nd tokenInAddress tokenOutAddress amountInWei (fee # rest) s =
     (case remote (CallQuote tokenInAddress tokenOutAddress fee amountInWei 0) GotNumber
             (quoteExactInputSingle nd tokenInAddress tokenOutAddress fee amountInWei 0) s of
        (Inr amountOut, s') \<Rightarrow>
          (Inr \<lparr>quote_fee = fee, quote_amountOut = amountOut\<rparr>, logLines (onOutput fee amountOut) s')
      | (Inl error, s') \<Rightarrow>
          getBestQuote_loop onOutput onFailed noPool nd tokenInAddress tokenOutAddress amountInWei rest
            (logLines (onFailed fee (message error)) s'))"

text \<open>\<^verbatim>\<open>app.js\<close>, lines 51-69: nothing printed on success, the failure on \<^verbatim>\<open>console.error\<close>.\<close>

definition tierFailed :: "stream \<Rightarrow> nat \<Rightarrow> string \<Rightarrow> log_line list" where
  "tierFailed out fee msg = [(out, [Text ''Fee tier '', Num (int fee), Text '' failed: '', Text msg])]"

definition getBestQuote :: "'w node \<Rightarrow> string \<Rightarrow> string \<Rightarrow> int \<Rightarrow> (quote, 'w) action" where
  "getBestQuote nd tokenInAddress tokenOutAddress amountInWei =
     getBestQuote_loop (\<lambda>fee amountOut. []) (tierFailed Stderr) ''No valid liquidity pool found.''
       nd tokenInAddress tokenOutAddress amountInWei feeTiers"

text \<open>\<^verbatim>\<open>d_swap_from_mapping.js\<close>, lines 104-122: both outcomes on \<^verbatim>\<open>console.log\<close>, the output
  printed through the library's \<^verbatim>\<open>formatUnits\<close>.\<close>

definition tierOutput :: "(nat \<Rightarrow> nat \<Rightarrow> string) \<Rightarrow> nat \<Rightarrow> nat \<Rightarrow> log_line list" where
  "tierOutput formatUnits fee amountOut =
     [(Stdout, [Text ''Fee tier '', Num (int fee), Text '' gives output: '', Text (formatUnits amountOut 18)])]"

definition getBestQuote_script ::
  "(nat \<Rightarrow> nat \<Rightarrow> string) \<Rightarrow> 'w node \<Rightarrow> string \<Rightarrow> string \<Rightarrow> int \<Rightarrow> (quote, 'w) action" where
  "getBestQuote_script formatUnits nd tokenInAddress tokenOutAddress amountInWei =
     getBestQuote_loop (tierOutput formatUnits) (tierFailed Stdout)
       ''No valid pools available for this token pair.''
       nd tokenInAddress tokenOutAddress amountInWei feeTiers"

text \<open>
  What the node answers when it is asked for the tiers \<open>fees\<close> one after the other, from the
  world \<open>w\<close>: \<open>failures\<close> is the messages of the exceptions and the world they leave when
  every one of these calls fails, and \<open>None\<close> as soon as one of them answers.
\<close>

fun failures ::
  "'w node \<Rightarrow> string \<Rightarrow> string \<Rightarrow> int \<Rightarrow> nat list \<Rightarrow> 'w \<Rightarrow> (string list \<times> 'w) option" where
  "failures nd tokenInAddress tokenOutAddress amountInWei [] w = Some ([], w)"
| "failures nd tokenInAddress tokenOutAddress amountInWei (fee # fees) w =
     (case quoteExactInputSingle nd tokenInAddress tokenOutAddress fee amountInWei 0 w of
        (Inl msg, w') \<Rightarrow>
          (case failures nd tokenInAddress tokenOutAddress amountInWei fees w' of
             None \<Rightarrow> None
           | Some (msgs, w'') \<Rightarrow> Some (msg # msgs, w''))
      | (Inr amountOut, w') \<Rightarrow> None)"

text \<open>The calls a run of the loop adds to the trace when the tiers \<open>fees\<close> fail with the
  messages \<open>msgs\<close>, and the lines it prints for them.\<close>

definition failedCalls :: "string \<Rightarrow> string \<Rightarrow> int \<Rightarrow> nat list \<Rightarrow> string list \<Rightarrow> (call \<times> outcome) list" where
  "failedCalls tokenInAddress tokenOutAddress amountInWei fees msgs =
     map2 (\<lambda>fee msg. (CallQuote tokenInAddress tokenOutAddress fee amountInWei 0, Threw msg)) fees msgs"

definition failedLines :: "(nat \<Rightarrow> string \<Rightarrow> log_line list) \<Rightarrow> nat list \<Rightarrow> string list \<Rightarrow> log_line list" where
  "failedLines onFailed fees msgs = concat (map2 onFailed fees msgs)"


text \<open>The state \<open>s\<close> after the failed calls for \<open>fees\<close>, and after the answered call for
  \<open>fee\<close>: the world the node left, the calls appended to the trace, the lines to the
  console.\<close>

definition afterFailures ::
  "(nat \<Rightarrow> string \<Rightarrow> log_line list) \<Rightarrow> string \<Rightarrow> string \<Rightarrow> int \<Rightarrow> nat list \<Rightarrow> string list \<Rightarrow>
   'w \<Rightarrow> 'w state \<Rightarrow> 'w state" where
  "afterFailures onFailed tokenInAddress tokenOutAddress amountInWei fees msgs w s =
     s\<lparr>world := w,
       trace := trace s @ failedCalls tokenInAddress tokenOutAddress amountInWei fees msgs,
       console := console s @ failedLines onFailed fees msgs\<rparr>"

definition afterAnswer ::
  "(nat \<Rightarrow> nat \<Rightarrow> log_line list) \<Rightarrow> string \<Rightarrow> string \<Rightarrow> int \<Rightarrow> nat \<Rightarrow> nat \<Rightarrow>
   'w \<Rightarrow> 'w state \<Rightarrow> 'w state" where
  "afterAnswer onOutput tokenInAddress tokenOutAddress amountInWei fee amountOut w s =
     s\<lparr>world := w,
       trace := trace s @ [(CallQuote tokenInAddress tokenOutAddress fee amountInWei 0, GotNumber amountOut)],
       console := console s @ onOutput fee amountOut\<rparr>"
section \<open>Slippage\<close>

text \<open>
  \<^verbatim>\<open>calculateSlippage\<close> (lines 84-95 of \<^verbatim>\<open>d_swap_from_mapping.js\<close>, lines 240-250 of \<^verbatim>\<open>app.js\<close>).
  The JavaScript numbers are the decimal literals \<^verbatim>\<open>0.005\<close> and \<^verbatim>\<open>0.03\<close>, their double
  \<^verbatim>\<open>BASE_SLIPPAGE * 2\<close> and the products with \<^verbatim>\<open>100\<close>; they are modelled as exact rationals.
\<close>

definition BASE_SLIPPAGE :: rat where
  "BASE_SLIPPAGE = 5 / 1000"

definition MAX_SLIPPAGE :: rat where
  "MAX_SLIPPAGE = 3 / 100"

definition calculateSlippage :: "string \<Rightarrow> string \<Rightarrow> rat" where
  "calculateSlippage tokenIn tokenOut =
     (if tokenIn = ''weth'' \<and> tokenOut = ''usdt'' then BASE_SLIPPAGE
      else if tokenIn = ''weth'' \<or> tokenOut = ''weth'' then min (BASE_SLIPPAGE * 2) MAX_SLIPPAGE
      else MAX_SLIPPAGE)"

text \<open>
  \<^verbatim>\<open>amountOut.mul(100 - (dynamicSlippage * 100)).div(100)\<close>. The argument of \<^verbatim>\<open>mul\<close> is a
  JavaScript number, which the library first turns into a \<^verbatim>\<open>BigNumber\<close>; that conversion
  is the argument \<open>fromNumber\<close> (it may raise). \<^verbatim>\<open>mul\<close> and \<^verbatim>\<open>div\<close> are exact integer
  operations, the quotient truncated towards zero.
\<close>

definition amountOutMinimum :: "(rat \<Rightarrow> error + int) \<Rightarrow> nat \<Rightarrow> rat \<Rightarrow> error + int" where
  "amountOutMinimum fromNumber amountOut dynamicSlippage =
     (case fromNumber (100 - (dynamicSlippage * 100)) of
        Inl e \<Rightarrow> Inl e
      | Inr k \<Rightarrow> Inr ((int amountOut * k) sdiv 100))"

text \<open>The conversion as the client library documents it: an integral number is taken as
  it is, any other raises a numeric fault.\<close>

definition exactFromNumber :: "rat \<Rightarrow> error + int" where
  "exactFromNumber x = (if of_int \<lfloor>x\<rfloor> = x then Inr \<lfloor>x\<rfloor> else Inl (LibraryError ''underflow''))"

section \<open>Pool address\<close>

text \<open>
  \<^verbatim>\<open>getPoolAddress\<close> calls two functions of the client library, which are arguments here:
  \<^item> \<open>getAddress\<close>, which returns the checksummed form of an account address or raises an
    invalid-argument error (\<open>Inl\<close> its message);
  \<^item> \<open>keccak256\<close>, which takes a list of Solidity types and a list of values, packs the
    values tightly and returns the Keccak-256 hash of the bytes as a hex string, or raises
    when a value does not fit its type. A type with its value is a \<open>sol_value\<close>.
\<close>

datatype sol_value =
    SolAddress string
  | SolUint24 nat
  | SolBytes string
  | SolBytes32 string

definition FACTORY_ADDRESS :: string where
  "FACTORY_ADDRESS = ''0x1F98431c8aD98523631AE4a59f267346ea31F984''"

definition POOL_INIT_CODE_HASH :: string where
  "POOL_INIT_CODE_HASH = ''0xe34f4def8b9951b4b0f4aaf0a3cbe9dc9f7a76bb2fa938612efb8e4e0d4b1d3e''"

text \<open>\<^verbatim>\<open>s.slice(-n)\<close>: the last \<open>n\<close> characters, the whole string when it is shorter.\<close>

definition slice_last :: "nat \<Rightarrow> string \<Rightarrow> string" where
  "slice_last n s = drop (length s - n) s"

definition getPoolAddress ::
  "(string \<Rightarrow> string + string) \<Rightarrow> (sol_value list \<Rightarrow> string + string) \<Rightarrow>
   string \<Rightarrow> string \<Rightarrow> nat \<Rightarrow> error + string" where
  "getPoolAddress getAddress keccak256 tokenA tokenB fee =
     (case getAddress tokenA of
        Inl m \<Rightarrow> Inl (InvalidAddress m)
      | Inr addressA \<Rightarrow>
     (case getAddress tokenB of
        Inl m \<Rightarrow> Inl (InvalidAddress m)
      | Inr addressB \<Rightarrow>
     (case (if toLowerCase addressA < toLowerCase addressB
            then (addressA, addressB) else (addressB, addressA)) of
        (token0, token1) \<Rightarrow>
     (case keccak256 [SolAddress token0, SolAddress token1, SolUint24 fee] of
        Inl m \<Rightarrow> Inl (PackError m)
      | Inr salt \<Rightarrow>
     (case keccak256 [SolBytes ''0xff'', SolAddress FACTORY_ADDRESS, SolBytes32 salt,
                      SolBytes32 POOL_INIT_CODE_HASH] of
        Inl m \<Rightarrow> Inl (PackError m)
      | Inr create2Hash \<Rightarrow>
     (case getAddress (''0x'' @ slice_last 40 create2Hash) of
        Inl m \<Rightarrow> Inl (InvalidAddress m)
      | Inr pool \<Rightarrow> Inr pool))))))"

subsection \<open>Hex strings\<close>

definition hexDigits :: string where
  "hexDigits = ''0123456789abcdef''"

definition isHex :: "string \<Rightarrow> bool" where
  "isHex ds = list_all (\<lambda>c. c \<in> set hexDigits) ds"

text \<open>A hash as the library returns it: \<^verbatim>\<open>0x\<close> and the 64 lower-case hex digits of 32 bytes.\<close>

definition isHash :: "string \<Rightarrow> bool" where
  "isHash h = (take 2 h = ''0x'' \<and> length h = 66 \<and> isHex (drop 2 h))"

definition digitValue :: "char \<Rightarrow> nat" where
  "digitValue c = length (takeWhile (\<lambda>d. d \<noteq> c) hexDigits)"

fun hexValue_acc :: "nat \<Rightarrow> string \<Rightarrow> nat" where
  "hexValue_acc acc [] = acc"
| "hexValue_acc acc (c # cs) = hexValue_acc (16 * acc + digitValue c) cs"

definition hexValue :: "string \<Rightarrow> nat" where
  "hexValue ds = hexValue_acc 0 ds"

fun toHex :: "nat \<Rightarrow> nat \<Rightarrow> string" where
  "toHex 0 v = []"
| "toHex (Suc n) v = toHex n (v div 16) @ [hexDigits ! (v mod 16)]"

subsection \<open>The locator as the specification words it\<close>

text \<open>
  The five steps of the specification: (1) both identifiers are normalised to checksummed
  form; (2) they are put in ascending order of their lower-case forms (a stable sort of
  the pair); (3) the first fingerprint is the hash of the ordered triple; (4) the second is
  the hash of the one-byte marker, the factory, the first fingerprint and the bytecode-hash
  constant; (5) the result is the low 20 bytes of the second fingerprint, read as a
  number, written again as 40 hex digits and put in checksummed form.
\<close>

definition low20bytes :: "string \<Rightarrow> string" where
  "low20bytes h = ''0x'' @ toHex 40 (hexValue (drop 2 h) mod 2 ^ 160)"

definition locatePool ::
  "(string \<Rightarrow> string + string) \<Rightarrow> (sol_value list \<Rightarrow> string + string) \<Rightarrow>
   string \<Rightarrow> string \<Rightarrow> nat \<Rightarrow> error + string" where
  "locatePool checksummed fingerprint tokenA tokenB fee =
     (case (checksummed tokenA, checksummed tokenB) of
        (Inl m, _) \<Rightarrow> Inl (InvalidAddress m)
      | (Inr a, Inl m) \<Rightarrow> Inl (InvalidAddress m)
      | (Inr a, Inr b) \<Rightarrow>
          (let ordered = sort_key toLowerCase [a, b];
               token0 = ordered ! 0;
               token1 = ordered ! 1
           in case fingerprint [SolAddress token0, SolAddress token1, SolUint24 fee] of
                Inl m \<Rightarrow> Inl (PackError m)
              | Inr first \<Rightarrow>
                  (case fingerprint [SolBytes ''0xff'', SolAddress FACTORY_ADDRESS,
                          SolBytes32 first, SolBytes32 POOL_INIT_CODE_HASH] of
                     Inl m \<Rightarrow> Inl (PackError m)
                   | Inr second \<Rightarrow>
                       (case checksummed (low20bytes second) of
                          Inl m \<Rightarrow> Inl (InvalidAddress m)
                        | Inr pool \<Rightarrow> Inr pool))))"

subsection \<open>What the theorems assume of the library\<close>

text \<open>An account address as a string: \<^verbatim>\<open>0x\<close> and 40 hex digits of either case.\<close>

definition isAddress :: "string \<Rightarrow> bool" where
  "isAddress a = (take 2 a = ''0x'' \<and> length a = 42 \<and> isHex (toLowerCase (drop 2 a)))"

text \<open>A value that fits the Solidity type it is packed as.\<close>

fun fitsType :: "sol_value \<Rightarrow> bool" where
  "fitsType (SolAddress a) = isAddress a"
| "fitsType (SolUint24 n) = (n < 2 ^ 24)"
| "fitsType (SolBytes b) = (take 2 b = ''0x'' \<and> even (length b) \<and> isHex (toLowerCase (drop 2 b)))"
| "fitsType (SolBytes32 b) = (take 2 b = ''0x'' \<and> length b = 66 \<and> isHex (toLowerCase (drop 2 b)))"

text \<open>
  \<^item> \<open>canonical\<close>: the checksummed form is a function of the address, so two results of
    \<open>getAddress\<close> that agree up to case are the same string;
  \<^item> \<open>returnsAddresses\<close>: a result of \<open>getAddress\<close> is an address;
  \<^item> \<open>acceptsLowerCase\<close>: \<open>getAddress\<close> accepts every address written in lower case (a
    checksum is only checked on a string of mixed case);
  \<^item> \<open>returnsHashes\<close>: a result of \<open>keccak256\<close> is a hash;
  \<^item> \<open>hashesTyped\<close>: \<open>keccak256\<close> does not raise on values that fit their types.
\<close>

definition canonical :: "(string \<Rightarrow> string + string) \<Rightarrow> bool" where
  "canonical getAddress \<longleftrightarrow>
     (\<forall>s t a b. getAddress s = Inr a \<and> getAddress t = Inr b \<and> toLowerCase a = toLowerCase b \<longrightarrow> a = b)"

definition returnsAddresses :: "(string \<Rightarrow> string + string) \<Rightarrow> bool" where
  "returnsAddresses getAddress \<longleftrightarrow> (\<forall>s a. getAddress s = Inr a \<longrightarrow> isAddress a)"

definition acceptsLowerCase :: "(string \<Rightarrow> string + string) \<Rightarrow> bool" where
  "acceptsLowerCase getAddress \<longleftrightarrow>
     (\<forall>ds. isHex ds \<and> length ds = 40 \<longrightarrow> (\<exists>a. getAddress (''0x'' @ ds) = Inr a))"

definition returnsHashes :: "(sol_value list \<Rightarrow> string + string) \<Rightarrow> bool" where
  "returnsHashes keccak256 \<longleftrightarrow> (\<forall>vs h. keccak256 vs = Inr h \<longrightarrow> isHash h)"

definition hashesTyped :: "(sol_value list \<Rightarrow> string + string) \<Rightarrow> bool" where
  "hashesTyped keccak256 \<longleftrightarrow> (\<forall>vs. list_all fitsType vs \<longrightarrow> (\<exists>h. keccak256 vs = Inr h))"

section \<open>The HTTP service\<close>

text \<open>
  A field of the parsed JSON body: a missing key reads as \<^verbatim>\<open>undefined\<close>; \<open>Object\<close> stands for
  any array or object. \<open>truthy\<close> is JavaScript's \<^verbatim>\<open>!!v\<close>.
\<close>

datatype jsval = Undefined | Null | Bool bool | Number rat | Str string | Object

fun truthy :: "jsval \<Rightarrow> bool" where
  "truthy Undefined = False"
| "truthy Null = False"
| "truthy (Bool b) = b"
| "truthy (Number x) = (x \<noteq> 0)"
| "truthy (Str s) = (s \<noteq> [])"
| "truthy Object = True"

record request_body =
  body_amountIn :: jsval
  body_tokenIn :: jsval
  body_tokenOut :: jsval

text \<open>The body of an answer: the three JSON objects the handlers send, \<^verbatim>\<open>{error}\<close>,
  \<^verbatim>\<open>{feeTier, amountOut}\<close> and \<^verbatim>\<open>{transactionHash}\<close>, or a page of the framework, which is not
  JSON.\<close>

datatype response_body =
    ErrorBody string
  | QuoteBody nat string
  | SwapBody string
  | Page string

record response =
  status :: nat
  body :: response_body

text \<open>Sequencing of actions: an exception ends the rest of the \<^verbatim>\<open>try\<close> block.\<close>

definition andThen :: "('a, 'w) action \<Rightarrow> ('a \<Rightarrow> ('b, 'w) action) \<Rightarrow> ('b, 'w) action" where
  "andThen m f s = (case m s of (Inl e, s') \<Rightarrow> (Inl e, s') | (Inr a, s') \<Rightarrow> f a s')"

definition local :: "error + 'a \<Rightarrow> ('a, 'w) action" where
  "local r s = (r, s)"

text \<open>\<^verbatim>\<open>tokenStr.toLowerCase()\<close> is a type error on a value that is not a string.\<close>

definition findTokenAddress_of :: "token_map \<Rightarrow> jsval \<Rightarrow> error + string" where
  "findTokenAddress_of tokenMap v =
     (case v of
        Str tokenStr \<Rightarrow> findTokenAddress tokenMap tokenStr
      | _ \<Rightarrow> Inl (TypeError ''tokenStr.toLowerCase is not a function''))"

text \<open>A library call that raises: the exception carries the library's message.\<close>

definition library :: "string + 'a \<Rightarrow> error + 'a" where
  "library r = (case r of Inl m \<Rightarrow> Inl (LibraryError m) | Inr v \<Rightarrow> Inr v)"

text \<open>
  \<^verbatim>\<open>app.post('/quote', ...)\<close> of \<^verbatim>\<open>app.js\<close>, lines 130-151. \<open>parseEther\<close> and \<open>formatUnits\<close> are the
  library's; \<open>quote_try\<close> is the body of the \<^verbatim>\<open>try\<close> block and \<open>post_quote\<close> the handler with its
  check of the body and its \<^verbatim>\<open>catch\<close>.
\<close>

definition quote_try ::
  "token_map \<Rightarrow> (jsval \<Rightarrow> string + int) \<Rightarrow> (nat \<Rightarrow> nat \<Rightarrow> string) \<Rightarrow> 'w node \<Rightarrow>
   request_body \<Rightarrow> (response, 'w) action" where
  "quote_try tokenMap parseEther formatUnits nd req =
     andThen (local (findTokenAddress_of tokenMap (body_tokenIn req))) (\<lambda>tokenInAddress.
     andThen (local (findTokenAddress_of tokenMap (body_tokenOut req))) (\<lambda>tokenOutAddress.
     andThen (local (library (parseEther (body_amountIn req)))) (\<lambda>amountInWei.
     andThen (getBestQuote nd tokenInAddress tokenOutAddress amountInWei) (\<lambda>q.
     local (Inr \<lparr>status = 200,
                  body = QuoteBody (quote_fee q) (formatUnits (quote_amountOut q) 18)\<rparr>)))))"

definition missingParameters :: "request_body \<Rightarrow> bool" where
  "missingParameters req \<longleftrightarrow>
     \<not> truthy (body_amountIn req) \<or> \<not> truthy (body_tokenIn req) \<or> \<not> truthy (body_tokenOut req)"

definition post_quote ::
  "token_map \<Rightarrow> (jsval \<Rightarrow> string + int) \<Rightarrow> (nat \<Rightarrow> nat \<Rightarrow> string) \<Rightarrow> 'w node \<Rightarrow>
   request_body \<Rightarrow> 'w state \<Rightarrow> response \<times> 'w state" where
  "post_quote tokenMap parseEther formatUnits nd req s =
     (if missingParameters req
      then (\<lparr>status = 400, body = ErrorBody ''Missing required parameters in request body''\<rparr>, s)
      else (case quote_try tokenMap parseEther formatUnits nd req s of
              (Inr res, s') \<Rightarrow> (res, s')
            | (Inl error, s') \<Rightarrow>
                (\<lparr>status = 500, body = ErrorBody (message error)\<rparr>,
                 logLines [(Stderr, [Text (message error)])] s')))"


text \<open>
  \<^verbatim>\<open>app.use(express.json())\<close>, line 8 of \<^verbatim>\<open>app.js\<close>, runs before every handler, and no error
  middleware is registered. What the library makes of a request \<open>r\<close> is the argument
  \<open>express_json\<close>: either the parsed body, which the handler then reads as \<^verbatim>\<open>req.body\<close>, or the
  answer of the framework to a request whose body the middleware rejects (a body that is
  not JSON, or too large), in which case no handler runs.
\<close>

definition behind_json ::
  "('r \<Rightarrow> response + request_body) \<Rightarrow> (request_body \<Rightarrow> 'w state \<Rightarrow> response \<times> 'w state) \<Rightarrow>
   'r \<Rightarrow> 'w state \<Rightarrow> response \<times> 'w state" where
  "behind_json express_json handler r s =
     (case express_json r of
        Inl answer \<Rightarrow> (answer, s)
      | Inr req \<Rightarrow> handler req s)"

definition quote_route ::
  "('r \<Rightarrow> response + request_body) \<Rightarrow> token_map \<Rightarrow> (jsval \<Rightarrow> string + int) \<Rightarrow>
   (nat \<Rightarrow> nat \<Rightarrow> string) \<Rightarrow> 'w node \<Rightarrow> 'r \<Rightarrow> 'w state \<Rightarrow> response \<times> 'w state" where
  "quote_route express_json tokenMap parseEther formatUnits nd =
     behind_json express_json (post_quote tokenMap parseEther formatUnits nd)"
section \<open>Swaps\<close>

definition UNISWAP_V3_ROUTER_ADDRESS :: string where
  "UNISWAP_V3_ROUTER_ADDRESS = ''0xE592427A0AEce92De3Edee1F18E0157C05861564''"

definition WETH_ADDRESS :: string where
  "WETH_ADDRESS = ''0xC02aaA39b223FE8D0A0e5C4F27eAD9083C756Cc2''"

definition MaxUint256 :: nat where
  "MaxUint256 = 2 ^ 256 - 1"

definition MAX_GAS_LIMIT :: nat where
  "MAX_GAS_LIMIT = 300000"

text \<open>
  What a run is given besides the node: the mapping file, the library functions it calls
  (\<^verbatim>\<open>parseEther\<close>, \<^verbatim>\<open>formatUnits\<close>, the conversion of a number to a \<^verbatim>\<open>BigNumber\<close>, the
  constructor of a wallet, which returns its address or raises on a bad key) and the clock
  in seconds.
\<close>

record 'w env =
  e_tokenMap :: token_map
  e_parseEther :: "jsval \<Rightarrow> string + int"
  e_formatUnits :: "nat \<Rightarrow> nat \<Rightarrow> string"
  e_fromNumber :: "rat \<Rightarrow> error + int"
  e_newWallet :: "string \<Rightarrow> string + string"
  e_now :: nat
  e_node :: "'w node"

definition say :: "piece list \<Rightarrow> (unit, 'w) action" where
  "say ps s = (Inr (), logLines [(Stdout, ps)] s)"

subsection \<open>The script \<^verbatim>\<open>d_swap_from_mapping.js\<close>\<close>

definition parseUserQuery :: "string \<Rightarrow> error + string \<times> string \<times> string" where
  "parseUserQuery query =
     (let parts = split_on CHR '' '' (toLowerCase query)
      in if length parts \<noteq> 5 \<or> parts ! 0 \<noteq> ''swap'' \<or> parts ! 3 \<noteq> ''with''
         then Inl (QueryFormat (''Query format should be: '' @ [CHR 0x27]
                @ ''swap <amount> <tokenIn> with <tokenOut>'' @ [CHR 0x27]))
         else Inr (parts ! 1, parts ! 2, parts ! 4))"

text \<open>Lines 156-187 of the script: the quote, the minimum output, the swap and its
  confirmation.\<close>

definition script_swap ::
  "'w env \<Rightarrow> string \<Rightarrow> string \<Rightarrow> string \<Rightarrow> string \<Rightarrow> string \<Rightarrow> string \<Rightarrow> int \<Rightarrow>
   (unit, 'w) action" where
  "script_swap e amountIn tokenIn tokenOut tokenInAddress tokenOutAddress walletAddress amountInWei =
     andThen (say [Text ''Finding the best quote for swapping '', Text amountIn, Text '' '',
                   Text (toUpperCase tokenIn), Text '' to '', Text (toUpperCase tokenOut), Text ''...'']) (\<lambda>_.
     andThen (getBestQuote_script (e_formatUnits e) (e_node e) tokenInAddress tokenOutAddress amountInWei) (\<lambda>q.
     andThen (local (amountOutMinimum (e_fromNumber e) (quote_amountOut q) (calculateSlippage tokenIn tokenOut)))
       (\<lambda>amountOutMin.
     andThen (say [Text ''Using dynamic slippage: '', Frac (calculateSlippage tokenIn tokenOut * 100), Text ''%'']) (\<lambda>_.
     andThen (say [Text ''Executing the swap with fee tier '', Num (int (quote_fee q)),
                   Text '' and slippage protection...'']) (\<lambda>_.
     andThen (remote
         (CallSwap \<lparr>param_tokenIn = tokenInAddress, param_tokenOut = tokenOutAddress,
                    param_fee = quote_fee q, param_recipient = walletAddress,
                    param_deadline = e_now e + 300, param_amountIn = amountInWei,
                    param_amountOutMinimum = amountOutMin, param_sqrtPriceLimitX96 = 0\<rparr>
                   \<lparr>gasLimit = Some 300000, val = 0\<rparr>) GotTx
         (exactInputSingle (e_node e)
            \<lparr>param_tokenIn = tokenInAddress, param_tokenOut = tokenOutAddress,
             param_fee = quote_fee q, param_recipient = walletAddress,
             param_deadline = e_now e + 300, param_amountIn = amountInWei,
             param_amountOutMinimum = amountOutMin, param_sqrtPriceLimitX96 = 0\<rparr>
            \<lparr>gasLimit = Some 300000, val = 0\<rparr>)) (\<lambda>swapTx.
     andThen (say [Text ''Swap transaction sent. Waiting for confirmation...'']) (\<lambda>_.
     andThen (remote (CallWait swapTx) GotReceipt (wait (e_node e) swapTx)) (\<lambda>receipt.
     andThen (say [Text ''Swap transaction confirmed!'']) (\<lambda>_.
     andThen (say [Text ''Transaction hash: '', Text receipt]) (\<lambda>_.
     say [Text ''Check your '', Text (toUpperCase tokenOut), Text '' balance at address: '',
          Text walletAddress]))))))))))"

text \<open>\<^verbatim>\<open>main\<close>, lines 124-188, for any query in place of the example query.\<close>

definition main_for :: "'w env \<Rightarrow> string \<Rightarrow> string \<Rightarrow> (unit, 'w) action" where
  "main_for e walletAddress userQuery =
     andThen (local (parseUserQuery userQuery)) (\<lambda>(amountIn, tokenIn, tokenOut).
     andThen (local (findTokenAddress (e_tokenMap e) tokenIn)) (\<lambda>tokenInAddress.
     andThen (local (findTokenAddress (e_tokenMap e) tokenOut)) (\<lambda>tokenOutAddress.
     andThen (say [Text ''TokenIn ('', Text (toUpperCase tokenIn), Text ''): '', Text tokenInAddress]) (\<lambda>_.
     andThen (say [Text ''TokenOut ('', Text (toUpperCase tokenOut), Text ''): '', Text tokenOutAddress]) (\<lambda>_.
     andThen (local (library (e_parseEther e (Str amountIn)))) (\<lambda>amountInWei.
     andThen (remote (CallBalanceOf tokenInAddress walletAddress) GotNumber
                (balanceOf (e_node e) tokenInAddress walletAddress)) (\<lambda>balance.
     andThen (say [Text ''Balance: '', Text (e_formatUnits e balance 18), Text '' '',
                   Text (toUpperCase tokenIn)]) (\<lambda>_.
     if int balance < amountInWei then local (Inl (InsufficientBalance ''Insufficient token balance.''))
     else
     andThen (remote (CallAllowance tokenInAddress walletAddress UNISWAP_V3_ROUTER_ADDRESS) GotNumber
                (allowance (e_node e) tokenInAddress walletAddress UNISWAP_V3_ROUTER_ADDRESS)) (\<lambda>allowed.
     andThen (say [Text ''Allowance: '', Text (e_formatUnits e allowed 18)]) (\<lambda>_.
     if int allowed < amountInWei then
       andThen (say [Text ''Insufficient allowance. Approving...'']) (\<lambda>_.
       andThen (remote (CallApprove tokenInAddress UNISWAP_V3_ROUTER_ADDRESS MaxUint256) GotTx
                  (approve (e_node e) tokenInAddress UNISWAP_V3_ROUTER_ADDRESS MaxUint256)) (\<lambda>approveTx.
       andThen (remote (CallWait approveTx) GotReceipt (wait (e_node e) approveTx)) (\<lambda>_.
       andThen (say [Text ''Approval complete.'']) (\<lambda>_.
       script_swap e amountIn tokenIn tokenOut tokenInAddress tokenOutAddress walletAddress amountInWei))))
     else
       script_swap e amountIn tokenIn tokenOut tokenInAddress tokenOutAddress walletAddress amountInWei
     ))))))))))"

definition main :: "'w env \<Rightarrow> string \<Rightarrow> (unit, 'w) action" where
  "main e walletAddress = main_for e walletAddress ''swap 0.0005 WETH with BNB''"

text \<open>\<^verbatim>\<open>main().catch(...)\<close>: the error is printed and the process exits with code 1.\<close>

definition script :: "'w env \<Rightarrow> string \<Rightarrow> 'w state \<Rightarrow> nat \<times> 'w state" where
  "script e walletAddress s =
     (case main e walletAddress s of
        (Inr _, s') \<Rightarrow> (0, s')
      | (Inl error, s') \<Rightarrow> (1, logLines [(Stderr, [Thrown error])] s'))"

subsection \<open>The first \<^verbatim>\<open>/swap\<close> endpoint of \<^verbatim>\<open>app.js\<close> (lines 77-124)\<close>

text \<open>
  The body of the \<^verbatim>\<open>try\<close> block: the wallet, the two tokens from the mapping, the amount, the
  quote, a minimum output of 98%, the gas estimate with its buffer of 20% capped at
  \<open>MAX_GAS_LIMIT\<close>, the swap and its confirmation. Nothing here reads an allowance or sends
  an approval.
\<close>

definition gasLimitWithBuffer :: "nat \<Rightarrow> nat" where
  "gasLimitWithBuffer estimatedGas =
     (let buffered = estimatedGas * 120 div 100
      in if buffered < MAX_GAS_LIMIT then buffered else MAX_GAS_LIMIT)"

definition swap_try_first :: "'w env \<Rightarrow> string \<Rightarrow> request_body \<Rightarrow> (response, 'w) action" where
  "swap_try_first e authorization req =
     andThen (local (library (e_newWallet e authorization))) (\<lambda>walletAddress.
     andThen (local (findTokenAddress_of (e_tokenMap e) (body_tokenIn req))) (\<lambda>tokenInAddress.
     andThen (local (findTokenAddress_of (e_tokenMap e) (body_tokenOut req))) (\<lambda>tokenOutAddress.
     andThen (local (library (e_parseEther e (body_amountIn req)))) (\<lambda>amountInWei.
     andThen (getBestQuote (e_node e) tokenInAddress tokenOutAddress amountInWei) (\<lambda>q.
     andThen (remote
         (CallEstimateGas
            \<lparr>param_tokenIn = tokenInAddress, param_tokenOut = tokenOutAddress,
             param_fee = quote_fee q, param_recipient = walletAddress,
             param_deadline = e_now e + 300, param_amountIn = amountInWei,
             param_amountOutMinimum = int (quote_amountOut q * 98 div 100),
             param_sqrtPriceLimitX96 = 0\<rparr>) GotNumber
         (estimateGas (e_node e)
            \<lparr>param_tokenIn = tokenInAddress, param_tokenOut = tokenOutAddress,
             param_fee = quote_fee q, param_recipient = walletAddress,
             param_deadline = e_now e + 300, param_amountIn = amountInWei,
             param_amountOutMinimum = int (quote_amountOut q * 98 div 100),
             param_sqrtPriceLimitX96 = 0\<rparr>)) (\<lambda>estimatedGas.
     andThen (say [Text ''Estimated gas: '', Num (int estimatedGas), Text '', Gas limit: '',
                   Num (int (gasLimitWithBuffer estimatedGas))]) (\<lambda>_.
     andThen (remote
         (CallSwap
            \<lparr>param_tokenIn = tokenInAddress, param_tokenOut = tokenOutAddress,
             param_fee = quote_fee q, param_recipient = walletAddress,
             param_deadline = e_now e + 300, param_amountIn = amountInWei,
             param_amountOutMinimum = int (quote_amountOut q * 98 div 100),
             param_sqrtPriceLimitX96 = 0\<rparr>
            \<lparr>gasLimit = Some (gasLimitWithBuffer estimatedGas), val = 0\<rparr>) GotTx
         (exactInputSingle (e_node e)
            \<lparr>param_tokenIn = tokenInAddress, param_tokenOut = tokenOutAddress,
             param_fee = quote_fee q, param_recipient = walletAddress,
             param_deadline = e_now e + 300, param_amountIn = amountInWei,
             param_amountOutMinimum = int (quote_amountOut q * 98 div 100),
             param_sqrtPriceLimitX96 = 0\<rparr>
            \<lparr>gasLimit = Some (gasLimitWithBuffer estimatedGas), val = 0\<rparr>)) (\<lambda>swapTx.
     andThen (remote (CallWait swapTx) GotReceipt (wait (e_node e) swapTx)) (\<lambda>receipt.
     local (Inr \<lparr>status = 200, body = SwapBody receipt\<rparr>))))))))))"

text \<open>The handler: the header is printed first, \<^verbatim>\<open>undefined\<close> when it is absent; then the two
  checks, the \<^verbatim>\<open>try\<close> block and its \<^verbatim>\<open>catch\<close>.\<close>

definition post_swap_first ::
  "'w env \<Rightarrow> string option \<Rightarrow> request_body \<Rightarrow> 'w state \<Rightarrow> response \<times> 'w state" where
  "post_swap_first e authorization req s =
     (let s0 = logLines [(Stdout, [Text ''Authorization Header Received:'',
                 Text (case authorization of None \<Rightarrow> ''undefined'' | Some key \<Rightarrow> key)])] s
      in case authorization of
        None \<Rightarrow> (\<lparr>status = 401, body = ErrorBody ''Private key required in Authorization header''\<rparr>, s0)
      | Some key \<Rightarrow>
          if key = []
          then (\<lparr>status = 401, body = ErrorBody ''Private key required in Authorization header''\<rparr>, s0)
          else if missingParameters req
          then (\<lparr>status = 400, body = ErrorBody ''Missing required parameters in request body''\<rparr>, s0)
          else (case swap_try_first e key req s0 of
                  (Inr res, s') \<Rightarrow> (res, s')
                | (Inl error, s') \<Rightarrow>
                    (\<lparr>status = 500, body = ErrorBody (message error)\<rparr>,
                     logLines [(Stderr, [Text ''Error executing swap:'', Text (message error)])] s')))"

subsection \<open>The second \<^verbatim>\<open>/swap\<close> endpoint of \<^verbatim>\<open>app.js\<close> (lines 156-368)\<close>

text \<open>\<^verbatim>\<open>findTokenAddress\<close> with the special case of \<^verbatim>\<open>eth\<close> (lines 188-203).\<close>

definition findTokenAddress_eth :: "token_map \<Rightarrow> string \<Rightarrow> error + string" where
  "findTokenAddress_eth tokenMap tokenStr =
     (let t = toLowerCase tokenStr
      in if t = ''eth'' then Inr WETH_ADDRESS
         else (case findTokenAddress_loop t tokenMap of
                 Some address \<Rightarrow> Inr address
               | None \<Rightarrow> Inl (TokenNotFound tokenStr)))"

text \<open>\<^verbatim>\<open>getBestQuote\<close> of lines 213-232: the output on \<^verbatim>\<open>console.log\<close>, a failure on
  \<^verbatim>\<open>console.error\<close>.\<close>

definition getBestQuote_logged ::
  "(nat \<Rightarrow> nat \<Rightarrow> string) \<Rightarrow> 'w node \<Rightarrow> string \<Rightarrow> string \<Rightarrow> int \<Rightarrow> (quote, 'w) action" where
  "getBestQuote_logged formatUnits nd tokenInAddress tokenOutAddress amountInWei =
     getBestQuote_loop (tierOutput formatUnits) (tierFailed Stderr) ''No valid liquidity pool found.''
       nd tokenInAddress tokenOutAddress amountInWei feeTiers"

text \<open>A method of \<^verbatim>\<open>String\<close> called on a value of the body: a type error unless the value is
  a string.\<close>

definition asString :: "jsval \<Rightarrow> error + string" where
  "asString v = (case v of Str s \<Rightarrow> Inr s | _ \<Rightarrow> Inl (TypeError ''toLowerCase is not a function''))"

text \<open>Lines 307-332: the quote, the minimum output, the swap, its confirmation and the
  answer.\<close>

definition swap_send ::
  "'w env \<Rightarrow> string \<Rightarrow> string \<Rightarrow> string \<Rightarrow> string \<Rightarrow> string \<Rightarrow> int \<Rightarrow> int \<Rightarrow> (response, 'w) action" where
  "swap_send e walletAddress tokenIn tokenOut tokenInAddress tokenOutAddress amountInWei valueToSend =
     andThen (getBestQuote_logged (e_formatUnits e) (e_node e) tokenInAddress tokenOutAddress amountInWei) (\<lambda>q.
     andThen (local (amountOutMinimum (e_fromNumber e) (quote_amountOut q)
                (calculateSlippage (toLowerCase tokenIn) (toLowerCase tokenOut)))) (\<lambda>amountOutMin.
     andThen (remote
         (CallSwap \<lparr>param_tokenIn = tokenInAddress, param_tokenOut = tokenOutAddress,
                    param_fee = quote_fee q, param_recipient = walletAddress,
                    param_deadline = e_now e + 300, param_amountIn = amountInWei,
                    param_amountOutMinimum = amountOutMin, param_sqrtPriceLimitX96 = 0\<rparr>
                   \<lparr>gasLimit = Some MAX_GAS_LIMIT, val = valueToSend\<rparr>) GotTx
         (exactInputSingle (e_node e)
            \<lparr>param_tokenIn = tokenInAddress, param_tokenOut = tokenOutAddress,
             param_fee = quote_fee q, param_recipient = walletAddress,
             param_deadline = e_now e + 300, param_amountIn = amountInWei,
             param_amountOutMinimum = amountOutMin, param_sqrtPriceLimitX96 = 0\<rparr>
            \<lparr>gasLimit = Some MAX_GAS_LIMIT, val = valueToSend\<rparr>)) (\<lambda>swapTx.
     andThen (remote (CallWait swapTx) GotReceipt (wait (e_node e) swapTx)) (\<lambda>receipt.
     local (Inr \<lparr>status = 200, body = SwapBody receipt\<rparr>)))))"

text \<open>Lines 273-305 and on: the body of the \<^verbatim>\<open>try\<close> block.\<close>

definition swap_try :: "'w env \<Rightarrow> string \<Rightarrow> request_body \<Rightarrow> (response, 'w) action" where
  "swap_try e authorization req =
     andThen (local (library (e_newWallet e authorization))) (\<lambda>walletAddress.
     andThen (local (asString (body_tokenIn req))) (\<lambda>tokenIn.
     andThen (local (findTokenAddress_eth (e_tokenMap e) tokenIn)) (\<lambda>tokenInAddress.
     andThen (local (asString (body_tokenOut req))) (\<lambda>tokenOut.
     andThen (local (findTokenAddress_eth (e_tokenMap e) tokenOut)) (\<lambda>tokenOutAddress.
     andThen (local (library (e_parseEther e (body_amountIn req)))) (\<lambda>amountInWei.
     if toLowerCase tokenIn = ''eth'' then
       swap_send e walletAddress tokenIn tokenOut tokenInAddress tokenOutAddress amountInWei amountInWei
     else
       andThen (remote (CallBalanceOf tokenInAddress walletAddress) GotNumber
                  (balanceOf (e_node e) tokenInAddress walletAddress)) (\<lambda>balance.
       if int balance < amountInWei
       then local (Inr \<lparr>status = 400, body = ErrorBody ''Insufficient token balance.''\<rparr>)
       else
       andThen (remote (CallAllowance tokenInAddress walletAddress UNISWAP_V3_ROUTER_ADDRESS) GotNumber
                  (allowance (e_node e) tokenInAddress walletAddress UNISWAP_V3_ROUTER_ADDRESS)) (\<lambda>allowed.
       if int allowed < amountInWei then
         andThen (remote (CallApprove tokenInAddress UNISWAP_V3_ROUTER_ADDRESS MaxUint256) GotTx
                    (approve (e_node e) tokenInAddress UNISWAP_V3_ROUTER_ADDRESS MaxUint256)) (\<lambda>approveTx.
         andThen (remote (CallWait approveTx) GotReceipt (wait (e_node e) approveTx)) (\<lambda>_.
         andThen (say [Text ''Approval complete.'']) (\<lambda>_.
         swap_send e walletAddress tokenIn tokenOut tokenInAddress tokenOutAddress amountInWei 0)))
       else
         swap_send e walletAddress tokenIn tokenOut tokenInAddress tokenOutAddress amountInWei 0))
     ))))))"

definition post_swap ::
  "'w env \<Rightarrow> string option \<Rightarrow> request_body \<Rightarrow> 'w state \<Rightarrow> response \<times> 'w state" where
  "post_swap e authorization req s =
     (case authorization of
        None \<Rightarrow> (\<lparr>status = 401, body = ErrorBody ''Private key required in Authorization header''\<rparr>, s)
      | Some key \<Rightarrow>
          if key = []
          then (\<lparr>status = 401, body = ErrorBody ''Private key required in Authorization header''\<rparr>, s)
          else if missingParameters req
          then (\<lparr>status = 400, body = ErrorBody ''Missing required parameters in request body''\<rparr>, s)
          else (case swap_try e key req s of
                  (Inr res, s') \<Rightarrow> (res, s')
                | (Inl error, s') \<Rightarrow>
                    (\<lparr>status = 500, body = ErrorBody (message error)\<rparr>,
                     logLines [(Stderr, [Text ''Error executing swap:'', Text (message error)])] s')))"

subsection \<open>The \<^verbatim>\<open>/swap\<close> endpoint that takes token addresses (\<^verbatim>\<open>d_swap_from_mapping.js\<close>, lines 194-418)\<close>

text \<open>
  A copy of the second handler of \<^verbatim>\<open>app.js\<close> in which a token is given by its address: four
  fee tiers, a gas limit of 500000, slippages of 1%, 2% and 10% decided on \<^verbatim>\<open>eth\<close>, and its
  own message when no tier answers.
\<close>

definition feeTiers_byAddress :: "nat list" where
  "feeTiers_byAddress = [500, 3000, 10000, 15000]"

definition MAX_GAS_LIMIT_byAddress :: nat where
  "MAX_GAS_LIMIT_byAddress = 500000"

definition findTokenAddress_byAddress :: "string \<Rightarrow> string" where
  "findTokenAddress_byAddress tokenStr =
     (let lowerStr = toLowerCase tokenStr
      in if lowerStr = ''eth'' then WETH_ADDRESS else tokenStr)"

definition getBestQuote_byAddress ::
  "(nat \<Rightarrow> nat \<Rightarrow> string) \<Rightarrow> 'w node \<Rightarrow> string \<Rightarrow> string \<Rightarrow> int \<Rightarrow> (quote, 'w) action" where
  "getBestQuote_byAddress formatUnits nd tokenInAddress tokenOutAddress amountInWei =
     getBestQuote_loop (tierOutput formatUnits) (tierFailed Stderr)
       ''No valid liquidity pool found for the specified tokens.''
       nd tokenInAddress tokenOutAddress amountInWei feeTiers_byAddress"

definition calculateSlippage_byAddress :: "string \<Rightarrow> string \<Rightarrow> rat" where
  "calculateSlippage_byAddress tokenIn tokenOut =
     (let BASE = 1 / 100; MAXIMUM = 1 / 10;
          inLower = toLowerCase tokenIn; outLower = toLowerCase tokenOut
      in if inLower = ''eth'' \<and> outLower = ''usdt'' then BASE
         else if inLower = ''eth'' \<or> outLower = ''eth'' then min (BASE * 2) MAXIMUM
         else MAXIMUM)"

definition swap_send_byAddress ::
  "'w env \<Rightarrow> string \<Rightarrow> string \<Rightarrow> string \<Rightarrow> string \<Rightarrow> string \<Rightarrow> int \<Rightarrow> int \<Rightarrow> (response, 'w) action" where
  "swap_send_byAddress e walletAddress tokenIn tokenOut tokenInAddress tokenOutAddress amountInWei valueToSend =
     andThen (getBestQuote_byAddress (e_formatUnits e) (e_node e) tokenInAddress tokenOutAddress amountInWei) (\<lambda>q.
     andThen (local (amountOutMinimum (e_fromNumber e) (quote_amountOut q)
                (calculateSlippage_byAddress tokenIn tokenOut))) (\<lambda>amountOutMin.
     andThen (remote
         (CallSwap \<lparr>param_tokenIn = tokenInAddress, param_tokenOut = tokenOutAddress,
                    param_fee = quote_fee q, param_recipient = walletAddress,
                    param_deadline = e_now e + 300, param_amountIn = amountInWei,
                    param_amountOutMinimum = amountOutMin, param_sqrtPriceLimitX96 = 0\<rparr>
                   \<lparr>gasLimit = Some MAX_GAS_LIMIT_byAddress, val = valueToSend\<rparr>) GotTx
         (exactInputSingle (e_node e)
            \<lparr>param_tokenIn = tokenInAddress, param_tokenOut = tokenOutAddress,
             param_fee = quote_fee q, param_recipient = walletAddress,
             param_deadline = e_now e + 300, param_amountIn = amountInWei,
             param_amountOutMinimum = amountOutMin, param_sqrtPriceLimitX96 = 0\<rparr>
            \<lparr>gasLimit = Some MAX_GAS_LIMIT_byAddress, val = valueToSend\<rparr>)) (\<lambda>swapTx.
     andThen (remote (CallWait swapTx) GotReceipt (wait (e_node e) swapTx)) (\<lambda>receipt.
     local (Inr \<lparr>status = 200, body = SwapBody receipt\<rparr>)))))"

definition swap_try_byAddress :: "'w env \<Rightarrow> string \<Rightarrow> request_body \<Rightarrow> (response, 'w) action" where
  "swap_try_byAddress e authorization req =
     andThen (local (library (e_newWallet e authorization))) (\<lambda>walletAddress.
     andThen (local (asString (body_tokenIn req))) (\<lambda>tokenIn.
     andThen (local (asString (body_tokenOut req))) (\<lambda>tokenOut.
     andThen (local (library (e_parseEther e (body_amountIn req)))) (\<lambda>amountInWei.
     if toLowerCase tokenIn = ''eth'' then
       swap_send_byAddress e walletAddress tokenIn tokenOut
         (findTokenAddress_byAddress tokenIn) (findTokenAddress_byAddress tokenOut) amountInWei amountInWei
     else
       andThen (remote (CallBalanceOf (findTokenAddress_byAddress tokenIn) walletAddress) GotNumber
                  (balanceOf (e_node e) (findTokenAddress_byAddress tokenIn) walletAddress)) (\<lambda>balance.
       if int balance < amountInWei
       then local (Inr \<lparr>status = 400, body = ErrorBody ''Insufficient token balance.''\<rparr>)
       else
       andThen (remote (CallAllowance (findTokenAddress_byAddress tokenIn) walletAddress
                          UNISWAP_V3_ROUTER_ADDRESS) GotNumber
                  (allowance (e_node e) (findTokenAddress_byAddress tokenIn) walletAddress
                     UNISWAP_V3_ROUTER_ADDRESS)) (\<lambda>allowed.
       if int allowed < amountInWei then
         andThen (remote (CallApprove (findTokenAddress_byAddress tokenIn) UNISWAP_V3_ROUTER_ADDRESS
                            MaxUint256) GotTx
                    (approve (e_node e) (findTokenAddress_byAddress tokenIn) UNISWAP_V3_ROUTER_ADDRESS
                       MaxUint256)) (\<lambda>approveTx.
         andThen (remote (CallWait approveTx) GotReceipt (wait (e_node e) approveTx)) (\<lambda>_.
         andThen (say [Text ''Approval complete.'']) (\<lambda>_.
         swap_send_byAddress e walletAddress tokenIn tokenOut
           (findTokenAddress_byAddress tokenIn) (findTokenAddress_byAddress tokenOut) amountInWei 0)))
       else
         swap_send_byAddress e walletAddress tokenIn tokenOut
           (findTokenAddress_byAddress tokenIn) (findTokenAddress_byAddress tokenOut) amountInWei 0))
     ))))"

definition post_swap_byAddress ::
  "'w env \<Rightarrow> string option \<Rightarrow> request_body \<Rightarrow> 'w state \<Rightarrow> response \<times> 'w state" where
  "post_swap_byAddress e authorization req s =
     (case authorization of
        None \<Rightarrow> (\<lparr>status = 401, body = ErrorBody ''Private key required in Authorization header''\<rparr>, s)
      | Some key \<Rightarrow>
          if key = []
          then (\<lparr>status = 401, body = ErrorBody ''Private key required in Authorization header''\<rparr>, s)
          else if missingParameters req
          then (\<lparr>status = 400, body = ErrorBody ''Missing required parameters in request body''\<rparr>, s)
          else (case swap_try_byAddress e key req s of
                  (Inr res, s') \<Rightarrow> (res, s')
                | (Inl error, s') \<Rightarrow>
                    (\<lparr>status = 500, body = ErrorBody (message error)\<rparr>,
                     logLines [(Stderr, [Text ''Error executing swap:'', Text (message error)])] s')))"

subsection \<open>Approval before swap\<close>

text \<open>
  Whether the input of a \<^verbatim>\<open>/swap\<close> request is the native currency: the handlers that check
  the allowance then send the amount as the value of the transaction and read no
  allowance.
\<close>

definition nativeInput :: "request_body \<Rightarrow> bool" where
  "nativeInput req = (case body_tokenIn req of Str t \<Rightarrow> toLowerCase t = ''eth'' | _ \<Rightarrow> False)"

text \<open>
  The monitor reads the trace of calls in order, for an input amount \<open>w\<close>. It starts with the
  allowance unread. A read of the allowance of the router on a token, when it answers,
  makes the allowance sufficient or an approval needed, as the answer is at least \<open>w\<close> or
  below it. While an approval is needed the next call has to be \<^verbatim>\<open>approve\<close> on that token for
  the router, of an amount of at least \<open>w\<close>; when it returns a transaction the approval is
  pending, and the next call has to be \<^verbatim>\<open>wait\<close> on that transaction, whose receipt confirms
  the approval. An \<^verbatim>\<open>approve\<close> or
  a \<^verbatim>\<open>wait\<close> that raises leaves the approval failed. A swap may be sent only with the
  allowance on its input token sufficient or its approval confirmed: sent in any other
  state it is a violation, as is any call other than the expected one while an approval is
  needed or pending. A violation stays.
\<close>

datatype approval =
    Unread
  | Sufficient string
  | Needed string
  | Pending string string
  | Confirmed string
  | Failed
  | Violated

definition readAllowance :: "int \<Rightarrow> approval \<Rightarrow> string \<Rightarrow> string \<Rightarrow> outcome \<Rightarrow> approval" where
  "readAllowance w st token spender out =
     (case out of
        GotNumber allowed \<Rightarrow>
          if spender = UNISWAP_V3_ROUTER_ADDRESS
          then (if int allowed < w then Needed token else Sufficient token)
          else st
      | _ \<Rightarrow> st)"

fun approval_step :: "int \<Rightarrow> approval \<Rightarrow> call \<times> outcome \<Rightarrow> approval" where
  "approval_step w Violated ev = Violated"
| "approval_step w (Needed token) (CallApprove token' spender amount, out) =
     (if token' = token \<and> spender = UNISWAP_V3_ROUTER_ADDRESS \<and> w \<le> int amount
      then (case out of GotTx tx \<Rightarrow> Pending token tx | _ \<Rightarrow> Failed)
      else Violated)"
| "approval_step w (Needed token) ev = Violated"
| "approval_step w (Pending token tx) (CallWait tx', out) =
     (if tx' = tx then (case out of GotReceipt r \<Rightarrow> Confirmed token | _ \<Rightarrow> Failed) else Violated)"
| "approval_step w (Pending token tx) ev = Violated"
| "approval_step w st (CallAllowance token owner spender, out) = readAllowance w st token spender out"
| "approval_step w (Sufficient token) (CallSwap p ov, out) =
     (if param_tokenIn p = token then Sufficient token else Violated)"
| "approval_step w (Confirmed token) (CallSwap p ov, out) =
     (if param_tokenIn p = token then Confirmed token else Violated)"
| "approval_step w st (CallSwap p ov, out) = Violated"
| "approval_step w st ev = st"

definition approvalState :: "int \<Rightarrow> (call \<times> outcome) list \<Rightarrow> approval" where
  "approvalState w evs = foldl (approval_step w) Unread evs"

text \<open>The states in which a run may end: no violation, and no approval left needed or
  pending.\<close>

fun accepted :: "approval \<Rightarrow> bool" where
  "accepted Violated = False"
| "accepted (Needed token) = False"
| "accepted (Pending token tx) = False"
| "accepted st = True"

definition approvedBeforeSwap :: "int \<Rightarrow> (call \<times> outcome) list \<Rightarrow> bool" where
  "approvedBeforeSwap w evs \<longleftrightarrow> accepted (approvalState w evs)"

text \<open>A new process, a new request: nothing called, nothing printed.\<close>

definition fresh :: "'w \<Rightarrow> 'w state" where
  "fresh w = \<lparr>world = w, trace = [], console = []\<rparr>"

text \<open>
  \<open>ensures w st m st'\<close>: run from a state whose trace leaves the monitor in \<open>st\<close>, the action
  \<open>m\<close> either returns \<open>a\<close> and leaves the monitor in \<open>st' a\<close>, or raises and leaves it in a
  state in which a run may end.
\<close>

definition ensures :: "int \<Rightarrow> approval \<Rightarrow> ('a, 'w) action \<Rightarrow> ('a \<Rightarrow> approval) \<Rightarrow> bool" where
  "ensures w st m st' \<longleftrightarrow>
     (\<forall>s. approvalState w (trace s) = st \<longrightarrow>
        (case m s of
           (Inl e, s') \<Rightarrow> accepted (approvalState w (trace s'))
         | (Inr a, s') \<Rightarrow> approvalState w (trace s') = st' a))"

text \<open>\<open>safely w st m\<close>: run from a state whose trace leaves the monitor in \<open>st\<close>, the action
  \<open>m\<close> ends, by a return or by an exception, in a state in which a run may end.\<close>

definition safely :: "int \<Rightarrow> approval \<Rightarrow> ('a, 'w) action \<Rightarrow> bool" where
  "safely w st m \<longleftrightarrow>
     (\<forall>s. approvalState w (trace s) = st \<longrightarrow> accepted (approvalState w (trace (snd (m s)))))"
section \<open>A node, a mapping and library functions to run the scripts on\<close>

text \<open>
  A node on which the 0.05% pool does not exist, the 0.3% pool quotes 1234 and the 1%
  pool quotes 9999; every account holds one token unit of 18 decimals and has approved
  nothing; a swap is estimated at 150000 units of gas; a transaction is confirmed under
  its own hash. The world counts the calls.
\<close>

definition exampleNode :: "nat node" where
  "exampleNode =
     \<lparr>quoteExactInputSingle = (\<lambda>tokenIn tokenOut fee amountIn priceLimit n.
          (if fee = 3000 then Inr 1234 else if fee = 10000 then Inr 9999
           else Inl ''execution reverted'', Suc n)),
      balanceOf = (\<lambda>token owner n. (Inr (10 ^ 18), Suc n)),
      allowance = (\<lambda>token owner spender n. (Inr 0, Suc n)),
      approve = (\<lambda>token spender amount n. (Inr ''0xa1'', Suc n)),
      estimateGas = (\<lambda>p n. (Inr 150000, Suc n)),
      exactInputSingle = (\<lambda>p ov n. (Inr ''0xb2'', Suc n)),
      wait = (\<lambda>tx n. (Inr tx, Suc n))\<rparr>"

text \<open>A node on which no pool exists.\<close>

definition emptyNode :: "nat node" where
  "emptyNode = exampleNode\<lparr>quoteExactInputSingle :=
     (\<lambda>tokenIn tokenOut fee amountIn priceLimit n. (Inl ''execution reverted'', Suc n))\<rparr>"

definition exampleTokens :: token_map where
  "exampleTokens =
     [(''0xC02aaA39b223FE8D0A0e5C4F27eAD9083C756Cc2'', \<lparr>name = ''Wrapped Ether'', symbol = ''WETH''\<rparr>),
      (''0x6B175474E89094C44Da98b954EedeAC495271d0F'', \<lparr>name = ''Dai Stablecoin'', symbol = ''DAI''\<rparr>),
      (''0xdAC17F958D2ee523a2206206994597C13D831ec7'', \<lparr>name = ''Tether USD'', symbol = ''USDT''\<rparr>),
      (''0xB8c77482e45F1F44dE1745F52C74426C631bDD52'', \<lparr>name = ''BNB'', symbol = ''BNB''\<rparr>)]"

text \<open>
  Stand-ins for the library, for running the scripts here. \<open>parseEtherDecimal\<close> is
  \<^verbatim>\<open>parseEther\<close> on the unsigned decimal strings with at most 18 digits after the point (18
  decimals), and raises on every other value; \<^verbatim>\<open>parseEther\<close> raises as well on a value that
  is not a string and on a string with a character other than digits, a point and a sign,
  and it accepts the negative amounts and the longer fractions padded with zeros that are
  left out here. \<open>showUnits\<close> prints an amount in base units, where \<^verbatim>\<open>formatUnits\<close> would place
  the decimal point.
\<close>

definition digit :: "char \<Rightarrow> nat option" where
  "digit c = (if 48 \<le> (of_char c :: nat) \<and> (of_char c :: nat) \<le> 57
              then Some ((of_char c :: nat) - 48) else None)"

fun decimal_acc :: "nat \<Rightarrow> string \<Rightarrow> nat option" where
  "decimal_acc acc [] = Some acc"
| "decimal_acc acc (c # cs) =
     (case digit c of None \<Rightarrow> None | Some d \<Rightarrow> decimal_acc (10 * acc + d) cs)"

definition parseEtherDecimal :: "jsval \<Rightarrow> string + int" where
  "parseEtherDecimal v =
     (case v of
        Str s \<Rightarrow>
          (let whole = takeWhile (\<lambda>c. c \<noteq> CHR ''.'') s;
               fraction = drop (Suc (length whole)) s
           in if (whole = [] \<and> fraction = []) \<or> 18 < length fraction
              then Inl ''invalid decimal value''
              else (case (decimal_acc 0 whole, decimal_acc 0 fraction) of
                      (Some n, Some f) \<Rightarrow> Inr (int n * 10 ^ 18 + int f * 10 ^ (18 - length fraction))
                    | _ \<Rightarrow> Inl ''invalid decimal value''))
      | _ \<Rightarrow> Inl ''value must be a string'')"

fun showDigits :: "nat \<Rightarrow> string" where
  "showDigits n =
     (if n < 10 then [char_of (48 + n)] else showDigits (n div 10) @ [char_of (48 + n mod 10)])"

declare showDigits.simps [simp del]

definition showUnits :: "nat \<Rightarrow> nat \<Rightarrow> string" where
  "showUnits amount decimals = showDigits amount"

text \<open>The wallet constructor of the examples knows one key, the private key 1, and its
  address, and raises on every other string.\<close>

definition exampleKey :: string where
  "exampleKey = ''0x0000000000000000000000000000000000000000000000000000000000000001''"

definition exampleWallet :: string where
  "exampleWallet = ''0x7E5F4552091A69125d5DfCb7b8C2659029395Bdf''"

text \<open>The middleware of the examples, on a request that is either a body that is not JSON
  or a JSON object read as its three fields.\<close>

datatype example_request = NotJson string | JsonObject request_body

fun exampleJson :: "example_request \<Rightarrow> response + request_body" where
  "exampleJson (NotJson raw) = Inl \<lparr>status = 400, body = Page ''Bad Request''\<rparr>"
| "exampleJson (JsonObject req) = Inr req"

definition exampleEnv :: "nat env" where
  "exampleEnv =
     \<lparr>e_tokenMap = exampleTokens,
      e_parseEther = parseEtherDecimal,
      e_formatUnits = showUnits,
      e_fromNumber = exactFromNumber,
      e_newWallet = (\<lambda>key. if key = exampleKey then Inr exampleWallet
                           else Inl ''invalid private key''),
      e_now = 1700000000,
      e_node = exampleNode\<rparr>"

section \<open>A reference model of the two library functions\<close>

text \<open>
  The theorems above hold for every \<open>getAddress\<close> and \<open>keccak256\<close> with the properties they
  assume. This section defines one such pair, after the published algorithms (Keccak-256
  with the original padding, tight packing of Solidity values, the mixed-case checksum of
  addresses), to run \<open>getPoolAddress\<close> on. It is none of the repository's code.
\<close>

subsection \<open>Keccak-f[1600] on 25 lanes of 64 bits, lane \<open>(x, y)\<close> at index \<open>x + 5 * y\<close>\<close>

type_synonym lane = "64 word"

definition rotl64 :: "nat \<Rightarrow> lane \<Rightarrow> lane" where
  "rotl64 n w = push_bit n w OR drop_bit (64 - n) w"

definition idx5 :: "nat list" where
  "idx5 = [0, 1, 2, 3, 4]"

definition idx25 :: "nat list" where
  "idx25 = [0, 1, 2, 3, 4, 5, 6, 7, 8, 9, 10, 11, 12, 13, 14, 15, 16, 17, 18, 19, 20, 21, 22, 23, 24]"

definition theta_c :: "lane list \<Rightarrow> lane list" where
  "theta_c a = map (\<lambda>x. a ! x XOR a ! (x + 5) XOR a ! (x + 10) XOR a ! (x + 15) XOR a ! (x + 20)) idx5"

definition theta_d :: "lane list \<Rightarrow> lane list" where
  "theta_d c = map (\<lambda>x. c ! ((x + 4) mod 5) XOR rotl64 1 (c ! ((x + 1) mod 5))) idx5"

definition theta_apply :: "lane list \<Rightarrow> lane list \<Rightarrow> lane list" where
  "theta_apply d a = map (\<lambda>i. a ! i XOR d ! (i mod 5)) idx25"

definition theta :: "lane list \<Rightarrow> lane list" where
  "theta a = theta_apply (theta_d (theta_c a)) a"

text \<open>\<open>rho\<close> and \<open>pi\<close> together: lane \<open>j\<close> of the result is lane \<open>pi_src ! j\<close> rotated by
  \<open>rho_off ! j\<close>.\<close>

definition pi_src :: "nat list" where
  "pi_src = [0, 6, 12, 18, 24, 3, 9, 10, 16, 22, 1, 7, 13, 19, 20, 4, 5, 11, 17, 23, 2, 8, 14, 15, 21]"

definition rho_off :: "nat list" where
  "rho_off = [0, 44, 43, 21, 14, 28, 20, 3, 45, 61, 1, 6, 25, 8, 18, 27, 36, 10, 15, 56, 62, 55, 39, 41, 2]"

definition rho_pi :: "lane list \<Rightarrow> lane list" where
  "rho_pi a = map2 (\<lambda>src off. rotl64 off (a ! src)) pi_src rho_off"

definition chi :: "lane list \<Rightarrow> lane list" where
  "chi b = map (\<lambda>i. b ! i XOR (NOT (b ! ((i mod 5 + 1) mod 5 + 5 * (i div 5)))
                            AND b ! ((i mod 5 + 2) mod 5 + 5 * (i div 5)))) idx25"

definition iota :: "lane \<Rightarrow> lane list \<Rightarrow> lane list" where
  "iota rc a = (a ! 0 XOR rc) # tl a"

definition roundConstants :: "lane list" where
  "roundConstants =
       [0x0000000000000001, 0x0000000000008082, 0x800000000000808A, 0x8000000080008000,
        0x000000000000808B, 0x0000000080000001, 0x8000000080008081, 0x8000000000008009,
        0x000000000000008A, 0x0000000000000088, 0x0000000080008009, 0x000000008000000A,
        0x000000008000808B, 0x800000000000008B, 0x8000000000008089, 0x8000000000008003,
        0x8000000000008002, 0x8000000000000080, 0x000000000000800A, 0x800000008000000A,
        0x8000000080008081, 0x8000000000008080, 0x0000000080000001, 0x8000000080008008]"

definition keccak_round :: "lane \<Rightarrow> lane list \<Rightarrow> lane list" where
  "keccak_round rc a = iota rc (chi (rho_pi (theta a)))"

definition keccak_f :: "lane list \<Rightarrow> lane list" where
  "keccak_f a = fold keccak_round roundConstants a"

subsection \<open>The sponge: rate 136 bytes, padding \<open>0x01 ... 0x80\<close>, 32 bytes of output\<close>

text \<open>Bytes are naturals below 256; a lane is eight bytes, the least significant first.\<close>

definition lane_of_bytes :: "nat list \<Rightarrow> lane" where
  "lane_of_bytes bs = of_nat (foldr (\<lambda>b v. b + 256 * v) bs 0)"

definition bytes_of_lane :: "lane \<Rightarrow> nat list" where
  "bytes_of_lane w = map (\<lambda>i. unat (drop_bit (8 * i) w) mod 256) [0, 1, 2, 3, 4, 5, 6, 7]"

definition pad :: "nat list \<Rightarrow> nat list" where
  "pad bs =
     (let n = 136 - length bs mod 136
      in if n = 1 then bs @ [129] else bs @ [1] @ replicate (n - 2) 0 @ [128])"

fun lanes_of_block :: "nat \<Rightarrow> nat list \<Rightarrow> lane list" where
  "lanes_of_block 0 bs = []"
| "lanes_of_block (Suc k) bs = lane_of_bytes (take 8 bs) # lanes_of_block k (drop 8 bs)"

definition xor_block :: "lane list \<Rightarrow> nat list \<Rightarrow> lane list" where
  "xor_block st block = map2 (XOR) st (lanes_of_block 17 block @ replicate 8 0)"

function absorb :: "lane list \<Rightarrow> nat list \<Rightarrow> lane list" where
  "absorb st bs =
     (if length bs < 136 then st
      else absorb (keccak_f (xor_block st (take 136 bs))) (drop 136 bs))"
  by pat_completeness auto
termination
  by (relation "measure (\<lambda>(st, bs). length bs)") auto

declare absorb.simps [simp del]

definition keccak256_bytes :: "nat list \<Rightarrow> nat list" where
  "keccak256_bytes bs =
     (let st = absorb (replicate 25 0) (pad bs)
      in concat (map bytes_of_lane [st ! 0, st ! 1, st ! 2, st ! 3]))"

subsection \<open>Hex strings and packing\<close>

definition hexOfByte :: "nat \<Rightarrow> string" where
  "hexOfByte b = [hexDigits ! (b div 16 mod 16), hexDigits ! (b mod 16)]"

definition hexlify :: "nat list \<Rightarrow> string" where
  "hexlify bs = ''0x'' @ concat (map hexOfByte bs)"

fun bytesOfHex :: "string \<Rightarrow> nat list" where
  "bytesOfHex (hi # lo # rest) =
     (16 * digitValue (lower_char hi) + digitValue (lower_char lo)) # bytesOfHex rest"
| "bytesOfHex _ = []"

fun bigEndian :: "nat \<Rightarrow> nat \<Rightarrow> nat list" where
  "bigEndian 0 v = []"
| "bigEndian (Suc k) v = bigEndian k (v div 256) @ [v mod 256]"

fun pack :: "sol_value \<Rightarrow> nat list" where
  "pack (SolAddress a) = bytesOfHex (drop 2 a)"
| "pack (SolUint24 n) = bigEndian 3 n"
| "pack (SolBytes b) = bytesOfHex (drop 2 b)"
| "pack (SolBytes32 b) = bytesOfHex (drop 2 b)"

definition keccak256_ref :: "sol_value list \<Rightarrow> string + string" where
  "keccak256_ref vs =
     (if list_all fitsType vs
      then Inr (hexlify (keccak256_bytes (concat (map pack vs))))
      else Inl ''invalid value'')"

subsection \<open>Checksummed addresses\<close>

definition nibbles :: "nat list \<Rightarrow> nat list" where
  "nibbles bs = concat (map (\<lambda>b. [b div 16 mod 16, b mod 16]) bs)"

text \<open>The checksum of 40 lower-case hex digits: a digit is written in upper case when the
  nibble at its position in the hash of the digits is 8 or more.\<close>

definition checksumDigits :: "string \<Rightarrow> string" where
  "checksumDigits ds =
     map2 (\<lambda>c n. if 8 \<le> n then upper_char c else c) ds
       (nibbles (keccak256_bytes (map of_char ds)))"

definition getChecksumAddress :: "string \<Rightarrow> string" where
  "getChecksumAddress a = ''0x'' @ checksumDigits (toLowerCase (drop 2 a))"

definition mixedCase :: "string \<Rightarrow> bool" where
  "mixedCase a \<longleftrightarrow>
     list_ex (\<lambda>c. c \<in> set ''ABCDEF'') a \<and> list_ex (\<lambda>c. c \<in> set ''abcdef'') a"

text \<open>\<open>getAddress\<close> on the hex forms (with or without the prefix); the ICAP form of an
  address is left out and raises here.\<close>

definition getAddress_ref :: "string \<Rightarrow> string + string" where
  "getAddress_ref s =
     (let a = (if take 2 s = ''0x'' then s else ''0x'' @ s)
      in if \<not> isAddress a then Inl ''invalid address''
         else if mixedCase a \<and> getChecksumAddress a \<noteq> a then Inl ''bad address checksum''
         else Inr (getChecksumAddress a))"

section \<open>Properties\<close>

lemma lower_char_idem: "lower_char (lower_char c) = lower_char c"
proof (cases "65 \<le> (of_char c :: nat) \<and> (of_char c :: nat) \<le> 90")
  case True
  then have "(of_char (lower_char c) :: nat) = of_char c + 32"
    by (simp add: lower_char_def)
  with True show ?thesis
    by (simp add: lower_char_def)
next
  case False
  then show ?thesis
    by (auto simp add: lower_char_def)
qed

text \<open>The equations that evaluate \<open>toLowerCase\<close> on a literal.\<close>

lemmas lower_eval = toLowerCase_def lower_char_def char_of_def bit_Suc_0_iff

lemma toLowerCase_idem: "toLowerCase (toLowerCase s) = toLowerCase s"
  by (simp add: toLowerCase_def lower_char_idem)

lemma findTokenAddress_loop_find:
  "findTokenAddress_loop t tokenMap = map_option fst (find (matches t) tokenMap)"
  by (induction tokenMap) (auto simp: matches_def)

text \<open>
  C10. For every token string \<open>s\<close>, \<open>findTokenAddress s\<close> and
  \<open>findTokenAddress (toLowerCase s)\<close> behave alike: when an entry's name or symbol equals
  \<open>s\<close> up to case, both return the address of the first such entry; when none does, both
  raise the token-not-found error (each naming the string it was given).
\<close>

theorem findTokenAddress_case_insensitive:
  "findTokenAddress tokenMap s =
     (case find (matches (toLowerCase s)) tokenMap of
        Some e \<Rightarrow> Inr (fst e)
      | None \<Rightarrow> Inl (TokenNotFound s))
   \<and> findTokenAddress tokenMap (toLowerCase s) =
     (case find (matches (toLowerCase s)) tokenMap of
        Some e \<Rightarrow> Inr (fst e)
      | None \<Rightarrow> Inl (TokenNotFound (toLowerCase s)))"
  by (simp add: findTokenAddress_def findTokenAddress_loop_find toLowerCase_idem
      split: option.splits)

section \<open>Quote selection: first success, exhaustion\<close>

lemma remote_cases:
  "(\<exists>msg w. f (world s) = (Inl msg, w) \<and>
       remote c got f s = (Inl (RemoteCallError msg), s\<lparr>world := w, trace := trace s @ [(c, Threw msg)]\<rparr>))
   \<or> (\<exists>v w. f (world s) = (Inr v, w) \<and>
       remote c got f s = (Inr v, s\<lparr>world := w, trace := trace s @ [(c, got v)]\<rparr>))"
proof (cases "f (world s)")
  case (Pair r w)
  then show ?thesis
    by (cases r) (simp_all add: remote_def)
qed

lemma failedCalls_Cons:
  "failedCalls tin tout amt (fee # fees) (msg # msgs) =
     (CallQuote tin tout fee amt 0, Threw msg) # failedCalls tin tout amt fees msgs"
  by (simp add: failedCalls_def)

lemma failedLines_Cons:
  "failedLines onFailed (fee # fees) (msg # msgs) = onFailed fee msg @ failedLines onFailed fees msgs"
  by (simp add: failedLines_def)

lemma failedCalls_Nil [simp]: "failedCalls tin tout amt [] msgs = []"
  by (simp add: failedCalls_def)

lemma failedLines_Nil [simp]: "failedLines onFailed [] msgs = []"
  by (simp add: failedLines_def)

text \<open>One run of the loop, from any state: either some tier \<open>fee\<close> is the first to answer,
  the tiers before it were called and failed, and nothing after it was called; or every
  tier was called and failed.\<close>

lemma getBestQuote_loop_run:
  "(\<exists>pre fee post msgs amountOut s'.
       tiers = pre @ fee # post \<and> length msgs = length pre \<and>
       getBestQuote_loop onOutput onFailed noPool nd tin tout amt tiers s =
         (Inr \<lparr>quote_fee = fee, quote_amountOut = amountOut\<rparr>, s') \<and>
       trace s' = trace s @ failedCalls tin tout amt pre msgs
                    @ [(CallQuote tin tout fee amt 0, GotNumber amountOut)] \<and>
       console s' = console s @ failedLines onFailed pre msgs @ onOutput fee amountOut)
   \<or> (\<exists>msgs s'.
       length msgs = length tiers \<and>
       getBestQuote_loop onOutput onFailed noPool nd tin tout amt tiers s = (Inl (NoLiquidity noPool), s') \<and>
       trace s' = trace s @ failedCalls tin tout amt tiers msgs \<and>
       console s' = console s @ failedLines onFailed tiers msgs)"
proof (induction tiers arbitrary: s)
  case Nil
  show ?case by simp
next
  case (Cons t tiers)
  let ?c = "CallQuote tin tout t amt 0"
  let ?f = "quoteExactInputSingle nd tin tout t amt 0"
  from remote_cases [of ?f s ?c GotNumber]
  show ?case
  proof (elim disjE exE conjE)
    fix v w
    assume r: "remote ?c GotNumber ?f s = (Inr v, s\<lparr>world := w, trace := trace s @ [(?c, GotNumber v)]\<rparr>)"
    let ?s' = "logLines (onOutput t v) (s\<lparr>world := w, trace := trace s @ [(?c, GotNumber v)]\<rparr>)"
    have "(t # tiers) = [] @ t # tiers \<and> length ([]::string list) = length ([]::nat list) \<and>
       getBestQuote_loop onOutput onFailed noPool nd tin tout amt (t # tiers) s =
         (Inr \<lparr>quote_fee = t, quote_amountOut = v\<rparr>, ?s') \<and>
       trace ?s' = trace s @ failedCalls tin tout amt [] [] @ [(?c, GotNumber v)] \<and>
       console ?s' = console s @ failedLines onFailed [] [] @ onOutput t v"
      using r by (simp add: logLines_def)
    then show ?thesis by blast
  next
    fix msg w
    assume r: "remote ?c GotNumber ?f s =
      (Inl (RemoteCallError msg), s\<lparr>world := w, trace := trace s @ [(?c, Threw msg)]\<rparr>)"
    let ?s1 = "logLines (onFailed t msg) (s\<lparr>world := w, trace := trace s @ [(?c, Threw msg)]\<rparr>)"
    have step: "getBestQuote_loop onOutput onFailed noPool nd tin tout amt (t # tiers) s =
        getBestQuote_loop onOutput onFailed noPool nd tin tout amt tiers ?s1"
      using r by simp
    have tr: "trace ?s1 = trace s @ [(?c, Threw msg)]"
      and co: "console ?s1 = console s @ onFailed t msg"
      by (simp_all add: logLines_def)
    from Cons.IH [of ?s1] show ?thesis
    proof (elim disjE exE conjE)
      fix pre fee post msgs amountOut s'
      assume a: "tiers = pre @ fee # post" "length msgs = length pre"
        "getBestQuote_loop onOutput onFailed noPool nd tin tout amt tiers ?s1 =
           (Inr \<lparr>quote_fee = fee, quote_amountOut = amountOut\<rparr>, s')"
        "trace s' = trace ?s1 @ failedCalls tin tout amt pre msgs @ [(CallQuote tin tout fee amt 0, GotNumber amountOut)]"
        "console s' = console ?s1 @ failedLines onFailed pre msgs @ onOutput fee amountOut"
      have "t # tiers = (t # pre) @ fee # post \<and> length (msg # msgs) = length (t # pre) \<and>
         getBestQuote_loop onOutput onFailed noPool nd tin tout amt (t # tiers) s =
           (Inr \<lparr>quote_fee = fee, quote_amountOut = amountOut\<rparr>, s') \<and>
         trace s' = trace s @ failedCalls tin tout amt (t # pre) (msg # msgs)
                      @ [(CallQuote tin tout fee amt 0, GotNumber amountOut)] \<and>
         console s' = console s @ failedLines onFailed (t # pre) (msg # msgs) @ onOutput fee amountOut"
        using a step tr co by (simp add: failedCalls_Cons failedLines_Cons)
      then show ?thesis by blast
    next
      fix msgs s'
      assume a: "length msgs = length tiers"
        "getBestQuote_loop onOutput onFailed noPool nd tin tout amt tiers ?s1 = (Inl (NoLiquidity noPool), s')"
        "trace s' = trace ?s1 @ failedCalls tin tout amt tiers msgs"
        "console s' = console ?s1 @ failedLines onFailed tiers msgs"
      have "length (msg # msgs) = length (t # tiers) \<and>
         getBestQuote_loop onOutput onFailed noPool nd tin tout amt (t # tiers) s = (Inl (NoLiquidity noPool), s') \<and>
         trace s' = trace s @ failedCalls tin tout amt (t # tiers) (msg # msgs) \<and>
         console s' = console s @ failedLines onFailed (t # tiers) (msg # msgs)"
        using a step tr co by (simp add: failedCalls_Cons failedLines_Cons)
      then show ?thesis by blast
    qed
  qed
qed

text \<open>
  The loop against the answers of the node. \<open>failures\<close> asks the node for the tiers of a list
  in order; the three lemmas below say what the loop does when every tier of its list
  fails, what it does when the tiers of \<open>pre\<close> fail and the next one answers, and that a node
  does one or the other.
\<close>

lemma failures_Cons:
  "failures nd tin tout amt (fee # fees) w = Some (ms, w'') \<longleftrightarrow>
     (\<exists>msg msgs w'. quoteExactInputSingle nd tin tout fee amt 0 w = (Inl msg, w') \<and>
        failures nd tin tout amt fees w' = Some (msgs, w'') \<and> ms = msg # msgs)"
  by (auto split: prod.splits sum.splits option.splits)

lemma failures_length:
  "failures nd tin tout amt fees w = Some (msgs, w') \<Longrightarrow> length msgs = length fees"
proof (induction fees arbitrary: w msgs)
  case Nil
  then show ?case by simp
next
  case (Cons fee fees)
  then show ?case
    by (auto simp: failures_Cons simp del: failures.simps)
qed

lemma getBestQuote_loop_exhausted:
  "failures nd tin tout amt tiers (world s) = Some (msgs, w') \<Longrightarrow>
   getBestQuote_loop onOutput onFailed noPool nd tin tout amt tiers s =
     (Inl (NoLiquidity noPool), afterFailures onFailed tin tout amt tiers msgs w' s)"
proof (induction tiers arbitrary: s msgs)
  case Nil
  then show ?case
    by (simp add: afterFailures_def)
next
  case (Cons fee tiers)
  from Cons.prems obtain msg rest w1 where
    q: "quoteExactInputSingle nd tin tout fee amt 0 (world s) = (Inl msg, w1)"
    and f: "failures nd tin tout amt tiers w1 = Some (rest, w')"
    and ms: "msgs = msg # rest"
    by (auto simp: failures_Cons simp del: failures.simps)
  let ?s1 = "logLines (onFailed fee msg)
      (s\<lparr>world := w1, trace := trace s @ [(CallQuote tin tout fee amt 0, Threw msg)]\<rparr>)"
  have "getBestQuote_loop onOutput onFailed noPool nd tin tout amt (fee # tiers) s =
      getBestQuote_loop onOutput onFailed noPool nd tin tout amt tiers ?s1"
    using q by (simp add: remote_def)
  also have "\<dots> = (Inl (NoLiquidity noPool), afterFailures onFailed tin tout amt tiers rest w' ?s1)"
    using f by (intro Cons.IH) (simp add: logLines_def)
  also have "afterFailures onFailed tin tout amt tiers rest w' ?s1 =
      afterFailures onFailed tin tout amt (fee # tiers) msgs w' s"
    by (simp add: afterFailures_def logLines_def ms failedCalls_Cons failedLines_Cons)
  finally show ?case .
qed

lemma getBestQuote_loop_answered:
  "failures nd tin tout amt pre (world s) = Some (msgs, w1) \<Longrightarrow>
   quoteExactInputSingle nd tin tout fee amt 0 w1 = (Inr amountOut, w2) \<Longrightarrow>
   getBestQuote_loop onOutput onFailed noPool nd tin tout amt (pre @ fee # post) s =
     (Inr \<lparr>quote_fee = fee, quote_amountOut = amountOut\<rparr>,
      afterAnswer onOutput tin tout amt fee amountOut w2
        (afterFailures onFailed tin tout amt pre msgs w1 s))"
proof (induction pre arbitrary: s msgs)
  case Nil
  then show ?case
    by (simp add: remote_def afterFailures_def afterAnswer_def logLines_def)
next
  case (Cons t pre)
  from Cons.prems(1) obtain msg rest w0 where
    q: "quoteExactInputSingle nd tin tout t amt 0 (world s) = (Inl msg, w0)"
    and f: "failures nd tin tout amt pre w0 = Some (rest, w1)"
    and ms: "msgs = msg # rest"
    by (auto simp: failures_Cons simp del: failures.simps)
  let ?s1 = "logLines (onFailed t msg)
      (s\<lparr>world := w0, trace := trace s @ [(CallQuote tin tout t amt 0, Threw msg)]\<rparr>)"
  have "getBestQuote_loop onOutput onFailed noPool nd tin tout amt ((t # pre) @ fee # post) s =
      getBestQuote_loop onOutput onFailed noPool nd tin tout amt (pre @ fee # post) ?s1"
    using q by (simp add: remote_def)
  also have "\<dots> = (Inr \<lparr>quote_fee = fee, quote_amountOut = amountOut\<rparr>,
      afterAnswer onOutput tin tout amt fee amountOut w2
        (afterFailures onFailed tin tout amt pre rest w1 ?s1))"
    using f Cons.prems(2) by (intro Cons.IH) (simp_all add: logLines_def)
  also have "afterFailures onFailed tin tout amt pre rest w1 ?s1 =
      afterFailures onFailed tin tout amt (t # pre) msgs w1 s"
    by (simp add: afterFailures_def logLines_def ms failedCalls_Cons failedLines_Cons)
  finally show ?case .
qed

lemma failures_None:
  "failures nd tin tout amt tiers w = None \<Longrightarrow>
   \<exists>pre fee post msgs w1 amountOut w2.
     tiers = pre @ fee # post \<and> failures nd tin tout amt pre w = Some (msgs, w1) \<and>
     quoteExactInputSingle nd tin tout fee amt 0 w1 = (Inr amountOut, w2)"
proof (induction tiers arbitrary: w)
  case Nil
  then show ?case by simp
next
  case (Cons t tiers)
  obtain r w0 where q: "quoteExactInputSingle nd tin tout t amt 0 w = (r, w0)"
    by (cases "quoteExactInputSingle nd tin tout t amt 0 w")
  show ?case
  proof (cases r)
    case (Inr amountOut)
    with q have "t # tiers = [] @ t # tiers \<and> failures nd tin tout amt [] w = Some ([], w) \<and>
        quoteExactInputSingle nd tin tout t amt 0 w = (Inr amountOut, w0)"
      by simp
    then show ?thesis by blast
  next
    case (Inl msg)
    with q Cons.prems have "failures nd tin tout amt tiers w0 = None"
      by (simp split: option.splits prod.splits)
    from Cons.IH [OF this] obtain pre fee post msgs w1 amountOut w2 where
      "tiers = pre @ fee # post" "failures nd tin tout amt pre w0 = Some (msgs, w1)"
      "quoteExactInputSingle nd tin tout fee amt 0 w1 = (Inr amountOut, w2)"
      by blast
    with q Inl have "t # tiers = (t # pre) @ fee # post \<and>
        failures nd tin tout amt (t # pre) w = Some (msg # msgs, w1) \<and>
        quoteExactInputSingle nd tin tout fee amt 0 w1 = (Inr amountOut, w2)"
      by simp
    then show ?thesis by blast
  qed
qed

lemma getBestQuote_loop_returns:
  assumes "getBestQuote_loop onOutput onFailed noPool nd tin tout amt tiers s = (Inr q, s')"
  shows "\<exists>pre post msgs w1 w2.
     tiers = pre @ quote_fee q # post \<and> failures nd tin tout amt pre (world s) = Some (msgs, w1) \<and>
     quoteExactInputSingle nd tin tout (quote_fee q) amt 0 w1 = (Inr (quote_amountOut q), w2)"
proof (cases "failures nd tin tout amt tiers (world s)")
  case (Some r)
  then obtain msgs w' where "failures nd tin tout amt tiers (world s) = Some (msgs, w')"
    by (cases r) simp
  from getBestQuote_loop_exhausted [OF this, of onOutput onFailed noPool] assms
  show ?thesis by simp
next
  case None
  from failures_None [OF this] obtain pre fee post msgs w1 amountOut w2 where
    t: "tiers = pre @ fee # post" and f: "failures nd tin tout amt pre (world s) = Some (msgs, w1)"
    and a: "quoteExactInputSingle nd tin tout fee amt 0 w1 = (Inr amountOut, w2)"
    by blast
  from getBestQuote_loop_answered [OF f a, of onOutput onFailed noPool post] assms t
  have "q = \<lparr>quote_fee = fee, quote_amountOut = amountOut\<rparr>"
    by simp
  with t f a show ?thesis
    by auto
qed

lemma getBestQuote_loop_raises:
  "(\<exists>e. fst (getBestQuote_loop onOutput onFailed noPool nd tin tout amt tiers s) = Inl e)
   \<longleftrightarrow> failures nd tin tout amt tiers (world s) \<noteq> None"
proof (cases "failures nd tin tout amt tiers (world s)")
  case (Some r)
  then obtain msgs w' where "failures nd tin tout amt tiers (world s) = Some (msgs, w')"
    by (cases r) simp
  from getBestQuote_loop_exhausted [OF this, of onOutput onFailed noPool] Some
  show ?thesis by simp
next
  case None
  from failures_None [OF this] obtain pre fee post msgs w1 amountOut w2 where
    t: "tiers = pre @ fee # post" and f: "failures nd tin tout amt pre (world s) = Some (msgs, w1)"
    and a: "quoteExactInputSingle nd tin tout fee amt 0 w1 = (Inr amountOut, w2)"
    by blast
  from getBestQuote_loop_answered [OF f a, of onOutput onFailed noPool post] t None
  show ?thesis by simp
qed

text \<open>
  C4. First-success quote selection. For every token pair, input amount and list of fee
  tiers that splits as \<open>pre @ fee # post\<close>: when the node fails the calls for the tiers of
  \<open>pre\<close>, asked in the order of the list, and then answers the call for \<open>fee\<close> with
  \<open>amountOut\<close>, the loop returns \<open>fee\<close> with \<open>amountOut\<close>. The calls it has issued are one
  failed call for each tier of \<open>pre\<close>, in order, followed by the answered call for \<open>fee\<close>:
  nothing is asked for \<open>post\<close>, whatever the node would answer there, and no amount is
  compared with another. \<open>getBestQuote\<close> of \<^verbatim>\<open>app.js\<close> and \<open>getBestQuote_script\<close> of the
  script are this loop over \<open>feeTiers\<close>. Conversely a quote that is returned is that of the
  first tier of the list that the node answers.
\<close>

theorem getBestQuote_first_success:
  fixes nd :: "'w node"
  shows
  "(failures nd tin tout amt pre (world s) = Some (msgs, w1) \<and>
    quoteExactInputSingle nd tin tout fee amt 0 w1 = (Inr amountOut, w2) \<longrightarrow>
      length msgs = length pre
      \<and> getBestQuote_loop onOutput onFailed noPool nd tin tout amt (pre @ fee # post) s =
          (Inr \<lparr>quote_fee = fee, quote_amountOut = amountOut\<rparr>,
           afterAnswer onOutput tin tout amt fee amountOut w2
             (afterFailures onFailed tin tout amt pre msgs w1 s))
      \<and> (feeTiers = pre @ fee # post \<longrightarrow>
           getBestQuote nd tin tout amt s =
             (Inr \<lparr>quote_fee = fee, quote_amountOut = amountOut\<rparr>,
              afterAnswer (\<lambda>fee amountOut. []) tin tout amt fee amountOut w2
                (afterFailures (tierFailed Stderr) tin tout amt pre msgs w1 s))
         \<and> getBestQuote_script formatUnits nd tin tout amt s =
             (Inr \<lparr>quote_fee = fee, quote_amountOut = amountOut\<rparr>,
              afterAnswer (tierOutput formatUnits) tin tout amt fee amountOut w2
                (afterFailures (tierFailed Stdout) tin tout amt pre msgs w1 s))))
   \<and> (getBestQuote_loop onOutput onFailed noPool nd tin tout amt tiers s = (Inr q, s') \<longrightarrow>
        (\<exists>pre post msgs w1 w2.
           tiers = pre @ quote_fee q # post \<and>
           failures nd tin tout amt pre (world s) = Some (msgs, w1) \<and>
           quoteExactInputSingle nd tin tout (quote_fee q) amt 0 w1 = (Inr (quote_amountOut q), w2)))
   \<and> (getBestQuote nd tin tout amt s = (Inr q, s')
        \<or> getBestQuote_script formatUnits nd tin tout amt s = (Inr q, s') \<longrightarrow>
        (\<exists>pre post msgs w1 w2.
           feeTiers = pre @ quote_fee q # post \<and>
           failures nd tin tout amt pre (world s) = Some (msgs, w1) \<and>
           quoteExactInputSingle nd tin tout (quote_fee q) amt 0 w1 = (Inr (quote_amountOut q), w2)))"
proof (intro conjI impI)
  assume a: "failures nd tin tout amt pre (world s) = Some (msgs, w1) \<and>
    quoteExactInputSingle nd tin tout fee amt 0 w1 = (Inr amountOut, w2)"
  then show "length msgs = length pre"
    by (auto dest: failures_length)
  from a show "getBestQuote_loop onOutput onFailed noPool nd tin tout amt (pre @ fee # post) s =
          (Inr \<lparr>quote_fee = fee, quote_amountOut = amountOut\<rparr>,
           afterAnswer onOutput tin tout amt fee amountOut w2
             (afterFailures onFailed tin tout amt pre msgs w1 s))"
    by (intro getBestQuote_loop_answered) simp_all
  assume t: "feeTiers = pre @ fee # post"
  from a show "getBestQuote nd tin tout amt s =
             (Inr \<lparr>quote_fee = fee, quote_amountOut = amountOut\<rparr>,
              afterAnswer (\<lambda>fee amountOut. []) tin tout amt fee amountOut w2
                (afterFailures (tierFailed Stderr) tin tout amt pre msgs w1 s))"
    unfolding getBestQuote_def t by (intro getBestQuote_loop_answered) simp_all
  from a show "getBestQuote_script formatUnits nd tin tout amt s =
             (Inr \<lparr>quote_fee = fee, quote_amountOut = amountOut\<rparr>,
              afterAnswer (tierOutput formatUnits) tin tout amt fee amountOut w2
                (afterFailures (tierFailed Stdout) tin tout amt pre msgs w1 s))"
    unfolding getBestQuote_script_def t by (intro getBestQuote_loop_answered) simp_all
next
  assume "getBestQuote_loop onOutput onFailed noPool nd tin tout amt tiers s = (Inr q, s')"
  then show "\<exists>pre post msgs w1 w2.
           tiers = pre @ quote_fee q # post \<and>
           failures nd tin tout amt pre (world s) = Some (msgs, w1) \<and>
           quoteExactInputSingle nd tin tout (quote_fee q) amt 0 w1 = (Inr (quote_amountOut q), w2)"
    by (rule getBestQuote_loop_returns)
next
  assume "getBestQuote nd tin tout amt s = (Inr q, s')
        \<or> getBestQuote_script formatUnits nd tin tout amt s = (Inr q, s')"
  then show "\<exists>pre post msgs w1 w2.
           feeTiers = pre @ quote_fee q # post \<and>
           failures nd tin tout amt pre (world s) = Some (msgs, w1) \<and>
           quoteExactInputSingle nd tin tout (quote_fee q) amt 0 w1 = (Inr (quote_amountOut q), w2)"
    unfolding getBestQuote_def getBestQuote_script_def
    by (elim disjE) (rule getBestQuote_loop_returns, assumption)+
qed

text \<open>
  C5. Exhaustion. When the node fails the call for every tier of the list, asked in order,
  the loop raises the no-pool error, after one call for each tier, each with its line on
  the console: no failure has stopped the calls for the tiers after it. So do
  \<open>getBestQuote\<close> and \<open>getBestQuote_script\<close> over \<open>feeTiers\<close>, each with its own message. And
  each of them raises an error exactly when the node fails every tier: when the node
  answers one of them, a quote is returned.
\<close>

theorem getBestQuote_exhaustion:
  fixes nd :: "'w node"
  shows
  "(failures nd tin tout amt tiers (world s) = Some (msgs, w') \<longrightarrow>
      length msgs = length tiers
      \<and> getBestQuote_loop onOutput onFailed noPool nd tin tout amt tiers s =
          (Inl (NoLiquidity noPool), afterFailures onFailed tin tout amt tiers msgs w' s))
   \<and> (failures nd tin tout amt feeTiers (world s) = Some (msgs, w') \<longrightarrow>
        getBestQuote nd tin tout amt s =
          (Inl (NoLiquidity ''No valid liquidity pool found.''),
           afterFailures (tierFailed Stderr) tin tout amt feeTiers msgs w' s)
      \<and> getBestQuote_script formatUnits nd tin tout amt s =
          (Inl (NoLiquidity ''No valid pools available for this token pair.''),
           afterFailures (tierFailed Stdout) tin tout amt feeTiers msgs w' s))
   \<and> ((\<exists>e. fst (getBestQuote_loop onOutput onFailed noPool nd tin tout amt tiers s) = Inl e)
        \<longleftrightarrow> failures nd tin tout amt tiers (world s) \<noteq> None)
   \<and> ((\<exists>e. fst (getBestQuote nd tin tout amt s) = Inl e)
        \<longleftrightarrow> failures nd tin tout amt feeTiers (world s) \<noteq> None)
   \<and> ((\<exists>e. fst (getBestQuote_script formatUnits nd tin tout amt s) = Inl e)
        \<longleftrightarrow> failures nd tin tout amt feeTiers (world s) \<noteq> None)"
proof (intro conjI impI)
  assume a: "failures nd tin tout amt tiers (world s) = Some (msgs, w')"
  then show "length msgs = length tiers"
    by (rule failures_length)
  from a show "getBestQuote_loop onOutput onFailed noPool nd tin tout amt tiers s =
      (Inl (NoLiquidity noPool), afterFailures onFailed tin tout amt tiers msgs w' s)"
    by (rule getBestQuote_loop_exhausted)
next
  assume a: "failures nd tin tout amt feeTiers (world s) = Some (msgs, w')"
  then show "getBestQuote nd tin tout amt s =
          (Inl (NoLiquidity ''No valid liquidity pool found.''),
           afterFailures (tierFailed Stderr) tin tout amt feeTiers msgs w' s)"
    unfolding getBestQuote_def by (rule getBestQuote_loop_exhausted)
  from a show "getBestQuote_script formatUnits nd tin tout amt s =
          (Inl (NoLiquidity ''No valid pools available for this token pair.''),
           afterFailures (tierFailed Stdout) tin tout amt feeTiers msgs w' s)"
    unfolding getBestQuote_script_def by (rule getBestQuote_loop_exhausted)
next
  show "(\<exists>e. fst (getBestQuote_loop onOutput onFailed noPool nd tin tout amt tiers s) = Inl e)
        \<longleftrightarrow> failures nd tin tout amt tiers (world s) \<noteq> None"
    by (rule getBestQuote_loop_raises)
  show "(\<exists>e. fst (getBestQuote nd tin tout amt s) = Inl e)
        \<longleftrightarrow> failures nd tin tout amt feeTiers (world s) \<noteq> None"
    unfolding getBestQuote_def by (rule getBestQuote_loop_raises)
  show "(\<exists>e. fst (getBestQuote_script formatUnits nd tin tout amt s) = Inl e)
        \<longleftrightarrow> failures nd tin tout amt feeTiers (world s) \<noteq> None"
    unfolding getBestQuote_script_def by (rule getBestQuote_loop_raises)
qed
section \<open>Slippage bounds\<close>

lemma calculateSlippage_values:
  "calculateSlippage tokenIn tokenOut \<in> {5 / 1000, 1 / 100, 3 / 100}"
  by (simp add: calculateSlippage_def BASE_SLIPPAGE_def MAX_SLIPPAGE_def)

lemma sdiv_100_le:
  assumes "0 \<le> k" "k \<le> 100"
  shows "(int a * k) sdiv 100 \<le> int a"
proof -
  have nn: "0 \<le> int a * k"
    using assms by simp
  have "(int a * k) sdiv 100 = (int a * k) div 100"
    using nn by (simp add: signed_divide_int_def sgn_if)
  also have "\<dots> \<le> (int a * 100) div 100"
    by (rule zdiv_mono1) (use assms in \<open>simp_all add: mult_left_mono\<close>)
  finally show ?thesis by simp
qed

text \<open>
  C9. Slippage bounds. For every pair of token strings \<open>calculateSlippage\<close> returns one of
  \<open>0.005\<close>, \<open>0.01\<close> and \<open>0.03\<close>, a value between \<open>BASE_SLIPPAGE\<close> and \<open>MAX_SLIPPAGE\<close>; and
  whenever the conversion of \<open>100 - slippage * 100\<close> to a \<^verbatim>\<open>BigNumber\<close> returns the integer
  equal to it, the derived \<open>amountOutMinimum\<close> is a value that does not exceed the quoted
  \<open>amountOut\<close>.
\<close>

theorem calculateSlippage_bounds:
  assumes "\<And>x k. fromNumber x = Inr k \<Longrightarrow> of_int k = x"
  shows "calculateSlippage tokenIn tokenOut \<in> {5 / 1000, 1 / 100, 3 / 100}
    \<and> BASE_SLIPPAGE \<le> calculateSlippage tokenIn tokenOut
    \<and> calculateSlippage tokenIn tokenOut \<le> MAX_SLIPPAGE
    \<and> (\<forall>m. amountOutMinimum fromNumber amountOut (calculateSlippage tokenIn tokenOut) = Inr m
          \<longrightarrow> m \<le> int amountOut)"
proof (intro conjI allI impI)
  show "calculateSlippage tokenIn tokenOut \<in> {5 / 1000, 1 / 100, 3 / 100}"
    by (rule calculateSlippage_values)
  show "BASE_SLIPPAGE \<le> calculateSlippage tokenIn tokenOut"
    by (simp add: calculateSlippage_def BASE_SLIPPAGE_def MAX_SLIPPAGE_def)
  show "calculateSlippage tokenIn tokenOut \<le> MAX_SLIPPAGE"
    by (simp add: calculateSlippage_def BASE_SLIPPAGE_def MAX_SLIPPAGE_def)
next
  fix m
  assume m: "amountOutMinimum fromNumber amountOut (calculateSlippage tokenIn tokenOut) = Inr m"
  let ?x = "100 - (calculateSlippage tokenIn tokenOut * 100)"
  from m obtain k where k: "fromNumber ?x = Inr k" and mk: "m = (int amountOut * k) sdiv 100"
    by (auto simp: amountOutMinimum_def split: sum.splits)
  have kx: "(of_int k :: rat) = ?x"
    using assms k by blast
  have "0 \<le> ?x" "?x \<le> 100"
    using calculateSlippage_values [of tokenIn tokenOut] by auto
  then have "(0::rat) \<le> of_int k" "(of_int k :: rat) \<le> of_int 100"
    using kx by simp_all
  then have "0 \<le> k" "k \<le> 100"
    by (simp_all only: of_int_le_iff of_int_0_le_iff)
  then show "m \<le> int amountOut"
    unfolding mk by (rule sdiv_100_le)
qed

section \<open>Pool address: hex strings\<close>

lemma takeWhile_neq_less:
  "c \<in> set xs \<Longrightarrow> length (takeWhile (\<lambda>d. d \<noteq> c) xs) < length xs"
  by (induction xs) auto

lemma digitValue_less: "c \<in> set hexDigits \<Longrightarrow> digitValue c < 16"
proof -
  assume "c \<in> set hexDigits"
  then have "length (takeWhile (\<lambda>d. d \<noteq> c) hexDigits) < length hexDigits"
    by (rule takeWhile_neq_less)
  then show ?thesis
    by (simp add: digitValue_def hexDigits_def)
qed

lemma nth_digitValue: "c \<in> set hexDigits \<Longrightarrow> hexDigits ! digitValue c = c"
proof -
  assume c: "c \<in> set hexDigits"
  then have "length (takeWhile (\<lambda>d. d \<noteq> c) hexDigits) < length hexDigits"
    by (rule takeWhile_neq_less)
  from nth_length_takeWhile [OF this] show ?thesis
    by (simp add: digitValue_def)
qed

lemma hexValue_acc_append:
  "hexValue_acc acc (xs @ ys) = hexValue_acc (hexValue_acc acc xs) ys"
  by (induction xs arbitrary: acc) simp_all

lemma hexValue_snoc: "hexValue (ds @ [c]) = 16 * hexValue ds + digitValue c"
  by (simp add: hexValue_def hexValue_acc_append)

lemma isHex_append: "isHex (xs @ ys) \<longleftrightarrow> isHex xs \<and> isHex ys"
  by (simp add: isHex_def)

lemma hexValue_append:
  "hexValue (xs @ ys) = hexValue xs * 16 ^ length ys + hexValue ys"
proof (induction ys rule: rev_induct)
  case Nil
  show ?case by (simp add: hexValue_def)
next
  case (snoc c ys)
  have "hexValue (xs @ ys @ [c]) = 16 * hexValue (xs @ ys) + digitValue c"
    using hexValue_snoc [of "xs @ ys" c] by simp
  also have "\<dots> = 16 * (hexValue xs * 16 ^ length ys + hexValue ys) + digitValue c"
    by (simp only: snoc.IH)
  also have "\<dots> = hexValue xs * 16 ^ length (ys @ [c]) + hexValue (ys @ [c])"
    by (simp add: hexValue_snoc algebra_simps)
  finally show ?case .
qed

lemma hexValue_bound: "isHex ds \<Longrightarrow> hexValue ds < 16 ^ length ds"
proof (induction ds rule: rev_induct)
  case Nil
  show ?case by (simp add: hexValue_def)
next
  case (snoc c ds)
  then have "hexValue ds < 16 ^ length ds" and "digitValue c < 16"
    by (simp_all add: isHex_def digitValue_less)
  then have "16 * hexValue ds + digitValue c < 16 * 16 ^ length ds"
    by linarith
  then show ?case
    by (simp add: hexValue_snoc)
qed

lemma toHex_hexValue: "isHex ds \<Longrightarrow> toHex (length ds) (hexValue ds) = ds"
proof (induction ds rule: rev_induct)
  case Nil
  show ?case by simp
next
  case (snoc c ds)
  then have c: "c \<in> set hexDigits" and ds: "isHex ds"
    by (simp_all add: isHex_def)
  have d: "digitValue c < 16"
    using c by (rule digitValue_less)
  have "(16 * hexValue ds + digitValue c) div 16 = hexValue ds"
    and "(16 * hexValue ds + digitValue c) mod 16 = digitValue c"
    using d by simp_all
  then show ?case
    using snoc.IH [OF ds] c by (simp add: hexValue_snoc nth_digitValue)
qed

text \<open>On a hash, the last 40 characters of the string are the hex digits of the low 20
  bytes of the number it denotes.\<close>

lemma low20bytes_slice:
  assumes "isHash h"
  shows "low20bytes h = ''0x'' @ slice_last 40 h"
proof -
  define ds where "ds = drop 2 h"
  define hi where "hi = take 24 ds"
  define lo where "lo = drop 24 ds"
  from assms have len: "length ds = 64" and hex: "isHex ds"
    by (simp_all add: isHash_def ds_def)
  have split: "ds = hi @ lo"
    by (simp add: hi_def lo_def)
  have hex2: "isHex lo"
    using hex isHex_append [of hi lo] by (simp add: split)
  have len2: "length lo = 40"
    using len by (simp add: lo_def)
  have "hexValue ds = hexValue hi * 16 ^ 40 + hexValue lo"
    using hexValue_append [of hi lo] len2 by (simp add: split)
  moreover have "hexValue lo < 16 ^ 40"
    using hexValue_bound [OF hex2] len2 by simp
  moreover have "(2::nat) ^ 160 = 16 ^ 40"
    by simp
  ultimately have "hexValue ds mod 2 ^ 160 = hexValue lo"
    by simp
  then have "toHex 40 (hexValue ds mod 2 ^ 160) = lo"
    using toHex_hexValue [OF hex2] len2 by simp
  moreover have "slice_last 40 h = lo"
    using assms by (simp add: slice_last_def isHash_def lo_def ds_def)
  ultimately show ?thesis
    by (simp add: low20bytes_def ds_def)
qed

section \<open>Pool address: order, algorithm, errors\<close>

text \<open>The pair \<open>(token0, token1)\<close> that \<open>getPoolAddress\<close> hashes.\<close>

lemma ordered_pair_swap:
  assumes "toLowerCase a = toLowerCase b \<Longrightarrow> a = b"
  shows "(if toLowerCase a < toLowerCase b then (a, b) else (b, a)) =
         (if toLowerCase b < toLowerCase a then (b, a) else (a, b))"
proof (cases "toLowerCase a < toLowerCase b")
  case True
  then have "\<not> toLowerCase b < toLowerCase a"
    by (rule less_not_sym)
  with True show ?thesis by simp
next
  case False
  show ?thesis
  proof (cases "toLowerCase b < toLowerCase a")
    case True
    with False show ?thesis by simp
  next
    case nless: False
    with False have "toLowerCase a = toLowerCase b"
      by (simp add: not_less order_antisym)
    with assms have "a = b" by simp
    then show ?thesis by simp
  qed
qed

text \<open>
  C1. Order independence. For every pair of well-formed token addresses \<open>tokenA\<close>,
  \<open>tokenB\<close> and every fee tier, \<open>getPoolAddress\<close> returns the same for \<open>(tokenA, tokenB)\<close>
  and for \<open>(tokenB, tokenA)\<close>, whatever the hash function, provided the checksummed form
  the library returns is canonical: the two tokens are put in the order of their
  lower-case forms before they are hashed.
\<close>

theorem getPoolAddress_order_independent:
  assumes "canonical getAddress"
    and "getAddress tokenA = Inr a" and "getAddress tokenB = Inr b"
  shows "getPoolAddress getAddress keccak256 tokenA tokenB fee =
         getPoolAddress getAddress keccak256 tokenB tokenA fee"
proof -
  have "toLowerCase a = toLowerCase b \<Longrightarrow> a = b"
    using assms unfolding canonical_def by blast
  then have "(if toLowerCase a < toLowerCase b then (a, b) else (b, a)) =
         (if toLowerCase b < toLowerCase a then (b, a) else (a, b))"
    by (rule ordered_pair_swap)
  then show ?thesis
    using assms(2,3) by (simp add: getPoolAddress_def)
qed

lemma sort_pair:
  "sort_key f [a, b] = (if f a \<le> f b then [a, b] else [b, a])"
  by simp

text \<open>
  C2. Algorithm. With a library whose checksummed forms are canonical and whose hashes
  are 32 bytes in hex, \<open>getPoolAddress\<close> is the locator of the specification on every
  input: both identifiers normalised, ordered ascending by lower-case value, the ordered
  triple hashed, then the marker \<open>0xff\<close>, the factory address, the first hash and the
  init-code-hash constant hashed, and the low 20 bytes of that second hash returned in
  checksummed form; an identifier that is not well-formed raises the invalid-address error
  in both.
\<close>

theorem getPoolAddress_algorithm:
  assumes "canonical getAddress" and "returnsHashes keccak256"
  shows "getPoolAddress getAddress keccak256 tokenA tokenB fee =
         locatePool getAddress keccak256 tokenA tokenB fee"
proof (cases "getAddress tokenA")
  case (Inl m)
  then show ?thesis
    by (simp add: getPoolAddress_def locatePool_def)
next
  case a: (Inr a)
  show ?thesis
  proof (cases "getAddress tokenB")
    case (Inl m)
    with a show ?thesis
      by (simp add: getPoolAddress_def locatePool_def)
  next
    case b: (Inr b)
    have tie: "toLowerCase a = toLowerCase b \<Longrightarrow> a = b"
      using assms(1) a b unfolding canonical_def by blast
    define token0 where "token0 = sort_key toLowerCase [a, b] ! 0"
    define token1 where "token1 = sort_key toLowerCase [a, b] ! 1"
    have order: "(if toLowerCase a < toLowerCase b then (a, b) else (b, a)) = (token0, token1)"
    proof (cases "toLowerCase a < toLowerCase b")
      case True
      then have "toLowerCase a \<le> toLowerCase b"
        by (rule less_imp_le)
      with True show ?thesis
        by (simp add: token0_def token1_def)
    next
      case False
      then show ?thesis
        using tie by (auto simp: token0_def token1_def)
    qed
    have low: "low20bytes h = ''0x'' @ slice_last 40 h" if "keccak256 vs = Inr h" for vs h
      using assms(2) that low20bytes_slice unfolding returnsHashes_def by blast
    show ?thesis
      using a b order
      by (auto simp: getPoolAddress_def locatePool_def Let_def token0_def token1_def low
          simp del: sort_key_simps split: sum.splits)
  qed
qed

lemma isAddress_FACTORY: "isAddress FACTORY_ADDRESS"
  by (simp add: isAddress_def FACTORY_ADDRESS_def isHex_def hexDigits_def lower_eval)

lemma fitsType_INIT: "fitsType (SolBytes32 POOL_INIT_CODE_HASH)"
  by (simp add: POOL_INIT_CODE_HASH_def isHex_def hexDigits_def lower_eval)

lemma fitsType_marker: "fitsType (SolBytes ''0xff'')"
  by (simp add: isHex_def hexDigits_def lower_eval)

lemma lower_char_hexDigit: "c \<in> set hexDigits \<Longrightarrow> lower_char c = c"
  by (auto simp: hexDigits_def lower_char_def)

lemma toLowerCase_isHex: "isHex ds \<Longrightarrow> toLowerCase ds = ds"
  by (induction ds) (simp_all add: isHex_def toLowerCase_def lower_char_hexDigit)

lemma isHash_fitsType: "isHash h \<Longrightarrow> fitsType (SolBytes32 h)"
  by (simp add: isHash_def toLowerCase_isHex)

lemma isHash_slice:
  assumes "isHash h"
  shows "isHex (slice_last 40 h) \<and> length (slice_last 40 h) = 40"
proof -
  from assms have len: "length h = 66" and hex: "isHex (drop 2 h)"
    by (simp_all add: isHash_def)
  have "drop 2 h = take 24 (drop 2 h) @ drop 24 (drop 2 h)"
    by (simp only: append_take_drop_id)
  with hex have "isHex (take 24 (drop 2 h) @ drop 24 (drop 2 h))"
    by simp
  then have "isHex (drop 24 (drop 2 h))"
    by (simp only: isHex_append)
  then show ?thesis
    using len by (simp add: slice_last_def)
qed

text \<open>When both identifiers are well-formed, the run goes through both hashes and the last
  normalisation.\<close>

lemma getPoolAddress_succeeds:
  assumes lib: "returnsAddresses getAddress" "acceptsLowerCase getAddress"
      "returnsHashes keccak256" "hashesTyped keccak256"
    and fee: "fee < 2 ^ 24"
    and a: "getAddress tokenA = Inr a" and b: "getAddress tokenB = Inr b"
  shows "\<exists>pool. getPoolAddress getAddress keccak256 tokenA tokenB fee = Inr pool"
proof -
  obtain token0 token1 where
    order: "(if toLowerCase a < toLowerCase b then (a, b) else (b, a)) = (token0, token1)"
    by (cases "toLowerCase a < toLowerCase b") simp_all
  have "isAddress a" "isAddress b"
    using lib(1) a b unfolding returnsAddresses_def by blast+
  with order have "isAddress token0" "isAddress token1"
    by (auto split: if_splits)
  then have "list_all fitsType [SolAddress token0, SolAddress token1, SolUint24 fee]"
    using fee by simp
  then obtain salt where salt: "keccak256 [SolAddress token0, SolAddress token1, SolUint24 fee] = Inr salt"
    using lib(4) unfolding hashesTyped_def by blast
  then have "isHash salt"
    using lib(3) unfolding returnsHashes_def by blast
  then have "list_all fitsType [SolBytes ''0xff'', SolAddress FACTORY_ADDRESS, SolBytes32 salt,
      SolBytes32 POOL_INIT_CODE_HASH]"
    using isAddress_FACTORY fitsType_INIT fitsType_marker isHash_fitsType by simp
  then obtain create2Hash where h: "keccak256 [SolBytes ''0xff'', SolAddress FACTORY_ADDRESS,
      SolBytes32 salt, SolBytes32 POOL_INIT_CODE_HASH] = Inr create2Hash"
    using lib(4) unfolding hashesTyped_def by blast
  then have "isHash create2Hash"
    using lib(3) unfolding returnsHashes_def by blast
  then have "isHex (slice_last 40 create2Hash) \<and> length (slice_last 40 create2Hash) = 40"
    by (rule isHash_slice)
  then obtain pool where pool: "getAddress (''0x'' @ slice_last 40 create2Hash) = Inr pool"
    using lib(2) unfolding acceptsLowerCase_def by blast
  have "getPoolAddress getAddress keccak256 tokenA tokenB fee = Inr pool"
    unfolding getPoolAddress_def using a b order salt h pool
    by (simp del: append.simps)
  then show ?thesis ..
qed

text \<open>
  C6. Invalid address. \<open>getPoolAddress\<close> raises the invalid-address error of the library
  when the first identifier is not well-formed, and when the first is and the second is
  not. When both are well-formed it returns an address, for a fee that fits \<^verbatim>\<open>uint24\<close> and
  a library that returns addresses, accepts lower-case addresses, returns hashes and hashes
  every well-typed list of values; the function takes no connection and no state, so the
  computation is local.
\<close>

theorem getPoolAddress_invalid_address:
  "(\<forall>m. getAddress tokenA = Inl m \<longrightarrow>
      getPoolAddress getAddress keccak256 tokenA tokenB fee = Inl (InvalidAddress m))
   \<and> (\<forall>a m. getAddress tokenA = Inr a \<and> getAddress tokenB = Inl m \<longrightarrow>
      getPoolAddress getAddress keccak256 tokenA tokenB fee = Inl (InvalidAddress m))
   \<and> (returnsAddresses getAddress \<and> acceptsLowerCase getAddress \<and>
       returnsHashes keccak256 \<and> hashesTyped keccak256 \<and> fee < 2 ^ 24 \<longrightarrow>
      (\<forall>a b. getAddress tokenA = Inr a \<and> getAddress tokenB = Inr b \<longrightarrow>
         (\<exists>pool. getPoolAddress getAddress keccak256 tokenA tokenB fee = Inr pool)))"
proof (intro conjI allI impI)
  fix m
  assume "getAddress tokenA = Inl m"
  then show "getPoolAddress getAddress keccak256 tokenA tokenB fee = Inl (InvalidAddress m)"
    by (simp add: getPoolAddress_def)
next
  fix a m
  assume "getAddress tokenA = Inr a \<and> getAddress tokenB = Inl m"
  then show "getPoolAddress getAddress keccak256 tokenA tokenB fee = Inl (InvalidAddress m)"
    by (simp add: getPoolAddress_def)
next
  fix a b
  assume "returnsAddresses getAddress \<and> acceptsLowerCase getAddress \<and>
       returnsHashes keccak256 \<and> hashesTyped keccak256 \<and> fee < 2 ^ 24"
    and "getAddress tokenA = Inr a \<and> getAddress tokenB = Inr b"
  then show "\<exists>pool. getPoolAddress getAddress keccak256 tokenA tokenB fee = Inr pool"
    using getPoolAddress_succeeds [of getAddress keccak256 fee tokenA a tokenB b] by blast
qed

section \<open>The quote endpoint\<close>

lemma getBestQuote_exhausted:
  "failures nd a b w feeTiers (world s) \<noteq> None \<Longrightarrow>
   fst (getBestQuote nd a b w s) = Inl (NoLiquidity ''No valid liquidity pool found.'')"
  unfolding getBestQuote_def by (auto simp: getBestQuote_loop_exhausted)

lemma getBestQuote_answered:
  assumes "failures nd a b w feeTiers (world s) = None"
  shows "\<exists>q. fst (getBestQuote nd a b w s) = Inr q"
proof (cases "fst (getBestQuote nd a b w s)")
  case (Inl e)
  with assms show ?thesis
    using getBestQuote_loop_raises [of "\<lambda>fee amountOut. []" "tierFailed Stderr"
        "''No valid liquidity pool found.''" nd a b w feeTiers s]
    unfolding getBestQuote_def by auto
next
  case (Inr q)
  then show ?thesis by simp
qed

lemma post_quote_missing:
  "missingParameters req \<Longrightarrow>
   post_quote tokenMap parseEther formatUnits nd req s =
     (\<lparr>status = 400, body = ErrorBody ''Missing required parameters in request body''\<rparr>, s)"
  by (simp add: post_quote_def)

lemma post_quote_tokenIn:
  "\<not> missingParameters req \<Longrightarrow> findTokenAddress_of tokenMap (body_tokenIn req) = Inl e \<Longrightarrow>
   fst (post_quote tokenMap parseEther formatUnits nd req s) =
     \<lparr>status = 500, body = ErrorBody (message e)\<rparr>"
  by (simp add: post_quote_def quote_try_def andThen_def local_def)

lemma post_quote_tokenOut:
  "\<not> missingParameters req \<Longrightarrow> findTokenAddress_of tokenMap (body_tokenIn req) = Inr a \<Longrightarrow>
   findTokenAddress_of tokenMap (body_tokenOut req) = Inl e \<Longrightarrow>
   fst (post_quote tokenMap parseEther formatUnits nd req s) =
     \<lparr>status = 500, body = ErrorBody (message e)\<rparr>"
  by (simp add: post_quote_def quote_try_def andThen_def local_def)

lemma post_quote_amount:
  "\<not> missingParameters req \<Longrightarrow> findTokenAddress_of tokenMap (body_tokenIn req) = Inr a \<Longrightarrow>
   findTokenAddress_of tokenMap (body_tokenOut req) = Inr b \<Longrightarrow>
   parseEther (body_amountIn req) = Inl m \<Longrightarrow>
   fst (post_quote tokenMap parseEther formatUnits nd req s) =
     \<lparr>status = 500, body = ErrorBody m\<rparr>"
  by (simp add: post_quote_def quote_try_def andThen_def local_def library_def)

lemma post_quote_quoted:
  "\<not> missingParameters req \<Longrightarrow> findTokenAddress_of tokenMap (body_tokenIn req) = Inr a \<Longrightarrow>
   findTokenAddress_of tokenMap (body_tokenOut req) = Inr b \<Longrightarrow>
   parseEther (body_amountIn req) = Inr w \<Longrightarrow>
   fst (post_quote tokenMap parseEther formatUnits nd req s) =
     (case fst (getBestQuote nd a b w s) of
        Inl e \<Rightarrow> \<lparr>status = 500, body = ErrorBody (message e)\<rparr>
      | Inr q \<Rightarrow> \<lparr>status = 200, body = QuoteBody (quote_fee q) (formatUnits (quote_amountOut q) 18)\<rparr>)"
  by (cases "getBestQuote nd a b w s")
     (simp add: post_quote_def quote_try_def andThen_def local_def library_def split: sum.splits)

lemma post_quote_error_or_ok:
  "status (fst (post_quote tokenMap parseEther formatUnits nd req s)) = 200
   \<or> (status (fst (post_quote tokenMap parseEther formatUnits nd req s)) = 400
        \<or> status (fst (post_quote tokenMap parseEther formatUnits nd req s)) = 500)
     \<and> (\<exists>m. body (fst (post_quote tokenMap parseEther formatUnits nd req s)) = ErrorBody m)"
proof (cases "missingParameters req")
  case True
  then show ?thesis
    by (simp add: post_quote_missing)
next
  case False
  show ?thesis
  proof (cases "quote_try tokenMap parseEther formatUnits nd req s")
    case (Pair r s')
    then show ?thesis
      using False
      by (cases r)
         (auto simp: post_quote_def quote_try_def andThen_def local_def
            split: sum.splits prod.splits)
  qed
qed

lemma quote_route_rejected:
  "express_json r = Inl answer \<Longrightarrow>
   quote_route express_json tokenMap parseEther formatUnits nd r s = (answer, s)"
  by (simp add: quote_route_def behind_json_def)

lemma quote_route_parsed:
  "express_json r = Inr req \<Longrightarrow>
   quote_route express_json tokenMap parseEther formatUnits nd r s =
     post_quote tokenMap parseEther formatUnits nd req s"
  by (simp add: quote_route_def behind_json_def)

text \<open>
  C7, as amended. For every \<^verbatim>\<open>POST /quote\<close> request \<open>r\<close>. When the JSON middleware rejects its
  body, the answer is the framework's and the handler does not run: nothing is called,
  nothing printed. When the middleware parses it into \<open>req\<close>: a body in which \<open>amountIn\<close>,
  \<open>tokenIn\<close> or \<open>tokenOut\<close> is missing or falsy is answered with status 400; with all three
  present, a token that is not resolved and an amount the library does not parse are
  answered with status 500, as is the exhaustion of all fee tiers, when the node fails the
  quote for every tier; when the node answers a tier, the quote is answered with status
  200 and \<open>{feeTier, amountOut}\<close>. Every answer is a 200, or the framework's
  answer to a rejected body, or has status 400 or 500 and a JSON error object as its body.
\<close>

theorem post_quote_statuses:
  "(\<forall>answer. express_json r = Inl answer \<longrightarrow>
      quote_route express_json tokenMap parseEther formatUnits nd r s = (answer, s))
   \<and> (\<forall>req. express_json r = Inr req \<longrightarrow>
      (missingParameters req \<longrightarrow>
         quote_route express_json tokenMap parseEther formatUnits nd r s =
           (\<lparr>status = 400, body = ErrorBody ''Missing required parameters in request body''\<rparr>, s))
    \<and> (\<not> missingParameters req \<longrightarrow>
         (\<forall>e. findTokenAddress_of tokenMap (body_tokenIn req) = Inl e \<longrightarrow>
            fst (quote_route express_json tokenMap parseEther formatUnits nd r s) =
              \<lparr>status = 500, body = ErrorBody (message e)\<rparr>)
       \<and> (\<forall>a e. findTokenAddress_of tokenMap (body_tokenIn req) = Inr a \<and>
               findTokenAddress_of tokenMap (body_tokenOut req) = Inl e \<longrightarrow>
            fst (quote_route express_json tokenMap parseEther formatUnits nd r s) =
              \<lparr>status = 500, body = ErrorBody (message e)\<rparr>)
       \<and> (\<forall>a b m. findTokenAddress_of tokenMap (body_tokenIn req) = Inr a \<and>
               findTokenAddress_of tokenMap (body_tokenOut req) = Inr b \<and>
               parseEther (body_amountIn req) = Inl m \<longrightarrow>
            fst (quote_route express_json tokenMap parseEther formatUnits nd r s) =
              \<lparr>status = 500, body = ErrorBody m\<rparr>)
       \<and> (\<forall>a b w. findTokenAddress_of tokenMap (body_tokenIn req) = Inr a \<and>
               findTokenAddress_of tokenMap (body_tokenOut req) = Inr b \<and>
               parseEther (body_amountIn req) = Inr w \<longrightarrow>
            (failures nd a b w feeTiers (world s) \<noteq> None \<longrightarrow>
               fst (quote_route express_json tokenMap parseEther formatUnits nd r s) =
                 \<lparr>status = 500, body = ErrorBody ''No valid liquidity pool found.''\<rparr>)
          \<and> (failures nd a b w feeTiers (world s) = None \<longrightarrow>
               (\<exists>q. fst (getBestQuote nd a b w s) = Inr q \<and>
                  fst (quote_route express_json tokenMap parseEther formatUnits nd r s) =
                    \<lparr>status = 200,
                     body = QuoteBody (quote_fee q) (formatUnits (quote_amountOut q) 18)\<rparr>)))))
   \<and> (status (fst (quote_route express_json tokenMap parseEther formatUnits nd r s)) = 200
      \<or> express_json r = Inl (fst (quote_route express_json tokenMap parseEther formatUnits nd r s))
      \<or> (status (fst (quote_route express_json tokenMap parseEther formatUnits nd r s)) = 400
           \<or> status (fst (quote_route express_json tokenMap parseEther formatUnits nd r s)) = 500)
        \<and> (\<exists>m. body (fst (quote_route express_json tokenMap parseEther formatUnits nd r s)) = ErrorBody m))"
proof (intro conjI allI impI)
  fix answer
  assume "express_json r = Inl answer"
  then show "quote_route express_json tokenMap parseEther formatUnits nd r s = (answer, s)"
    by (rule quote_route_rejected)
next
  fix req
  assume "express_json r = Inr req" "missingParameters req"
  then show "quote_route express_json tokenMap parseEther formatUnits nd r s =
        (\<lparr>status = 400, body = ErrorBody ''Missing required parameters in request body''\<rparr>, s)"
    by (simp add: quote_route_parsed post_quote_missing)
next
  fix req e
  assume "express_json r = Inr req" "\<not> missingParameters req"
    "findTokenAddress_of tokenMap (body_tokenIn req) = Inl e"
  then show "fst (quote_route express_json tokenMap parseEther formatUnits nd r s) =
           \<lparr>status = 500, body = ErrorBody (message e)\<rparr>"
    by (simp add: quote_route_parsed post_quote_tokenIn)
next
  fix req a e
  assume "express_json r = Inr req" "\<not> missingParameters req"
    "findTokenAddress_of tokenMap (body_tokenIn req) = Inr a \<and>
     findTokenAddress_of tokenMap (body_tokenOut req) = Inl e"
  then show "fst (quote_route express_json tokenMap parseEther formatUnits nd r s) =
           \<lparr>status = 500, body = ErrorBody (message e)\<rparr>"
    using post_quote_tokenOut [of req tokenMap a e parseEther formatUnits nd s]
    by (simp add: quote_route_parsed)
next
  fix req a b m
  assume "express_json r = Inr req" "\<not> missingParameters req"
    "findTokenAddress_of tokenMap (body_tokenIn req) = Inr a \<and>
     findTokenAddress_of tokenMap (body_tokenOut req) = Inr b \<and>
     parseEther (body_amountIn req) = Inl m"
  then show "fst (quote_route express_json tokenMap parseEther formatUnits nd r s) =
           \<lparr>status = 500, body = ErrorBody m\<rparr>"
    using post_quote_amount [of req tokenMap a b parseEther m formatUnits nd s]
    by (simp add: quote_route_parsed)
next
  fix req a b w
  assume p: "express_json r = Inr req"
    and nm: "\<not> missingParameters req"
    and ok: "findTokenAddress_of tokenMap (body_tokenIn req) = Inr a \<and>
     findTokenAddress_of tokenMap (body_tokenOut req) = Inr b \<and>
     parseEther (body_amountIn req) = Inr w"
  have eq: "fst (quote_route express_json tokenMap parseEther formatUnits nd r s) =
     (case fst (getBestQuote nd a b w s) of
        Inl e \<Rightarrow> \<lparr>status = 500, body = ErrorBody (message e)\<rparr>
      | Inr q \<Rightarrow> \<lparr>status = 200, body = QuoteBody (quote_fee q) (formatUnits (quote_amountOut q) 18)\<rparr>)"
    using nm ok post_quote_quoted [of req tokenMap a b parseEther w formatUnits nd s]
    by (simp add: quote_route_parsed p)
  {
    assume "failures nd a b w feeTiers (world s) \<noteq> None"
    then show "fst (quote_route express_json tokenMap parseEther formatUnits nd r s) =
        \<lparr>status = 500, body = ErrorBody ''No valid liquidity pool found.''\<rparr>"
      by (simp add: eq getBestQuote_exhausted)
  next
    assume "failures nd a b w feeTiers (world s) = None"
    then obtain q where "fst (getBestQuote nd a b w s) = Inr q"
      using getBestQuote_answered by blast
    then show "\<exists>q. fst (getBestQuote nd a b w s) = Inr q \<and>
        fst (quote_route express_json tokenMap parseEther formatUnits nd r s) =
          \<lparr>status = 200, body = QuoteBody (quote_fee q) (formatUnits (quote_amountOut q) 18)\<rparr>"
      by (simp add: eq)
  }
next
  show "status (fst (quote_route express_json tokenMap parseEther formatUnits nd r s)) = 200
      \<or> express_json r = Inl (fst (quote_route express_json tokenMap parseEther formatUnits nd r s))
      \<or> (status (fst (quote_route express_json tokenMap parseEther formatUnits nd r s)) = 400
           \<or> status (fst (quote_route express_json tokenMap parseEther formatUnits nd r s)) = 500)
        \<and> (\<exists>m. body (fst (quote_route express_json tokenMap parseEther formatUnits nd r s)) = ErrorBody m)"
  proof (cases "express_json r")
    case (Inl answer)
    then show ?thesis
      by (simp add: quote_route_rejected)
  next
    case (Inr req)
    with post_quote_error_or_ok [of tokenMap parseEther formatUnits nd req s] show ?thesis
      by (simp add: quote_route_parsed)
  qed
qed
section \<open>Approval before swap\<close>

lemma andThen_local_Inr [simp]: "andThen (local (Inr a)) f = f a"
  by (rule ext) (simp add: andThen_def local_def)

lemma library_Inr [simp]: "library (Inr v) = Inr v"
  by (simp add: library_def)

lemma approvalState_snoc:
  "approvalState w (evs @ [ev]) = approval_step w (approvalState w evs) ev"
  by (simp add: approvalState_def)

lemma ensures_andThen:
  fixes m :: "('a, 'w) action" and f :: "'a \<Rightarrow> ('b, 'w) action"
  assumes "ensures w st m st1" and "\<And>a. ensures w (st1 a) (f a) st2"
  shows "ensures w st (andThen m f) st2"
  unfolding ensures_def
proof (intro allI impI)
  fix s :: "'w state"
  assume s: "approvalState w (trace s) = st"
  obtain r s1 where m: "m s = (r, s1)"
    by (cases "m s")
  show "case andThen m f s of
          (Inl e, s') \<Rightarrow> accepted (approvalState w (trace s'))
        | (Inr a, s') \<Rightarrow> approvalState w (trace s') = st2 a"
  proof (cases r)
    case (Inl e)
    with assms(1) s m show ?thesis
      by (auto simp: ensures_def andThen_def)
  next
    case (Inr a)
    with assms(1) s m have "approvalState w (trace s1) = st1 a"
      by (auto simp: ensures_def)
    with assms(2) [of a] have "case f a s1 of
          (Inl e, s') \<Rightarrow> accepted (approvalState w (trace s'))
        | (Inr b, s') \<Rightarrow> approvalState w (trace s') = st2 b"
      by (simp add: ensures_def)
    with m Inr show ?thesis
      by (simp add: andThen_def)
  qed
qed

lemma ensures_local: "accepted st \<Longrightarrow> ensures w st (local r) (\<lambda>_. st)"
  by (cases r) (simp_all add: ensures_def local_def)

lemma ensures_say: "ensures w st (say ps) (\<lambda>_. st)"
  by (simp add: ensures_def say_def logLines_def)

lemma ensures_remote:
  fixes f :: "'w \<Rightarrow> (string + 'a) \<times> 'w"
  assumes "\<And>m. accepted (approval_step w st (c, Threw m))"
  shows "ensures w st (remote c got f) (\<lambda>v. approval_step w st (c, got v))"
  unfolding ensures_def
proof (intro allI impI)
  fix s :: "'w state"
  assume "approvalState w (trace s) = st"
  with assms remote_cases [of f s c got]
  show "case remote c got f s of
          (Inl e, s') \<Rightarrow> accepted (approvalState w (trace s'))
        | (Inr a, s') \<Rightarrow> approvalState w (trace s') = approval_step w st (c, got a)"
    by (auto simp: approvalState_snoc)
qed

text \<open>A quote is a call that the monitor lets pass in a state in which a run may end.\<close>

lemma approval_step_quote:
  "accepted st \<Longrightarrow> approval_step w st (CallQuote tin tout fee amt priceLimit, out) = st"
  by (cases st) simp_all

lemma approvalState_failedCalls:
  "accepted st \<Longrightarrow> foldl (approval_step w) st (failedCalls tin tout amt fees msgs) = st"
proof (induction fees arbitrary: msgs)
  case Nil
  show ?case by simp
next
  case (Cons fee fees)
  show ?case
  proof (cases msgs)
    case Nil
    then show ?thesis by (simp add: failedCalls_def)
  next
    case (Cons msg rest)
    with Cons.IH Cons.prems show ?thesis
      by (simp add: failedCalls_Cons approval_step_quote)
  qed
qed

lemma ensures_getBestQuote_loop:
  fixes nd :: "'w node"
  assumes "accepted st"
  shows "ensures w st (getBestQuote_loop onOutput onFailed noPool nd tin tout amt tiers) (\<lambda>_. st)"
  unfolding ensures_def
proof (intro allI impI)
  fix s :: "'w state"
  assume st: "approvalState w (trace s) = st"
  from getBestQuote_loop_run [of tiers onOutput onFailed noPool nd tin tout amt s]
  show "case getBestQuote_loop onOutput onFailed noPool nd tin tout amt tiers s of
          (Inl e, s') \<Rightarrow> accepted (approvalState w (trace s'))
        | (Inr a, s') \<Rightarrow> approvalState w (trace s') = st"
    using st assms
    by (elim disjE exE conjE)
       (simp_all add: approvalState_def approvalState_failedCalls approval_step_quote)
qed

text \<open>With the allowance on \<open>token\<close> sufficient or its approval confirmed, sending a swap of
  that token and waiting for it leave the monitor where it is.\<close>

definition settled :: "string \<Rightarrow> approval \<Rightarrow> bool" where
  "settled token st \<longleftrightarrow> st = Sufficient token \<or> st = Confirmed token"

lemma settled_accepted: "settled token st \<Longrightarrow> accepted st"
  by (auto simp: settled_def)

lemma ensures_swap:
  fixes f :: "'w \<Rightarrow> (string + string) \<times> 'w"
  assumes "settled (param_tokenIn p) st"
  shows "ensures w st (remote (CallSwap p ov) GotTx f) (\<lambda>_. st)"
proof -
  have "ensures w st (remote (CallSwap p ov) GotTx f) (\<lambda>v. approval_step w st (CallSwap p ov, GotTx v))"
    using assms by (intro ensures_remote) (auto simp: settled_def)
  moreover have "approval_step w st (CallSwap p ov, GotTx v) = st" for v
    using assms by (auto simp: settled_def)
  ultimately show ?thesis by simp
qed

lemma ensures_wait:
  fixes f :: "'w \<Rightarrow> (string + string) \<times> 'w"
  assumes "settled token st"
  shows "ensures w st (remote (CallWait tx) GotReceipt f) (\<lambda>_. st)"
proof -
  have "ensures w st (remote (CallWait tx) GotReceipt f) (\<lambda>v. approval_step w st (CallWait tx, GotReceipt v))"
    using assms by (intro ensures_remote) (auto simp: settled_def)
  moreover have "approval_step w st (CallWait tx, GotReceipt v) = st" for v
    using assms by (auto simp: settled_def)
  ultimately show ?thesis by simp
qed

lemma script_swap_ensures:
  fixes e :: "'w env"
  assumes "settled tokenInAddress st"
  shows "ensures w st
    (script_swap e amountIn tokenIn tokenOut tokenInAddress tokenOutAddress walletAddress amountInWei)
    (\<lambda>_. st)"
proof -
  have acc: "accepted st"
    using assms by (rule settled_accepted)
  note steps = ensures_say ensures_local [OF acc] ensures_getBestQuote_loop [OF acc]
    ensures_wait [OF assms]
  show ?thesis
    unfolding script_swap_def getBestQuote_script_def
    by (rule ensures_andThen steps | rule ensures_swap, simp add: assms)+
qed

lemma swap_send_ensures:
  fixes e :: "'w env"
  assumes "settled tokenInAddress st"
  shows "ensures w st
    (swap_send e walletAddress tokenIn tokenOut tokenInAddress tokenOutAddress amountInWei valueToSend)
    (\<lambda>_. st)"
proof -
  have acc: "accepted st"
    using assms by (rule settled_accepted)
  note steps = ensures_say ensures_local [OF acc] ensures_getBestQuote_loop [OF acc]
    ensures_wait [OF assms]
  show ?thesis
    unfolding swap_send_def getBestQuote_logged_def
    by (rule ensures_andThen steps | rule ensures_swap, simp add: assms)+
qed

lemma swap_send_byAddress_ensures:
  fixes e :: "'w env"
  assumes "settled tokenInAddress st"
  shows "ensures w st
    (swap_send_byAddress e walletAddress tokenIn tokenOut tokenInAddress tokenOutAddress amountInWei valueToSend)
    (\<lambda>_. st)"
proof -
  have acc: "accepted st"
    using assms by (rule settled_accepted)
  note steps = ensures_say ensures_local [OF acc] ensures_getBestQuote_loop [OF acc]
    ensures_wait [OF assms]
  show ?thesis
    unfolding swap_send_byAddress_def getBestQuote_byAddress_def
    by (rule ensures_andThen steps | rule ensures_swap, simp add: assms)+
qed

lemma ensures_safely:
  fixes m :: "('a, 'w) action"
  assumes "ensures w st m st'" and "\<And>a. accepted (st' a)"
  shows "safely w st m"
  unfolding safely_def
proof (intro allI impI)
  fix s :: "'w state"
  assume "approvalState w (trace s) = st"
  with assms(1) have "case m s of
       (Inl e, s') \<Rightarrow> accepted (approvalState w (trace s'))
     | (Inr a, s') \<Rightarrow> approvalState w (trace s') = st' a"
    by (simp add: ensures_def)
  with assms(2) show "accepted (approvalState w (trace (snd (m s))))"
    by (cases "m s") (auto split: sum.splits)
qed

lemma safely_andThen:
  fixes m :: "('a, 'w) action" and f :: "'a \<Rightarrow> ('b, 'w) action"
  assumes "ensures w st m st1" and "\<And>a. safely w (st1 a) (f a)"
  shows "safely w st (andThen m f)"
  unfolding safely_def
proof (intro allI impI)
  fix s :: "'w state"
  assume s: "approvalState w (trace s) = st"
  obtain r s1 where m: "m s = (r, s1)"
    by (cases "m s")
  show "accepted (approvalState w (trace (snd (andThen m f s))))"
  proof (cases r)
    case (Inl e)
    with assms(1) s m show ?thesis
      by (auto simp: ensures_def andThen_def)
  next
    case (Inr a)
    with assms(1) s m have "approvalState w (trace s1) = st1 a"
      by (auto simp: ensures_def)
    with assms(2) [of a] have "accepted (approvalState w (trace (snd (f a s1))))"
      by (simp add: safely_def)
    with m Inr show ?thesis
      by (simp add: andThen_def)
  qed
qed

lemma safely_local: "accepted st \<Longrightarrow> safely w st (local r)"
  by (simp add: safely_def local_def)

lemma safely_if:
  assumes "b \<Longrightarrow> safely w st m1" and "\<not> b \<Longrightarrow> safely w st m2"
  shows "safely w st (if b then m1 else m2)"
  using assms by simp

lemma safely_script_swap:
  fixes e :: "'w env"
  assumes "settled tokenInAddress st"
  shows "safely w st
    (script_swap e amountIn tokenIn tokenOut tokenInAddress tokenOutAddress walletAddress amountInWei)"
proof (rule ensures_safely)
  show "ensures w st
    (script_swap e amountIn tokenIn tokenOut tokenInAddress tokenOutAddress walletAddress amountInWei)
    (\<lambda>_. st)"
    using assms by (rule script_swap_ensures)
  show "accepted st" for a :: unit
    using assms by (rule settled_accepted)
qed

lemma safely_swap_send:
  fixes e :: "'w env"
  assumes "settled tokenInAddress st"
  shows "safely w st
    (swap_send e walletAddress tokenIn tokenOut tokenInAddress tokenOutAddress amountInWei valueToSend)"
proof (rule ensures_safely)
  show "ensures w st
    (swap_send e walletAddress tokenIn tokenOut tokenInAddress tokenOutAddress amountInWei valueToSend)
    (\<lambda>_. st)"
    using assms by (rule swap_send_ensures)
  show "accepted st" for a :: response
    using assms by (rule settled_accepted)
qed

lemma safely_swap_send_byAddress:
  fixes e :: "'w env"
  assumes "settled tokenInAddress st"
  shows "safely w st
    (swap_send_byAddress e walletAddress tokenIn tokenOut tokenInAddress tokenOutAddress amountInWei valueToSend)"
proof (rule ensures_safely)
  show "ensures w st
    (swap_send_byAddress e walletAddress tokenIn tokenOut tokenInAddress tokenOutAddress amountInWei valueToSend)
    (\<lambda>_. st)"
    using assms by (rule swap_send_byAddress_ensures)
  show "accepted st" for a :: response
    using assms by (rule settled_accepted)
qed

text \<open>The approval itself: from a needed approval, \<^verbatim>\<open>approve\<close> for the router, then \<^verbatim>\<open>wait\<close> on
  the transaction it returned, then the rest with the approval confirmed. An exception of
  either call ends the run with the approval failed.\<close>

lemma safely_approve_then:
  fixes nd :: "'w node" and rest :: "('a, 'w) action"
  assumes "safely w (Confirmed token) rest" and "w \<le> int amount"
  shows "safely w (Needed token)
    (andThen (remote (CallApprove token UNISWAP_V3_ROUTER_ADDRESS amount) GotTx
                (approve nd token UNISWAP_V3_ROUTER_ADDRESS amount)) (\<lambda>approveTx.
     andThen (remote (CallWait approveTx) GotReceipt (wait nd approveTx)) (\<lambda>_.
     andThen (say ps) (\<lambda>_. rest))))"
proof (rule safely_andThen)
  show "ensures w (Needed token)
      (remote (CallApprove token UNISWAP_V3_ROUTER_ADDRESS amount) GotTx
         (approve nd token UNISWAP_V3_ROUTER_ADDRESS amount))
      (\<lambda>tx. approval_step w (Needed token) (CallApprove token UNISWAP_V3_ROUTER_ADDRESS amount, GotTx tx))"
    by (rule ensures_remote) (simp add: assms(2))
next
  fix approveTx
  have "safely w (Pending token approveTx)
     (andThen (remote (CallWait approveTx) GotReceipt (wait nd approveTx)) (\<lambda>_.
      andThen (say ps) (\<lambda>_. rest)))"
  proof (rule safely_andThen)
    show "ensures w (Pending token approveTx) (remote (CallWait approveTx) GotReceipt (wait nd approveTx))
        (\<lambda>r. approval_step w (Pending token approveTx) (CallWait approveTx, GotReceipt r))"
      by (rule ensures_remote) simp
  next
    fix r
    have "safely w (Confirmed token) (andThen (say ps) (\<lambda>_. rest))"
      by (rule safely_andThen, rule ensures_say, rule assms(1))
    then show "safely w (approval_step w (Pending token approveTx) (CallWait approveTx, GotReceipt r))
        (andThen (say ps) (\<lambda>_. rest))"
      by simp
  qed
  then show "safely w
     (approval_step w (Needed token) (CallApprove token UNISWAP_V3_ROUTER_ADDRESS amount, GotTx approveTx))
     (andThen (remote (CallWait approveTx) GotReceipt (wait nd approveTx)) (\<lambda>_.
      andThen (say ps) (\<lambda>_. rest)))"
    by (simp add: assms(2))
qed

lemma safely_bind_local:
  assumes "accepted st" and "\<And>a. r = Inr a \<Longrightarrow> safely w st (f a)"
  shows "safely w st (andThen (local r) f)"
proof (cases r)
  case (Inl e)
  with assms(1) show ?thesis
    by (simp add: safely_def andThen_def local_def)
next
  case (Inr a)
  with assms(2) show ?thesis
    by simp
qed

lemma safely_remote_then:
  fixes f :: "'w \<Rightarrow> (string + 'a) \<times> 'w"
  assumes "\<And>m. accepted (approval_step w st (c, Threw m))"
    and "\<And>v. safely w (approval_step w st (c, got v)) (g v)"
  shows "safely w st (andThen (remote c got f) g)"
  using assms by (intro safely_andThen [where ?st1.0 = "\<lambda>v. approval_step w st (c, got v)"] ensures_remote)

text \<open>The allowance read, from the allowance unread: the rest runs with an approval needed
  when the answer is below the amount, and with the allowance sufficient otherwise.\<close>

lemma safely_allowance:
  fixes nd :: "'w node"
  assumes "\<And>allowed. int allowed < w \<Longrightarrow> safely w (Needed token) (g allowed)"
    and "\<And>allowed. \<not> int allowed < w \<Longrightarrow> safely w (Sufficient token) (g allowed)"
  shows "safely w Unread
    (andThen (remote (CallAllowance token owner UNISWAP_V3_ROUTER_ADDRESS) GotNumber
                (allowance nd token owner UNISWAP_V3_ROUTER_ADDRESS)) g)"
proof (rule safely_remote_then)
  show "accepted (approval_step w Unread (CallAllowance token owner UNISWAP_V3_ROUTER_ADDRESS, Threw m))" for m
    by (simp add: readAllowance_def)
next
  fix allowed
  show "safely w (approval_step w Unread
      (CallAllowance token owner UNISWAP_V3_ROUTER_ADDRESS, GotNumber allowed)) (g allowed)"
    using assms [of allowed] by (cases "int allowed < w") (simp_all add: readAllowance_def)
qed

text \<open>The balance read leaves the allowance unread.\<close>

lemma safely_balanceOf:
  fixes nd :: "'w node"
  assumes "\<And>balance. safely w Unread (g balance)"
  shows "safely w Unread
    (andThen (remote (CallBalanceOf token owner) GotNumber (balanceOf nd token owner)) g)"
  using assms by (intro safely_remote_then) simp_all

lemma main_for_safely:
  fixes e :: "'w env"
  assumes "parseUserQuery userQuery = Inr (amountIn, tokenIn, tokenOut)"
    and "e_parseEther e (Str amountIn) = Inr w" and "w \<le> int MaxUint256"
  shows "safely w Unread (main_for e walletAddress userQuery)"
  unfolding main_for_def
  apply (simp add: assms)
  apply (rule safely_bind_local, simp)
  apply (rule safely_bind_local, simp)
  apply (rule safely_andThen, rule ensures_say)
  apply (rule safely_andThen, rule ensures_say)
  apply (rule safely_balanceOf)
  apply (rule safely_andThen, rule ensures_say)
  apply (rule safely_if)
   apply (rule safely_local, simp)
  apply (rule safely_allowance)
   apply (rule safely_andThen, rule ensures_say)
   apply simp
   apply (rule safely_andThen, rule ensures_say)
   apply (rule safely_approve_then)
    apply (rule safely_script_swap, simp add: settled_def)
   apply (rule assms(3))
  apply (rule safely_andThen, rule ensures_say)
  apply simp
  apply (rule safely_script_swap, simp add: settled_def)
  done

lemma swap_try_safely:
  fixes e :: "'w env"
  assumes "e_parseEther e (body_amountIn req) = Inr w" and "\<not> nativeInput req"
    and "w \<le> int MaxUint256"
  shows "safely w Unread (swap_try e authorization req)"
proof -
  have erc20: "toLowerCase tokenIn \<noteq> ''eth''" if "asString (body_tokenIn req) = Inr tokenIn" for tokenIn
    using that assms(2) by (auto simp: asString_def nativeInput_def split: jsval.splits)
  show ?thesis
    unfolding swap_try_def
    apply (simp add: assms)
    apply (rule safely_bind_local, simp)
    apply (rule safely_bind_local, simp)
    apply (rule safely_bind_local, simp)
    apply (rule safely_bind_local, simp)
    apply (rule safely_bind_local, simp)
    apply (simp add: erc20)
    apply (rule safely_balanceOf)
    apply (rule safely_if)
     apply (rule safely_local, simp)
    apply (rule safely_allowance)
     apply simp
     apply (rule safely_approve_then)
      apply (rule safely_swap_send, simp add: settled_def)
     apply (rule assms(3))
    apply simp
    apply (rule safely_swap_send, simp add: settled_def)
    done
qed

lemma main_query:
  "parseUserQuery ''swap 0.0005 WETH with BNB'' = Inr (''0.0005'', ''weth'', ''bnb'')"
  by (simp add: parseUserQuery_def lower_eval)

lemma approvalState_fresh: "approvalState w (trace (fresh w0)) = Unread"
  by (simp add: fresh_def approvalState_def)

lemma post_swap_trace:
  "trace (snd (post_swap e authorization req s)) = trace s
   \<or> (\<exists>key. authorization = Some key \<and>
        trace (snd (post_swap e authorization req s)) = trace (snd (swap_try e key req s)))"
proof (cases authorization)
  case None
  then show ?thesis by (simp add: post_swap_def)
next
  case (Some key)
  show ?thesis
  proof (cases "key = [] \<or> missingParameters req")
    case True
    with Some show ?thesis by (auto simp: post_swap_def)
  next
    case False
    obtain r s' where "swap_try e key req s = (r, s')"
      by (cases "swap_try e key req s")
    with Some False show ?thesis
      by (cases r) (simp_all add: post_swap_def logLines_def)
  qed
qed

lemma swap_try_byAddress_safely:
  fixes e :: "'w env"
  assumes "e_parseEther e (body_amountIn req) = Inr w" and "\<not> nativeInput req"
    and "w \<le> int MaxUint256"
  shows "safely w Unread (swap_try_byAddress e authorization req)"
proof -
  have erc20: "toLowerCase tokenIn \<noteq> ''eth''" if "asString (body_tokenIn req) = Inr tokenIn" for tokenIn
    using that assms(2) by (auto simp: asString_def nativeInput_def split: jsval.splits)
  show ?thesis
    unfolding swap_try_byAddress_def
    apply (simp add: assms)
    apply (rule safely_bind_local, simp)
    apply (rule safely_bind_local, simp)
    apply (rule safely_bind_local, simp)
    apply (simp add: erc20)
    apply (rule safely_balanceOf)
    apply (rule safely_if)
     apply (rule safely_local, simp)
    apply (rule safely_allowance)
     apply simp
     apply (rule safely_approve_then)
      apply (rule safely_swap_send_byAddress, simp add: settled_def)
     apply (rule assms(3))
    apply simp
    apply (rule safely_swap_send_byAddress, simp add: settled_def)
    done
qed

lemma post_swap_byAddress_trace:
  "trace (snd (post_swap_byAddress e authorization req s)) = trace s
   \<or> (\<exists>key. authorization = Some key \<and>
        trace (snd (post_swap_byAddress e authorization req s)) =
          trace (snd (swap_try_byAddress e key req s)))"
proof (cases authorization)
  case None
  then show ?thesis by (simp add: post_swap_byAddress_def)
next
  case (Some key)
  show ?thesis
  proof (cases "key = [] \<or> missingParameters req")
    case True
    with Some show ?thesis by (auto simp: post_swap_byAddress_def)
  next
    case False
    obtain r s' where "swap_try_byAddress e key req s = (r, s')"
      by (cases "swap_try_byAddress e key req s")
    with Some False show ?thesis
      by (cases r) (simp_all add: post_swap_byAddress_def logLines_def)
  qed
qed

text \<open>
  C8, as amended. In \<^verbatim>\<open>main\<close> of the script, for its example query and for any other, and in
  the \<^verbatim>\<open>/swap\<close> handlers that check the allowance (the second handler of \<^verbatim>\<open>app.js\<close> and its
  copy that takes addresses) when the input is a token and not the native currency: for
  the input amount \<open>w\<close> that the run parsed, within the range of \<^verbatim>\<open>uint256\<close>, the monitor
  accepts the whole trace of a run that starts with no call made, whatever the node
  answers and wherever the run stops. That is: no swap is sent before the allowance of the
  router on the input token has been read; when that read answers less than \<open>w\<close>, the next
  call is \<^verbatim>\<open>approve\<close> on that token for the router, of an amount of at least \<open>w\<close>, and when
  \<^verbatim>\<open>approve\<close> returns a transaction, the next call is \<^verbatim>\<open>wait\<close> on that transaction; and the
  swap is sent only with the allowance sufficient or after \<^verbatim>\<open>wait\<close> has returned the receipt
  of the approval.
\<close>

theorem approval_before_swap:
  fixes e :: "'w env"
  shows
  "(\<forall>amountIn tokenIn tokenOut w.
      parseUserQuery userQuery = Inr (amountIn, tokenIn, tokenOut) \<and>
      e_parseEther e (Str amountIn) = Inr w \<and> w \<le> int MaxUint256 \<longrightarrow>
      approvedBeforeSwap w (trace (snd (main_for e walletAddress userQuery (fresh w0)))))
   \<and> (\<forall>w. e_parseEther e (Str ''0.0005'') = Inr w \<and> w \<le> int MaxUint256 \<longrightarrow>
      approvedBeforeSwap w (trace (snd (main e walletAddress (fresh w0)))))
   \<and> (\<forall>w. e_parseEther e (body_amountIn req) = Inr w \<and> \<not> nativeInput req \<and>
          w \<le> int MaxUint256 \<longrightarrow>
      approvedBeforeSwap w (trace (snd (post_swap e authorization req (fresh w0))))
      \<and> approvedBeforeSwap w (trace (snd (post_swap_byAddress e authorization req (fresh w0)))))"
proof (intro conjI allI impI)
  fix amountIn tokenIn tokenOut w
  assume "parseUserQuery userQuery = Inr (amountIn, tokenIn, tokenOut) \<and>
      e_parseEther e (Str amountIn) = Inr w \<and> w \<le> int MaxUint256"
  then have "safely w Unread (main_for e walletAddress userQuery)"
    using main_for_safely by blast
  then show "approvedBeforeSwap w (trace (snd (main_for e walletAddress userQuery (fresh w0))))"
    using approvalState_fresh [of w w0] by (simp add: safely_def approvedBeforeSwap_def)
next
  fix w
  assume "e_parseEther e (Str ''0.0005'') = Inr w \<and> w \<le> int MaxUint256"
  then have "safely w Unread (main e walletAddress)"
    unfolding main_def using main_for_safely [OF main_query] by blast
  then show "approvedBeforeSwap w (trace (snd (main e walletAddress (fresh w0))))"
    using approvalState_fresh [of w w0] by (simp add: safely_def approvedBeforeSwap_def)
next
  fix w
  assume a: "e_parseEther e (body_amountIn req) = Inr w \<and> \<not> nativeInput req \<and>
      w \<le> int MaxUint256"
  then have safe: "safely w Unread (swap_try e key req)" for key
    by (intro swap_try_safely) simp_all
  from post_swap_trace [of e authorization req "fresh w0"]
  show "approvedBeforeSwap w (trace (snd (post_swap e authorization req (fresh w0))))"
  proof (elim disjE exE conjE)
    assume "trace (snd (post_swap e authorization req (fresh w0))) = trace (fresh w0)"
    then show ?thesis
      using approvalState_fresh [of w w0] by (simp add: approvedBeforeSwap_def)
  next
    fix key
    assume "trace (snd (post_swap e authorization req (fresh w0))) =
      trace (snd (swap_try e key req (fresh w0)))"
    then show ?thesis
      using safe [of key] approvalState_fresh [of w w0]
      by (simp add: safely_def approvedBeforeSwap_def)
  qed
  from a have safe': "safely w Unread (swap_try_byAddress e key req)" for key
    by (intro swap_try_byAddress_safely) simp_all
  from post_swap_byAddress_trace [of e authorization req "fresh w0"]
  show "approvedBeforeSwap w (trace (snd (post_swap_byAddress e authorization req (fresh w0))))"
  proof (elim disjE exE conjE)
    assume "trace (snd (post_swap_byAddress e authorization req (fresh w0))) = trace (fresh w0)"
    then show ?thesis
      using approvalState_fresh [of w w0] by (simp add: approvedBeforeSwap_def)
  next
    fix key
    assume "trace (snd (post_swap_byAddress e authorization req (fresh w0))) =
      trace (snd (swap_try_byAddress e key req (fresh w0)))"
    then show ?thesis
      using safe' [of key] approvalState_fresh [of w w0]
      by (simp add: safely_def approvedBeforeSwap_def)
  qed
qed
section \<open>Runs on the example node\<close>

lemmas run_eval =
  andThen_def local_def library_def remote_def logLines_def say_def fresh_def
  findTokenAddress_def findTokenAddress_of_def findTokenAddress_eth_def asString_def
  getBestQuote_def getBestQuote_script_def getBestQuote_logged_def feeTiers_def
  tierFailed_def tierOutput_def exampleNode_def emptyNode_def exampleTokens_def exampleEnv_def
  parseEtherDecimal_def digit_def showUnits_def missingParameters_def

lemma example_quote:
  "getBestQuote exampleNode ''0xA'' ''0xB'' 5 (fresh 0) =
     (Inr \<lparr>quote_fee = 3000, quote_amountOut = 1234\<rparr>,
      \<lparr>world = 2,
       trace = [(CallQuote ''0xA'' ''0xB'' 500 5 0, Threw ''execution reverted''),
                (CallQuote ''0xA'' ''0xB'' 3000 5 0, GotNumber 1234)],
       console = [(Stderr, [Text ''Fee tier '', Num 500, Text '' failed: '', Text ''execution reverted''])]\<rparr>)"
  by (simp add: run_eval)

lemma showUnits_1234: "showUnits 1234 18 = ''1234''"
  by (simp add: showUnits_def showDigits.simps char_of_def bit_Suc_0_iff)

text \<open>On the example node the 0.05% tier fails and the 0.3% tier answers 1234: that quote is
  returned after two calls, although the 1% tier, which is not asked, would answer 9999.\<close>

theorem getBestQuote_first_success_witness:
  "failures exampleNode ''0xA'' ''0xB'' 5 [500] (world (fresh 0)) = Some ([''execution reverted''], 1)
   \<and> quoteExactInputSingle exampleNode ''0xA'' ''0xB'' 3000 5 0 1 = (Inr 1234, 2)
   \<and> quoteExactInputSingle exampleNode ''0xA'' ''0xB'' 10000 5 0 2 = (Inr 9999, 3)
   \<and> feeTiers = [500] @ 3000 # [10000]
   \<and> getBestQuote exampleNode ''0xA'' ''0xB'' 5 (fresh 0) =
       (Inr \<lparr>quote_fee = 3000, quote_amountOut = 1234\<rparr>,
        \<lparr>world = 2,
         trace = [(CallQuote ''0xA'' ''0xB'' 500 5 0, Threw ''execution reverted''),
                  (CallQuote ''0xA'' ''0xB'' 3000 5 0, GotNumber 1234)],
         console = [(Stderr, [Text ''Fee tier '', Num 500, Text '' failed: '', Text ''execution reverted''])]\<rparr>)
   \<and> getBestQuote_script showUnits exampleNode ''0xA'' ''0xB'' 5 (fresh 0) =
       (Inr \<lparr>quote_fee = 3000, quote_amountOut = 1234\<rparr>,
        \<lparr>world = 2,
         trace = [(CallQuote ''0xA'' ''0xB'' 500 5 0, Threw ''execution reverted''),
                  (CallQuote ''0xA'' ''0xB'' 3000 5 0, GotNumber 1234)],
         console = [(Stdout, [Text ''Fee tier '', Num 500, Text '' failed: '', Text ''execution reverted'']),
                    (Stdout, [Text ''Fee tier '', Num 3000, Text '' gives output: '', Text ''1234''])]\<rparr>)"
proof -
  have f: "failures exampleNode ''0xA'' ''0xB'' 5 [500] (world (fresh 0)) = Some ([''execution reverted''], 1)"
    by (simp add: exampleNode_def fresh_def)
  have a: "quoteExactInputSingle exampleNode ''0xA'' ''0xB'' 3000 5 0 1 = (Inr 1234, 2)"
    by (simp add: exampleNode_def)
  have b: "quoteExactInputSingle exampleNode ''0xA'' ''0xB'' 10000 5 0 2 = (Inr 9999, 3)"
    by (simp add: exampleNode_def)
  have t: "feeTiers = [500] @ 3000 # [10000]"
    by (simp add: feeTiers_def)
  from getBestQuote_first_success [of exampleNode "''0xA''" "''0xB''" 5 "[500]" "fresh 0"
      "[''execution reverted'']" 1 3000 1234 2 _ _ _ "[10000]" showUnits] f a t
  have "getBestQuote exampleNode ''0xA'' ''0xB'' 5 (fresh 0) =
       (Inr \<lparr>quote_fee = 3000, quote_amountOut = 1234\<rparr>,
        afterAnswer (\<lambda>fee amountOut. []) ''0xA'' ''0xB'' 5 3000 1234 2
          (afterFailures (tierFailed Stderr) ''0xA'' ''0xB'' 5 [500] [''execution reverted''] 1 (fresh 0)))"
    and "getBestQuote_script showUnits exampleNode ''0xA'' ''0xB'' 5 (fresh 0) =
       (Inr \<lparr>quote_fee = 3000, quote_amountOut = 1234\<rparr>,
        afterAnswer (tierOutput showUnits) ''0xA'' ''0xB'' 5 3000 1234 2
          (afterFailures (tierFailed Stdout) ''0xA'' ''0xB'' 5 [500] [''execution reverted''] 1 (fresh 0)))"
    by blast+
  then have "getBestQuote exampleNode ''0xA'' ''0xB'' 5 (fresh 0) =
       (Inr \<lparr>quote_fee = 3000, quote_amountOut = 1234\<rparr>,
        \<lparr>world = 2,
         trace = [(CallQuote ''0xA'' ''0xB'' 500 5 0, Threw ''execution reverted''),
                  (CallQuote ''0xA'' ''0xB'' 3000 5 0, GotNumber 1234)],
         console = [(Stderr, [Text ''Fee tier '', Num 500, Text '' failed: '', Text ''execution reverted''])]\<rparr>)"
    and "getBestQuote_script showUnits exampleNode ''0xA'' ''0xB'' 5 (fresh 0) =
       (Inr \<lparr>quote_fee = 3000, quote_amountOut = 1234\<rparr>,
        \<lparr>world = 2,
         trace = [(CallQuote ''0xA'' ''0xB'' 500 5 0, Threw ''execution reverted''),
                  (CallQuote ''0xA'' ''0xB'' 3000 5 0, GotNumber 1234)],
         console = [(Stdout, [Text ''Fee tier '', Num 500, Text '' failed: '', Text ''execution reverted'']),
                    (Stdout, [Text ''Fee tier '', Num 3000, Text '' gives output: '', Text ''1234''])]\<rparr>)"
    by (simp_all add: afterAnswer_def afterFailures_def failedCalls_def failedLines_def
        tierFailed_def tierOutput_def fresh_def showUnits_1234)
  with f a b t show ?thesis
    by simp
qed

text \<open>On the node without pools every tier is asked and fails, and the error is raised; on
  the example node, where a tier answers, none is.\<close>

theorem getBestQuote_exhaustion_witness:
  "failures emptyNode ''0xA'' ''0xB'' 5 feeTiers (world (fresh 0)) =
       Some ([''execution reverted'', ''execution reverted'', ''execution reverted''], 3)
   \<and> getBestQuote emptyNode ''0xA'' ''0xB'' 5 (fresh 0) =
       (Inl (NoLiquidity ''No valid liquidity pool found.''),
        \<lparr>world = 3,
         trace = [(CallQuote ''0xA'' ''0xB'' 500 5 0, Threw ''execution reverted''),
                  (CallQuote ''0xA'' ''0xB'' 3000 5 0, Threw ''execution reverted''),
                  (CallQuote ''0xA'' ''0xB'' 10000 5 0, Threw ''execution reverted'')],
         console = [(Stderr, [Text ''Fee tier '', Num 500, Text '' failed: '', Text ''execution reverted'']),
                    (Stderr, [Text ''Fee tier '', Num 3000, Text '' failed: '', Text ''execution reverted'']),
                    (Stderr, [Text ''Fee tier '', Num 10000, Text '' failed: '', Text ''execution reverted''])]\<rparr>)
   \<and> fst (getBestQuote_script showUnits emptyNode ''0xA'' ''0xB'' 5 (fresh 0)) =
       Inl (NoLiquidity ''No valid pools available for this token pair.'')
   \<and> failures exampleNode ''0xA'' ''0xB'' 5 feeTiers (world (fresh 0)) = None
   \<and> (\<nexists>e. fst (getBestQuote exampleNode ''0xA'' ''0xB'' 5 (fresh 0)) = Inl e)"
proof -
  let ?msgs = "[''execution reverted'', ''execution reverted'', ''execution reverted'']"
  have f: "failures emptyNode ''0xA'' ''0xB'' 5 feeTiers (world (fresh 0)) = Some (?msgs, 3)"
    by (simp add: emptyNode_def exampleNode_def fresh_def feeTiers_def)
  have n: "failures exampleNode ''0xA'' ''0xB'' 5 feeTiers (world (fresh 0)) = None"
    by (simp add: exampleNode_def fresh_def feeTiers_def)
  from getBestQuote_exhaustion [of emptyNode "''0xA''" "''0xB''" 5 _ "fresh 0" ?msgs 3 _ _ _ showUnits] f
  have "getBestQuote emptyNode ''0xA'' ''0xB'' 5 (fresh 0) =
          (Inl (NoLiquidity ''No valid liquidity pool found.''),
           afterFailures (tierFailed Stderr) ''0xA'' ''0xB'' 5 feeTiers ?msgs 3 (fresh 0))"
    and "getBestQuote_script showUnits emptyNode ''0xA'' ''0xB'' 5 (fresh 0) =
          (Inl (NoLiquidity ''No valid pools available for this token pair.''),
           afterFailures (tierFailed Stdout) ''0xA'' ''0xB'' 5 feeTiers ?msgs 3 (fresh 0))"
    by blast+
  then have "getBestQuote emptyNode ''0xA'' ''0xB'' 5 (fresh 0) =
       (Inl (NoLiquidity ''No valid liquidity pool found.''),
        \<lparr>world = 3,
         trace = [(CallQuote ''0xA'' ''0xB'' 500 5 0, Threw ''execution reverted''),
                  (CallQuote ''0xA'' ''0xB'' 3000 5 0, Threw ''execution reverted''),
                  (CallQuote ''0xA'' ''0xB'' 10000 5 0, Threw ''execution reverted'')],
         console = [(Stderr, [Text ''Fee tier '', Num 500, Text '' failed: '', Text ''execution reverted'']),
                    (Stderr, [Text ''Fee tier '', Num 3000, Text '' failed: '', Text ''execution reverted'']),
                    (Stderr, [Text ''Fee tier '', Num 10000, Text '' failed: '', Text ''execution reverted''])]\<rparr>)"
    and "fst (getBestQuote_script showUnits emptyNode ''0xA'' ''0xB'' 5 (fresh 0)) =
       Inl (NoLiquidity ''No valid pools available for this token pair.'')"
    by (simp_all add: afterFailures_def failedCalls_def failedLines_def tierFailed_def
        fresh_def feeTiers_def)
  moreover from getBestQuote_exhaustion [of exampleNode "''0xA''" "''0xB''" 5 _ "fresh 0"] n
  have "\<nexists>e. fst (getBestQuote exampleNode ''0xA'' ''0xB'' 5 (fresh 0)) = Inl e"
    by blast
  ultimately show ?thesis
    using f n by simp
qed

text \<open>
  C7 as stated fails: a request whose amount is not a number, and a request that names a
  token the mapping does not hold, are validation failures, and both are answered with
  status 500, not with a client error.
\<close>

theorem post_quote_validation_counterexample:
  "status (fst (quote_route exampleJson exampleTokens parseEtherDecimal showUnits exampleNode
      (JsonObject \<lparr>body_amountIn = Str ''abc'', body_tokenIn = Str ''weth'', body_tokenOut = Str ''dai''\<rparr>)
      (fresh 0))) = 500
   \<and> status (fst (quote_route exampleJson exampleTokens parseEtherDecimal showUnits exampleNode
      (JsonObject \<lparr>body_amountIn = Str ''1'', body_tokenIn = Str ''nosuchtoken'', body_tokenOut = Str ''dai''\<rparr>)
      (fresh 0))) = 500"
  by (simp add: quote_route_def behind_json_def post_quote_def quote_try_def run_eval lower_eval)

text \<open>A body that is not JSON is answered by the framework and nothing is called; a body
  with the three fields, two tokens of the mapping and a whole amount is answered with the
  quote of the 0.3% tier.\<close>

theorem post_quote_statuses_witness:
  "exampleJson (NotJson ''{'') = Inl \<lparr>status = 400, body = Page ''Bad Request''\<rparr>
   \<and> quote_route exampleJson exampleTokens parseEtherDecimal showUnits exampleNode (NotJson ''{'') (fresh 0) =
       (\<lparr>status = 400, body = Page ''Bad Request''\<rparr>, fresh 0)
   \<and> exampleJson (JsonObject
        \<lparr>body_amountIn = Str ''2'', body_tokenIn = Str ''WETH'', body_tokenOut = Str ''dai''\<rparr>) =
       Inr \<lparr>body_amountIn = Str ''2'', body_tokenIn = Str ''WETH'', body_tokenOut = Str ''dai''\<rparr>
   \<and> \<not> missingParameters
      \<lparr>body_amountIn = Str ''2'', body_tokenIn = Str ''WETH'', body_tokenOut = Str ''dai''\<rparr>
   \<and> findTokenAddress_of exampleTokens (Str ''WETH'') = Inr ''0xC02aaA39b223FE8D0A0e5C4F27eAD9083C756Cc2''
   \<and> findTokenAddress_of exampleTokens (Str ''dai'') = Inr ''0x6B175474E89094C44Da98b954EedeAC495271d0F''
   \<and> parseEtherDecimal (Str ''2'') = Inr 2000000000000000000
   \<and> failures exampleNode ''0xC02aaA39b223FE8D0A0e5C4F27eAD9083C756Cc2''
        ''0x6B175474E89094C44Da98b954EedeAC495271d0F'' 2000000000000000000 feeTiers (world (fresh 0)) = None
   \<and> fst (getBestQuote exampleNode ''0xC02aaA39b223FE8D0A0e5C4F27eAD9083C756Cc2''
        ''0x6B175474E89094C44Da98b954EedeAC495271d0F'' 2000000000000000000 (fresh 0)) =
        Inr \<lparr>quote_fee = 3000, quote_amountOut = 1234\<rparr>
   \<and> fst (quote_route exampleJson exampleTokens parseEtherDecimal showUnits exampleNode
        (JsonObject \<lparr>body_amountIn = Str ''2'', body_tokenIn = Str ''WETH'', body_tokenOut = Str ''dai''\<rparr>)
        (fresh 0)) = \<lparr>status = 200, body = QuoteBody 3000 ''1234''\<rparr>"
proof -
  let ?req = "\<lparr>body_amountIn = Str ''2'', body_tokenIn = Str ''WETH'', body_tokenOut = Str ''dai''\<rparr>"
  let ?weth = "''0xC02aaA39b223FE8D0A0e5C4F27eAD9083C756Cc2''"
  let ?dai = "''0x6B175474E89094C44Da98b954EedeAC495271d0F''"
  let ?route = "quote_route exampleJson exampleTokens parseEtherDecimal showUnits exampleNode"
  have rejected: "exampleJson (NotJson ''{'') = Inl \<lparr>status = 400, body = Page ''Bad Request''\<rparr>"
    by simp
  have parsed: "exampleJson (JsonObject ?req) = Inr ?req"
    by simp
  have present: "\<not> missingParameters ?req"
    by (simp add: missingParameters_def)
  have tin: "findTokenAddress_of exampleTokens (body_tokenIn ?req) = Inr ?weth"
    by (simp add: run_eval lower_eval)
  have tout: "findTokenAddress_of exampleTokens (body_tokenOut ?req) = Inr ?dai"
    by (simp add: run_eval lower_eval)
  have amt: "parseEtherDecimal (body_amountIn ?req) = Inr 2000000000000000000"
    by (simp add: run_eval)
  have q: "fst (getBestQuote exampleNode ?weth ?dai 2000000000000000000 (fresh 0)) =
      Inr \<lparr>quote_fee = 3000, quote_amountOut = 1234\<rparr>"
    by (simp add: run_eval)
  from post_quote_statuses [of exampleJson "NotJson ''{''" exampleTokens parseEtherDecimal showUnits
      exampleNode "fresh 0"] rejected
  have no: "?route (NotJson ''{'') (fresh 0) = (\<lparr>status = 400, body = Page ''Bad Request''\<rparr>, fresh 0)"
    by blast
  have answers: "failures exampleNode ?weth ?dai 2000000000000000000 feeTiers (world (fresh 0)) = None"
    by (simp add: exampleNode_def feeTiers_def fresh_def)
  from post_quote_statuses [of exampleJson "JsonObject ?req" exampleTokens parseEtherDecimal showUnits
      exampleNode "fresh 0"] parsed present tin tout amt answers
  have "\<exists>q. fst (getBestQuote exampleNode ?weth ?dai 2000000000000000000 (fresh 0)) = Inr q \<and>
           fst (?route (JsonObject ?req) (fresh 0)) =
             \<lparr>status = 200, body = QuoteBody (quote_fee q) (showUnits (quote_amountOut q) 18)\<rparr>"
    by blast
  with q have "fst (?route (JsonObject ?req) (fresh 0)) = \<lparr>status = 200, body = QuoteBody 3000 ''1234''\<rparr>"
    by (auto simp: showUnits_1234)
  with rejected no parsed present tin tout amt answers q show ?thesis
    by simp
qed

lemma exactFromNumber_exact: "exactFromNumber x = Inr k \<Longrightarrow> of_int k = x"
  by (auto simp: exactFromNumber_def split: if_splits)

text \<open>With the conversion of the library, the pair \<open>weth\<close>, \<open>usdt\<close> has no minimum output:
  its factor \<open>99.5\<close> is not an integer and the conversion raises.\<close>

lemma amountOutMinimum_weth_usdt:
  "amountOutMinimum exactFromNumber amountOut (calculateSlippage ''weth'' ''usdt'') =
     Inl (LibraryError ''underflow'')"
proof -
  have x: "100 - (calculateSlippage ''weth'' ''usdt'' * 100) = 199 / 2"
    by (simp add: calculateSlippage_def BASE_SLIPPAGE_def)
  have "\<lfloor>199 / 2 :: rat\<rfloor> = 99"
    by (rule floor_unique) simp_all
  then have "exactFromNumber (199 / 2) = Inl (LibraryError ''underflow'')"
    unfolding exactFromNumber_def by simp
  then show ?thesis
    by (simp only: amountOutMinimum_def x sum.case)
qed

theorem calculateSlippage_bounds_witness:
  "calculateSlippage ''weth'' ''dai'' = 1 / 100
   \<and> amountOutMinimum exactFromNumber 1000 (calculateSlippage ''weth'' ''dai'') = Inr 990
   \<and> (990 :: int) \<le> int 1000
   \<and> BASE_SLIPPAGE \<le> calculateSlippage ''weth'' ''dai''
   \<and> calculateSlippage ''weth'' ''dai'' \<le> MAX_SLIPPAGE"
proof -
  have s: "calculateSlippage ''weth'' ''dai'' = 1 / 100"
    by (simp add: calculateSlippage_def BASE_SLIPPAGE_def MAX_SLIPPAGE_def)
  have "(100 :: rat) - 1 / 100 * 100 = 99"
    by simp
  then have m: "amountOutMinimum exactFromNumber 1000 (calculateSlippage ''weth'' ''dai'') = Inr 990"
    by (simp add: s amountOutMinimum_def exactFromNumber_def signed_divide_int_def)
  from calculateSlippage_bounds [of exactFromNumber "''weth''" "''dai''" 1000] exactFromNumber_exact
  have "BASE_SLIPPAGE \<le> calculateSlippage ''weth'' ''dai''
    \<and> calculateSlippage ''weth'' ''dai'' \<le> MAX_SLIPPAGE
    \<and> (\<forall>m. amountOutMinimum exactFromNumber 1000 (calculateSlippage ''weth'' ''dai'') = Inr m
          \<longrightarrow> m \<le> int 1000)"
    by blast
  with s m show ?thesis
    by simp
qed

lemma example_query: "parseUserQuery ''swap 1 WETH with DAI'' = Inr (''1'', ''weth'', ''dai'')"
  by (simp add: parseUserQuery_def lower_eval)

lemma example_main_trace:
  "trace (snd (main_for exampleEnv exampleWallet ''swap 1 WETH with DAI'' (fresh 0))) =
     [(CallBalanceOf ''0xC02aaA39b223FE8D0A0e5C4F27eAD9083C756Cc2'' exampleWallet, GotNumber (10 ^ 18)),
      (CallAllowance ''0xC02aaA39b223FE8D0A0e5C4F27eAD9083C756Cc2'' exampleWallet UNISWAP_V3_ROUTER_ADDRESS,
         GotNumber 0),
      (CallApprove ''0xC02aaA39b223FE8D0A0e5C4F27eAD9083C756Cc2'' UNISWAP_V3_ROUTER_ADDRESS MaxUint256,
         GotTx ''0xa1''),
      (CallWait ''0xa1'', GotReceipt ''0xa1''),
      (CallQuote ''0xC02aaA39b223FE8D0A0e5C4F27eAD9083C756Cc2'' ''0x6B175474E89094C44Da98b954EedeAC495271d0F''
         500 (10 ^ 18) 0, Threw ''execution reverted''),
      (CallQuote ''0xC02aaA39b223FE8D0A0e5C4F27eAD9083C756Cc2'' ''0x6B175474E89094C44Da98b954EedeAC495271d0F''
         3000 (10 ^ 18) 0, GotNumber 1234),
      (CallSwap
         \<lparr>param_tokenIn = ''0xC02aaA39b223FE8D0A0e5C4F27eAD9083C756Cc2'',
          param_tokenOut = ''0x6B175474E89094C44Da98b954EedeAC495271d0F'',
          param_fee = 3000, param_recipient = exampleWallet, param_deadline = 1700000300,
          param_amountIn = 10 ^ 18, param_amountOutMinimum = 1221, param_sqrtPriceLimitX96 = 0\<rparr>
         \<lparr>gasLimit = Some 300000, val = 0\<rparr>, GotTx ''0xb2''),
      (CallWait ''0xb2'', GotReceipt ''0xb2'')]"
  by (simp add: main_for_def script_swap_def example_query run_eval lower_eval
      amountOutMinimum_def calculateSlippage_def BASE_SLIPPAGE_def MAX_SLIPPAGE_def
      exactFromNumber_def signed_divide_int_def)

text \<open>
  C8 as stated fails in the first \<^verbatim>\<open>/swap\<close> handler. On the example node the wallet has
  approved nothing; a request to swap one DAI is answered with status 200 after two
  quotes, the gas estimate, the swap and its confirmation: the allowance is not read and
  no approval is sent.
\<close>

theorem post_swap_first_counterexample:
  "fst (allowance exampleNode ''0x6B175474E89094C44Da98b954EedeAC495271d0F'' exampleWallet
      UNISWAP_V3_ROUTER_ADDRESS 0) = Inr 0
   \<and> e_parseEther exampleEnv (Str ''1'') = Inr (10 ^ 18)
   \<and> fst (post_swap_first exampleEnv (Some exampleKey)
        \<lparr>body_amountIn = Str ''1'', body_tokenIn = Str ''dai'', body_tokenOut = Str ''weth''\<rparr>
        (fresh 0)) = \<lparr>status = 200, body = SwapBody ''0xb2''\<rparr>
   \<and> trace (snd (post_swap_first exampleEnv (Some exampleKey)
        \<lparr>body_amountIn = Str ''1'', body_tokenIn = Str ''dai'', body_tokenOut = Str ''weth''\<rparr>
        (fresh 0))) =
     [(CallQuote ''0x6B175474E89094C44Da98b954EedeAC495271d0F'' ''0xC02aaA39b223FE8D0A0e5C4F27eAD9083C756Cc2''
         500 (10 ^ 18) 0, Threw ''execution reverted''),
      (CallQuote ''0x6B175474E89094C44Da98b954EedeAC495271d0F'' ''0xC02aaA39b223FE8D0A0e5C4F27eAD9083C756Cc2''
         3000 (10 ^ 18) 0, GotNumber 1234),
      (CallEstimateGas
         \<lparr>param_tokenIn = ''0x6B175474E89094C44Da98b954EedeAC495271d0F'',
          param_tokenOut = ''0xC02aaA39b223FE8D0A0e5C4F27eAD9083C756Cc2'',
          param_fee = 3000, param_recipient = exampleWallet, param_deadline = 1700000300,
          param_amountIn = 10 ^ 18, param_amountOutMinimum = 1209, param_sqrtPriceLimitX96 = 0\<rparr>,
       GotNumber 150000),
      (CallSwap
         \<lparr>param_tokenIn = ''0x6B175474E89094C44Da98b954EedeAC495271d0F'',
          param_tokenOut = ''0xC02aaA39b223FE8D0A0e5C4F27eAD9083C756Cc2'',
          param_fee = 3000, param_recipient = exampleWallet, param_deadline = 1700000300,
          param_amountIn = 10 ^ 18, param_amountOutMinimum = 1209, param_sqrtPriceLimitX96 = 0\<rparr>
         \<lparr>gasLimit = Some 180000, val = 0\<rparr>, GotTx ''0xb2''),
      (CallWait ''0xb2'', GotReceipt ''0xb2'')]
   \<and> \<not> approvedBeforeSwap (10 ^ 18)
        (trace (snd (post_swap_first exampleEnv (Some exampleKey)
           \<lparr>body_amountIn = Str ''1'', body_tokenIn = Str ''dai'', body_tokenOut = Str ''weth''\<rparr>
           (fresh 0))))"
proof -
  let ?req = "\<lparr>body_amountIn = Str ''1'', body_tokenIn = Str ''dai'', body_tokenOut = Str ''weth''\<rparr>"
  let ?dai = "''0x6B175474E89094C44Da98b954EedeAC495271d0F''"
  let ?weth = "''0xC02aaA39b223FE8D0A0e5C4F27eAD9083C756Cc2''"
  let ?p = "\<lparr>param_tokenIn = ?dai, param_tokenOut = ?weth,
          param_fee = 3000, param_recipient = exampleWallet, param_deadline = 1700000300,
          param_amountIn = 10 ^ 18, param_amountOutMinimum = 1209, param_sqrtPriceLimitX96 = 0\<rparr>"
  let ?tr = "[(CallQuote ?dai ?weth 500 (10 ^ 18) 0, Threw ''execution reverted''),
      (CallQuote ?dai ?weth 3000 (10 ^ 18) 0, GotNumber 1234),
      (CallEstimateGas ?p, GotNumber 150000),
      (CallSwap ?p \<lparr>gasLimit = Some 180000, val = 0\<rparr>, GotTx ''0xb2''),
      (CallWait ''0xb2'', GotReceipt ''0xb2'')]"
  have a: "fst (allowance exampleNode ?dai exampleWallet UNISWAP_V3_ROUTER_ADDRESS 0) = Inr 0"
    by (simp add: exampleNode_def)
  have p: "e_parseEther exampleEnv (Str ''1'') = Inr (10 ^ 18)"
    by (simp add: run_eval)
  have run: "post_swap_first exampleEnv (Some exampleKey) ?req (fresh 0) =
      (\<lparr>status = 200, body = SwapBody ''0xb2''\<rparr>,
       \<lparr>world = 5, trace = ?tr,
        console = [(Stdout, [Text ''Authorization Header Received:'', Text exampleKey]),
                   (Stderr, [Text ''Fee tier '', Num 500, Text '' failed: '', Text ''execution reverted'']),
                   (Stdout, [Text ''Estimated gas: '', Num 150000, Text '', Gas limit: '', Num 180000])]\<rparr>)"
    by (simp add: post_swap_first_def swap_try_first_def run_eval lower_eval
        gasLimitWithBuffer_def MAX_GAS_LIMIT_def exampleKey_def)
  have "approvalState (10 ^ 18) ?tr = Violated"
    by (simp add: approvalState_def)
  then have "\<not> approvedBeforeSwap (10 ^ 18) ?tr"
    by (simp add: approvedBeforeSwap_def)
  with a p run show ?thesis
    by simp
qed

text \<open>On the same node the script and the second handler read the allowance, approve, wait
  for the approval and then swap.\<close>

lemma example_post_swap_trace:
  "trace (snd (post_swap exampleEnv (Some exampleKey)
      \<lparr>body_amountIn = Str ''1'', body_tokenIn = Str ''dai'', body_tokenOut = Str ''weth''\<rparr>
      (fresh 0))) =
     [(CallBalanceOf ''0x6B175474E89094C44Da98b954EedeAC495271d0F'' exampleWallet, GotNumber (10 ^ 18)),
      (CallAllowance ''0x6B175474E89094C44Da98b954EedeAC495271d0F'' exampleWallet UNISWAP_V3_ROUTER_ADDRESS,
         GotNumber 0),
      (CallApprove ''0x6B175474E89094C44Da98b954EedeAC495271d0F'' UNISWAP_V3_ROUTER_ADDRESS MaxUint256,
         GotTx ''0xa1''),
      (CallWait ''0xa1'', GotReceipt ''0xa1''),
      (CallQuote ''0x6B175474E89094C44Da98b954EedeAC495271d0F'' ''0xC02aaA39b223FE8D0A0e5C4F27eAD9083C756Cc2''
         500 (10 ^ 18) 0, Threw ''execution reverted''),
      (CallQuote ''0x6B175474E89094C44Da98b954EedeAC495271d0F'' ''0xC02aaA39b223FE8D0A0e5C4F27eAD9083C756Cc2''
         3000 (10 ^ 18) 0, GotNumber 1234),
      (CallSwap
         \<lparr>param_tokenIn = ''0x6B175474E89094C44Da98b954EedeAC495271d0F'',
          param_tokenOut = ''0xC02aaA39b223FE8D0A0e5C4F27eAD9083C756Cc2'',
          param_fee = 3000, param_recipient = exampleWallet, param_deadline = 1700000300,
          param_amountIn = 10 ^ 18, param_amountOutMinimum = 1221, param_sqrtPriceLimitX96 = 0\<rparr>
         \<lparr>gasLimit = Some 300000, val = 0\<rparr>, GotTx ''0xb2''),
      (CallWait ''0xb2'', GotReceipt ''0xb2'')]"
  by (simp add: post_swap_def swap_try_def swap_send_def run_eval lower_eval exampleKey_def
      MAX_GAS_LIMIT_def amountOutMinimum_def calculateSlippage_def BASE_SLIPPAGE_def MAX_SLIPPAGE_def
      exactFromNumber_def signed_divide_int_def)

lemma example_post_swap_byAddress_trace:
  "trace (snd (post_swap_byAddress exampleEnv (Some exampleKey)
      \<lparr>body_amountIn = Str ''1'', body_tokenIn = Str ''0x6B175474E89094C44Da98b954EedeAC495271d0F'',
       body_tokenOut = Str ''eth''\<rparr>
      (fresh 0))) =
     [(CallBalanceOf ''0x6B175474E89094C44Da98b954EedeAC495271d0F'' exampleWallet, GotNumber (10 ^ 18)),
      (CallAllowance ''0x6B175474E89094C44Da98b954EedeAC495271d0F'' exampleWallet UNISWAP_V3_ROUTER_ADDRESS,
         GotNumber 0),
      (CallApprove ''0x6B175474E89094C44Da98b954EedeAC495271d0F'' UNISWAP_V3_ROUTER_ADDRESS MaxUint256,
         GotTx ''0xa1''),
      (CallWait ''0xa1'', GotReceipt ''0xa1''),
      (CallQuote ''0x6B175474E89094C44Da98b954EedeAC495271d0F'' ''0xC02aaA39b223FE8D0A0e5C4F27eAD9083C756Cc2''
         500 (10 ^ 18) 0, Threw ''execution reverted''),
      (CallQuote ''0x6B175474E89094C44Da98b954EedeAC495271d0F'' ''0xC02aaA39b223FE8D0A0e5C4F27eAD9083C756Cc2''
         3000 (10 ^ 18) 0, GotNumber 1234),
      (CallSwap
         \<lparr>param_tokenIn = ''0x6B175474E89094C44Da98b954EedeAC495271d0F'',
          param_tokenOut = ''0xC02aaA39b223FE8D0A0e5C4F27eAD9083C756Cc2'',
          param_fee = 3000, param_recipient = exampleWallet, param_deadline = 1700000300,
          param_amountIn = 10 ^ 18, param_amountOutMinimum = 1209, param_sqrtPriceLimitX96 = 0\<rparr>
         \<lparr>gasLimit = Some 500000, val = 0\<rparr>, GotTx ''0xb2''),
      (CallWait ''0xb2'', GotReceipt ''0xb2'')]"
  by (simp add: post_swap_byAddress_def swap_try_byAddress_def swap_send_byAddress_def
      getBestQuote_byAddress_def feeTiers_byAddress_def findTokenAddress_byAddress_def
      calculateSlippage_byAddress_def MAX_GAS_LIMIT_byAddress_def WETH_ADDRESS_def
      run_eval lower_eval exampleKey_def amountOutMinimum_def
      exactFromNumber_def signed_divide_int_def)

lemma example_script_trace:
  "trace (snd (main exampleEnv exampleWallet (fresh 0))) =
     [(CallBalanceOf ''0xC02aaA39b223FE8D0A0e5C4F27eAD9083C756Cc2'' exampleWallet, GotNumber (10 ^ 18)),
      (CallAllowance ''0xC02aaA39b223FE8D0A0e5C4F27eAD9083C756Cc2'' exampleWallet UNISWAP_V3_ROUTER_ADDRESS,
         GotNumber 0),
      (CallApprove ''0xC02aaA39b223FE8D0A0e5C4F27eAD9083C756Cc2'' UNISWAP_V3_ROUTER_ADDRESS MaxUint256,
         GotTx ''0xa1''),
      (CallWait ''0xa1'', GotReceipt ''0xa1''),
      (CallQuote ''0xC02aaA39b223FE8D0A0e5C4F27eAD9083C756Cc2'' ''0xB8c77482e45F1F44dE1745F52C74426C631bDD52''
         500 500000000000000 0, Threw ''execution reverted''),
      (CallQuote ''0xC02aaA39b223FE8D0A0e5C4F27eAD9083C756Cc2'' ''0xB8c77482e45F1F44dE1745F52C74426C631bDD52''
         3000 500000000000000 0, GotNumber 1234),
      (CallSwap
         \<lparr>param_tokenIn = ''0xC02aaA39b223FE8D0A0e5C4F27eAD9083C756Cc2'',
          param_tokenOut = ''0xB8c77482e45F1F44dE1745F52C74426C631bDD52'',
          param_fee = 3000, param_recipient = exampleWallet, param_deadline = 1700000300,
          param_amountIn = 500000000000000, param_amountOutMinimum = 1221, param_sqrtPriceLimitX96 = 0\<rparr>
         \<lparr>gasLimit = Some 300000, val = 0\<rparr>, GotTx ''0xb2''),
      (CallWait ''0xb2'', GotReceipt ''0xb2'')]"
  by (simp add: main_def main_for_def script_swap_def main_query run_eval lower_eval
      amountOutMinimum_def calculateSlippage_def BASE_SLIPPAGE_def MAX_SLIPPAGE_def
      exactFromNumber_def signed_divide_int_def)

theorem approval_before_swap_witness:
  "parseUserQuery ''swap 1 WETH with DAI'' = Inr (''1'', ''weth'', ''dai'')
   \<and> e_parseEther exampleEnv (Str ''1'') = Inr (10 ^ 18)
   \<and> (10 ^ 18 :: int) \<le> int MaxUint256
   \<and> e_parseEther exampleEnv (Str ''0.0005'') = Inr 500000000000000
   \<and> (500000000000000 :: int) \<le> int MaxUint256
   \<and> approvedBeforeSwap 500000000000000 (trace (snd (main exampleEnv exampleWallet (fresh 0))))
   \<and> approvalState 500000000000000 (trace (snd (main exampleEnv exampleWallet (fresh 0)))) =
       Confirmed ''0xC02aaA39b223FE8D0A0e5C4F27eAD9083C756Cc2''
   \<and> \<not> nativeInput \<lparr>body_amountIn = Str ''1'', body_tokenIn = Str ''dai'', body_tokenOut = Str ''weth''\<rparr>
   \<and> \<not> nativeInput \<lparr>body_amountIn = Str ''1'',
          body_tokenIn = Str ''0x6B175474E89094C44Da98b954EedeAC495271d0F'', body_tokenOut = Str ''eth''\<rparr>
   \<and> approvedBeforeSwap (10 ^ 18)
        (trace (snd (main_for exampleEnv exampleWallet ''swap 1 WETH with DAI'' (fresh 0))))
   \<and> approvalState (10 ^ 18)
        (trace (snd (main_for exampleEnv exampleWallet ''swap 1 WETH with DAI'' (fresh 0)))) =
       Confirmed ''0xC02aaA39b223FE8D0A0e5C4F27eAD9083C756Cc2''
   \<and> approvedBeforeSwap (10 ^ 18)
        (trace (snd (post_swap exampleEnv (Some exampleKey)
           \<lparr>body_amountIn = Str ''1'', body_tokenIn = Str ''dai'', body_tokenOut = Str ''weth''\<rparr>
           (fresh 0))))
   \<and> approvalState (10 ^ 18)
        (trace (snd (post_swap exampleEnv (Some exampleKey)
           \<lparr>body_amountIn = Str ''1'', body_tokenIn = Str ''dai'', body_tokenOut = Str ''weth''\<rparr>
           (fresh 0)))) =
       Confirmed ''0x6B175474E89094C44Da98b954EedeAC495271d0F''
   \<and> approvedBeforeSwap (10 ^ 18)
        (trace (snd (post_swap_byAddress exampleEnv (Some exampleKey)
           \<lparr>body_amountIn = Str ''1'', body_tokenIn = Str ''0x6B175474E89094C44Da98b954EedeAC495271d0F'',
            body_tokenOut = Str ''eth''\<rparr>
           (fresh 0))))
   \<and> approvalState (10 ^ 18)
        (trace (snd (post_swap_byAddress exampleEnv (Some exampleKey)
           \<lparr>body_amountIn = Str ''1'', body_tokenIn = Str ''0x6B175474E89094C44Da98b954EedeAC495271d0F'',
            body_tokenOut = Str ''eth''\<rparr>
           (fresh 0)))) =
       Confirmed ''0x6B175474E89094C44Da98b954EedeAC495271d0F''"
proof -
  let ?req = "\<lparr>body_amountIn = Str ''1'', body_tokenIn = Str ''dai'', body_tokenOut = Str ''weth''\<rparr>"
  let ?req' = "\<lparr>body_amountIn = Str ''1'',
      body_tokenIn = Str ''0x6B175474E89094C44Da98b954EedeAC495271d0F'', body_tokenOut = Str ''eth''\<rparr>"
  have q: "parseUserQuery ''swap 1 WETH with DAI'' = Inr (''1'', ''weth'', ''dai'')"
    by (rule example_query)
  have p: "e_parseEther exampleEnv (Str ''1'') = Inr (10 ^ 18)"
    by (simp add: run_eval)
  have u: "(10 ^ 18 :: int) \<le> int MaxUint256"
    by (simp add: MaxUint256_def)
  have p': "e_parseEther exampleEnv (Str ''0.0005'') = Inr 500000000000000"
    by (simp add: run_eval)
  have u': "(500000000000000 :: int) \<le> int MaxUint256"
    by (simp add: MaxUint256_def)
  have m': "approvalState 500000000000000 (trace (snd (main exampleEnv exampleWallet (fresh 0)))) =
       Confirmed ''0xC02aaA39b223FE8D0A0e5C4F27eAD9083C756Cc2''"
    by (simp only: example_script_trace) (simp add: approvalState_def readAllowance_def MaxUint256_def)
  have n: "\<not> nativeInput ?req"
    by (simp add: nativeInput_def lower_eval)
  have n': "\<not> nativeInput ?req'"
    by (simp add: nativeInput_def lower_eval)
  have m: "approvalState (10 ^ 18)
        (trace (snd (main_for exampleEnv exampleWallet ''swap 1 WETH with DAI'' (fresh 0)))) =
       Confirmed ''0xC02aaA39b223FE8D0A0e5C4F27eAD9083C756Cc2''"
    by (simp only: example_main_trace) (simp add: approvalState_def readAllowance_def MaxUint256_def)
  have h: "approvalState (10 ^ 18) (trace (snd (post_swap exampleEnv (Some exampleKey) ?req (fresh 0)))) =
       Confirmed ''0x6B175474E89094C44Da98b954EedeAC495271d0F''"
    by (simp only: example_post_swap_trace) (simp add: approvalState_def readAllowance_def MaxUint256_def)
  have h': "approvalState (10 ^ 18)
        (trace (snd (post_swap_byAddress exampleEnv (Some exampleKey) ?req' (fresh 0)))) =
       Confirmed ''0x6B175474E89094C44Da98b954EedeAC495271d0F''"
    by (simp only: example_post_swap_byAddress_trace) (simp add: approvalState_def readAllowance_def MaxUint256_def)
  from approval_before_swap [of "''swap 1 WETH with DAI''" exampleEnv exampleWallet 0 ?req
      "Some exampleKey"] q p n u p' u'
  have "approvedBeforeSwap (10 ^ 18)
        (trace (snd (main_for exampleEnv exampleWallet ''swap 1 WETH with DAI'' (fresh 0))))
    \<and> approvedBeforeSwap 500000000000000 (trace (snd (main exampleEnv exampleWallet (fresh 0))))
    \<and> approvedBeforeSwap (10 ^ 18) (trace (snd (post_swap exampleEnv (Some exampleKey) ?req (fresh 0))))"
    by simp
  moreover from approval_before_swap [of "''swap 1 WETH with DAI''" exampleEnv exampleWallet 0 ?req'
      "Some exampleKey"] p n' u
  have "approvedBeforeSwap (10 ^ 18)
        (trace (snd (post_swap_byAddress exampleEnv (Some exampleKey) ?req' (fresh 0))))"
    by simp
  ultimately show ?thesis
    using q p n n' u p' u' m m' h h' by simp
qed
section \<open>The reference library has the assumed properties\<close>

lemma length_keccak256_bytes: "length (keccak256_bytes bs) = 32"
  by (simp add: keccak256_bytes_def bytes_of_lane_def Let_def)

lemma hexDigits_nth: "i < 16 \<Longrightarrow> hexDigits ! i \<in> set hexDigits"
proof -
  assume "i < 16"
  moreover have "length hexDigits = 16"
    by (simp add: hexDigits_def)
  ultimately have "i < length hexDigits"
    by simp
  then show ?thesis
    by (rule nth_mem)
qed

lemma isHex_hexOfByte: "isHex (hexOfByte b)"
  by (simp add: isHex_def hexOfByte_def hexDigits_nth)

lemma isHex_concat: "(\<And>x. x \<in> set xs \<Longrightarrow> isHex x) \<Longrightarrow> isHex (concat xs)"
  by (induction xs) (simp_all add: isHex_def)

lemma isHash_hexlify: "length bs = 32 \<Longrightarrow> isHash (hexlify bs)"
proof -
  assume len: "length bs = 32"
  have "length (concat (map hexOfByte bs)) = 2 * length bs"
    by (induction bs) (simp_all add: hexOfByte_def)
  moreover have "isHex (concat (map hexOfByte bs))"
    by (rule isHex_concat) (auto simp: isHex_hexOfByte)
  ultimately show ?thesis
    using len by (simp add: isHash_def hexlify_def)
qed

lemma keccak256_ref_returnsHashes: "returnsHashes keccak256_ref"
  by (auto simp: returnsHashes_def keccak256_ref_def isHash_hexlify length_keccak256_bytes
      split: if_splits)

lemma keccak256_ref_hashesTyped: "hashesTyped keccak256_ref"
  by (simp add: hashesTyped_def keccak256_ref_def)

lemma lower_upper_char: "lower_char (upper_char c) = lower_char c"
proof (cases "97 \<le> (of_char c :: nat) \<and> (of_char c :: nat) \<le> 122")
  case True
  then have "((of_char c :: nat) - 32) mod 256 = of_char c - 32"
    by (intro mod_less) arith
  with True have u: "(of_char (upper_char c) :: nat) = of_char c - 32"
    by (simp add: upper_char_def)
  from True have "65 \<le> (of_char c :: nat) - 32 \<and> (of_char c :: nat) - 32 \<le> 90"
    by arith
  then have "lower_char (upper_char c) = char_of ((of_char c :: nat) - 32 + 32)"
    by (simp add: lower_char_def u)
  also have "\<dots> = c"
    using True by simp
  also have "c = lower_char c"
    using True by (simp add: lower_char_def)
  finally show ?thesis .
next
  case False
  then show ?thesis
    by (auto simp: upper_char_def)
qed

lemma toLowerCase_checksumDigits:
  assumes "length ds = 40"
  shows "toLowerCase (checksumDigits ds) = toLowerCase ds"
proof -
  have "map lower_char (map2 (\<lambda>c n. if 8 \<le> n then upper_char c else c) xs ns) = map lower_char xs"
    if "length xs \<le> length ns" for xs :: string and ns :: "nat list"
    using that
  proof (induction xs arbitrary: ns)
    case Nil
    show ?case by simp
  next
    case (Cons x xs)
    then obtain n rest where ns: "ns = n # rest"
      by (cases ns) auto
    with Cons show ?case
      by (simp add: lower_upper_char)
  qed
  moreover have "length (nibbles (keccak256_bytes (map of_char ds))) = 64"
    using length_keccak256_bytes [of "map of_char ds"]
    by (simp add: nibbles_def length_concat o_def sum_list_triv)
  ultimately show ?thesis
    using assms by (simp add: toLowerCase_def checksumDigits_def)
qed

lemma length_checksumDigits:
  assumes "length ds = 40"
  shows "length (checksumDigits ds) = 40"
proof -
  have "length (nibbles (keccak256_bytes (map of_char ds))) = 64"
    using length_keccak256_bytes [of "map of_char ds"]
    by (simp add: nibbles_def length_concat o_def sum_list_triv)
  with assms show ?thesis
    by (simp add: checksumDigits_def)
qed

lemma toLowerCase_append: "toLowerCase (xs @ ys) = toLowerCase xs @ toLowerCase ys"
  by (simp add: toLowerCase_def)

lemma length_toLowerCase: "length (toLowerCase s) = length s"
  by (simp add: toLowerCase_def)

text \<open>The checksummed form of an address and its lower-case form.\<close>

lemma getChecksumAddress_lower:
  assumes "isAddress a"
  shows "toLowerCase (getChecksumAddress a) = ''0x'' @ toLowerCase (drop 2 a)"
    and "isAddress (getChecksumAddress a)"
proof -
  let ?ds = "toLowerCase (drop 2 a)"
  from assms have len: "length ?ds = 40" and hex: "isHex ?ds"
    by (simp_all add: isAddress_def length_toLowerCase)
  have low: "toLowerCase (checksumDigits ?ds) = ?ds"
    using toLowerCase_checksumDigits [OF len] by (simp add: toLowerCase_idem)
  have x: "toLowerCase ''0x'' = ''0x''"
    by (simp add: lower_eval)
  show "toLowerCase (getChecksumAddress a) = ''0x'' @ ?ds"
    by (simp only: getChecksumAddress_def toLowerCase_append low x)
  show "isAddress (getChecksumAddress a)"
    using length_checksumDigits [OF len] hex low
    by (simp add: isAddress_def getChecksumAddress_def)
qed

lemma getAddress_ref_Inr:
  assumes "getAddress_ref s = Inr r"
  obtains a where "isAddress a" and "r = getChecksumAddress a"
  using assms by (auto simp: getAddress_ref_def Let_def split: if_splits)

lemma getAddress_ref_returnsAddresses: "returnsAddresses getAddress_ref"
  unfolding returnsAddresses_def
proof (intro allI impI)
  fix s r
  assume "getAddress_ref s = Inr r"
  then obtain a where "isAddress a" and "r = getChecksumAddress a"
    by (rule getAddress_ref_Inr)
  then show "isAddress r"
    by (simp add: getChecksumAddress_lower(2))
qed

lemma getAddress_ref_canonical: "canonical getAddress_ref"
  unfolding canonical_def
proof (intro allI impI, elim conjE)
  fix s t r1 r2
  assume "getAddress_ref s = Inr r1" and "getAddress_ref t = Inr r2"
    and low: "toLowerCase r1 = toLowerCase r2"
  then obtain a b where a: "isAddress a" "r1 = getChecksumAddress a"
    and b: "isAddress b" "r2 = getChecksumAddress b"
    by (metis getAddress_ref_Inr)
  from low a b have "''0x'' @ toLowerCase (drop 2 a) = ''0x'' @ toLowerCase (drop 2 b)"
    by (simp only: getChecksumAddress_lower(1))
  then have "toLowerCase (drop 2 a) = toLowerCase (drop 2 b)"
    by simp
  with a b show "r1 = r2"
    by (simp add: getChecksumAddress_def)
qed

lemma isHex_not_upper: "isHex ds \<Longrightarrow> \<not> list_ex (\<lambda>c. c \<in> set ''ABCDEF'') ds"
  by (induction ds) (auto simp: isHex_def hexDigits_def)

lemma getAddress_ref_acceptsLowerCase: "acceptsLowerCase getAddress_ref"
  unfolding acceptsLowerCase_def
proof (intro allI impI, elim conjE)
  fix ds :: string
  assume hex: "isHex ds" and len: "length ds = 40"
  have "isAddress (''0x'' @ ds)"
    using hex len by (simp add: isAddress_def toLowerCase_isHex)
  moreover have "\<not> mixedCase (''0x'' @ ds)"
    using isHex_not_upper [OF hex] by (simp add: mixedCase_def)
  ultimately have "getAddress_ref (''0x'' @ ds) = Inr (getChecksumAddress (''0x'' @ ds))"
    by (simp add: getAddress_ref_def)
  then show "\<exists>a. getAddress_ref (''0x'' @ ds) = Inr a" ..
qed

section \<open>The locator on the reference library\<close>

text \<open>The addresses of WETH and DAI in lower case are well-formed.\<close>

lemma getAddress_ref_lower:
  assumes "isHex ds" and "length ds = 40"
  shows "\<exists>a. getAddress_ref (''0x'' @ ds) = Inr a"
  using getAddress_ref_acceptsLowerCase assms unfolding acceptsLowerCase_def by blast

lemma weth_wellFormed: "\<exists>a. getAddress_ref ''0xc02aaa39b223fe8d0a0e5c4f27ead9083c756cc2'' = Inr a"
  using getAddress_ref_lower [of "''c02aaa39b223fe8d0a0e5c4f27ead9083c756cc2''"]
  by (simp add: isHex_def hexDigits_def)

lemma dai_wellFormed: "\<exists>a. getAddress_ref ''0x6b175474e89094c44da98b954eedeac495271d0f'' = Inr a"
  using getAddress_ref_lower [of "''6b175474e89094c44da98b954eedeac495271d0f''"]
  by (simp add: isHex_def hexDigits_def)

theorem getPoolAddress_order_independent_witness:
  "canonical getAddress_ref
   \<and> (\<exists>a. getAddress_ref ''0xc02aaa39b223fe8d0a0e5c4f27ead9083c756cc2'' = Inr a)
   \<and> (\<exists>b. getAddress_ref ''0x6b175474e89094c44da98b954eedeac495271d0f'' = Inr b)
   \<and> getPoolAddress getAddress_ref keccak256_ref
        ''0xc02aaa39b223fe8d0a0e5c4f27ead9083c756cc2'' ''0x6b175474e89094c44da98b954eedeac495271d0f'' 3000 =
      getPoolAddress getAddress_ref keccak256_ref
        ''0x6b175474e89094c44da98b954eedeac495271d0f'' ''0xc02aaa39b223fe8d0a0e5c4f27ead9083c756cc2'' 3000"
proof -
  from weth_wellFormed obtain a where a: "getAddress_ref ''0xc02aaa39b223fe8d0a0e5c4f27ead9083c756cc2'' = Inr a" ..
  from dai_wellFormed obtain b where b: "getAddress_ref ''0x6b175474e89094c44da98b954eedeac495271d0f'' = Inr b" ..
  from getPoolAddress_order_independent [OF getAddress_ref_canonical a b, of keccak256_ref 3000]
    getAddress_ref_canonical weth_wellFormed dai_wellFormed
  show ?thesis
    by (simp only: simp_thms)
qed

theorem getPoolAddress_algorithm_witness:
  "canonical getAddress_ref \<and> returnsHashes keccak256_ref
   \<and> getPoolAddress getAddress_ref keccak256_ref
        ''0xc02aaa39b223fe8d0a0e5c4f27ead9083c756cc2'' ''0x6b175474e89094c44da98b954eedeac495271d0f'' 3000 =
      locatePool getAddress_ref keccak256_ref
        ''0xc02aaa39b223fe8d0a0e5c4f27ead9083c756cc2'' ''0x6b175474e89094c44da98b954eedeac495271d0f'' 3000"
  using getPoolAddress_algorithm [OF getAddress_ref_canonical keccak256_ref_returnsHashes,
      of "''0xc02aaa39b223fe8d0a0e5c4f27ead9083c756cc2''" "''0x6b175474e89094c44da98b954eedeac495271d0f''" 3000]
    getAddress_ref_canonical keccak256_ref_returnsHashes
  by (simp only: simp_thms)

lemma getAddress_ref_short: "getAddress_ref ''0x123'' = Inl ''invalid address''"
  by (simp add: getAddress_ref_def isAddress_def)

theorem getPoolAddress_invalid_address_witness:
  "getAddress_ref ''0x123'' = Inl ''invalid address''
   \<and> getPoolAddress getAddress_ref keccak256_ref
        ''0x123'' ''0x6b175474e89094c44da98b954eedeac495271d0f'' 3000 = Inl (InvalidAddress ''invalid address'')
   \<and> (\<exists>a. getAddress_ref ''0xc02aaa39b223fe8d0a0e5c4f27ead9083c756cc2'' = Inr a)
   \<and> getPoolAddress getAddress_ref keccak256_ref
        ''0xc02aaa39b223fe8d0a0e5c4f27ead9083c756cc2'' ''0x123'' 3000 = Inl (InvalidAddress ''invalid address'')
   \<and> (\<exists>b. getAddress_ref ''0x6b175474e89094c44da98b954eedeac495271d0f'' = Inr b)
   \<and> returnsAddresses getAddress_ref \<and> acceptsLowerCase getAddress_ref
   \<and> returnsHashes keccak256_ref \<and> hashesTyped keccak256_ref \<and> (3000 :: nat) < 2 ^ 24
   \<and> (\<exists>pool. getPoolAddress getAddress_ref keccak256_ref
        ''0xc02aaa39b223fe8d0a0e5c4f27ead9083c756cc2'' ''0x6b175474e89094c44da98b954eedeac495271d0f'' 3000 =
        Inr pool)"
proof -
  let ?weth = "''0xc02aaa39b223fe8d0a0e5c4f27ead9083c756cc2''"
  let ?dai = "''0x6b175474e89094c44da98b954eedeac495271d0f''"
  note lib = getAddress_ref_returnsAddresses getAddress_ref_acceptsLowerCase
    keccak256_ref_returnsHashes keccak256_ref_hashesTyped
  have fee: "(3000 :: nat) < 2 ^ 24"
    by simp
  from getPoolAddress_invalid_address [of getAddress_ref "''0x123''" keccak256_ref ?dai 3000]
    getAddress_ref_short
  have first: "getPoolAddress getAddress_ref keccak256_ref ''0x123'' ?dai 3000 =
      Inl (InvalidAddress ''invalid address'')"
    by blast
  from getPoolAddress_invalid_address [of getAddress_ref ?weth keccak256_ref "''0x123''" 3000]
    getAddress_ref_short weth_wellFormed
  have second: "getPoolAddress getAddress_ref keccak256_ref ?weth ''0x123'' 3000 =
      Inl (InvalidAddress ''invalid address'')"
    by blast
  from getPoolAddress_invalid_address [of getAddress_ref ?weth keccak256_ref ?dai 3000]
    lib fee weth_wellFormed dai_wellFormed
  have both: "\<exists>pool. getPoolAddress getAddress_ref keccak256_ref ?weth ?dai 3000 = Inr pool"
    by blast
  from first second both lib fee getAddress_ref_short weth_wellFormed dai_wellFormed
  show ?thesis
    by (simp only: simp_thms)
qed

end
